theory Spec2Isabelle
  imports Main
begin

section \<open>The provider as the scripts see it\<close>

text \<open>
  The two scripts \<^verbatim>\<open>deployment/cleanup.py\<close> and \<^verbatim>\<open>deployment/deploy_mcp.py\<close> are
  sequential programs whose every step is a call to the cloud provider (through boto3 or
  the AgentCore starter toolkit), a sleep, a line printed, or a line read. The model
  makes that explicit:
  \<^item> every call either returns a value or raises, so its answer is a value of
    \<open>exn + 'a\<close> (\<open>Inl\<close> the exception);
  \<^item> the provider is a record of answers, one field per operation; inside a polling
    loop the answer is indexed by the number of the attempt, so that it may change
    from one poll to the next;
  \<^item> each function returns its Python result together with the list of events it
    produced, in order: the calls with their outcome, the sleeps, the lines printed.
  Of the printed report the lines that tell an outcome are kept, without their
  leading pictograph; banners and progress lines are left out.
\<close>

datatype service = AgentCore | Cognito | SecretsManager | IAM | S3 | DynamoDB | STS

datatype error_code =
    ResourceNotFoundException
  | NoSuchBucket
  | NoSuchEntityException
  | LimitExceededException
  | InvalidParameterException
  | EntityAlreadyExistsException
  | AccessDeniedException
  | OtherCode string

text \<open>
  botocore builds the exception classes of each client from that service's model, so
  \<^verbatim>\<open>secrets_client.exceptions.ResourceNotFoundException\<close> does not catch the exception
  of the same name raised by another service: an exception carries its service.
\<close>

datatype exn =
    ClientError service error_code
  | KeyError string
  | NameError string
  | FileNotFoundError string
  | OSError string
  | ValueError string
  | Exception string

fun str_code :: "error_code \<Rightarrow> string" where
  "str_code ResourceNotFoundException = ''ResourceNotFoundException''"
| "str_code NoSuchBucket = ''NoSuchBucket''"
| "str_code NoSuchEntityException = ''NoSuchEntity''"
| "str_code LimitExceededException = ''LimitExceededException''"
| "str_code InvalidParameterException = ''InvalidParameterException''"
| "str_code EntityAlreadyExistsException = ''EntityAlreadyExists''"
| "str_code AccessDeniedException = ''AccessDeniedException''"
| "str_code (OtherCode s) = s"

text \<open>
  \<^verbatim>\<open>str(e)\<close>. For an exception of the provider botocore's text goes on after the
  code with the name of the operation and the message of the service, which the model
  does not carry: \<open>str_exn\<close> gives the text up to the code. The results below name
  the text of a provider's exception only as \<open>str_exn e\<close>; none spells it out.
\<close>

fun str_exn :: "exn \<Rightarrow> string" where
  "str_exn (ClientError s c) = ''An error occurred ('' @ str_code c @ '')''"
| "str_exn (KeyError k) = [CHR 0x27] @ k @ [CHR 0x27]"
| "str_exn (NameError n) = ''name '' @ [CHR 0x27] @ n @ [CHR 0x27] @ '' is not defined''"
| "str_exn (FileNotFoundError m) = m"
| "str_exn (OSError m) = m"
| "str_exn (ValueError m) = m"
| "str_exn (Exception m) = m"

record runtime_summary =
  agentRuntimeName :: string
  agentRuntimeId :: string
  agentRuntimeArn :: string

record runtimes_page =
  agentRuntimes :: "runtime_summary list"
  nextToken :: "string option"

record jwt_authorizer =
  discoveryUrl :: "string option"
  allowedClients :: "string list"

record runtime_details =
  roleArn :: "string option"
  customJWTAuthorizer :: "jwt_authorizer option"

record objects_page =
  contents :: "string list option"
  is_truncated :: bool

record attached_policy =
  policyName :: string
  policyArn :: string

record policy_document =
  actions :: "string list"
  resources :: "string list"

record cognito_config =
  discovery_url :: string
  service_client_id :: string

record credentials = cognito_config +
  pool_id :: string
  service_client_secret :: string
  oauth_token_url :: string
  domain_prefix :: string

record cognito_setup = credentials +
  secret_arn :: string

record authorizer_configuration =
  cfg_allowedClients :: "string list"
  cfg_discoveryUrl :: string

record config_params =
  entrypoint :: string
  agent_name :: string
  auto_create_execution_role :: bool
  cfg_region :: string
  authorizer :: authorizer_configuration
  protocol :: string
  auto_create_ecr :: bool
  execution_role :: "string option"

datatype call =
    ListAgentRuntimes "string option"
  | GetAgentRuntime string
  | DeleteAgentRuntime string
  | GetSecretValue string
  | CreateSecret string credentials
  | DeleteSecret string
  | CreateUserPool string
  | CreateUserPoolDomain string string
  | CreateResourceServer string string
  | CreateUserPoolClient string
  | DeleteUserPoolDomain string string
  | DeleteUserPool string
  | TableDelete string
  | TableWaitUntilNotExists string
  | ListObjectsV2 string
  | DeleteObjects string "string list"
  | DeleteBucket string
  | ListRoles
  | GetRole string
  | ListRolePolicies string
  | DeleteRolePolicy string string
  | ListAttachedRolePolicies string
  | DetachRolePolicy string string
  | DeleteRole string
  | PutRolePolicy string string policy_document
  | GetCallerIdentity
  | CopyConfigFile
  | RuntimeInit
  | Configure config_params
  | Launch
  | WriteIntegrationDoc string

datatype event =
    Api call "exn option"
  | Sleep nat
  | Print string
  | Input string

text \<open>
  The configuration object, read-only after it is loaded: the values of the loaded file
  that the two scripts read, and \<^verbatim>\<open>config.region\<close>. \<open>bucket_base\<close> is the entry
  \<^verbatim>\<open>s3.bucket_name\<close> of the file, from which the property
  \<^verbatim>\<open>config.s3_bucket_name\<close> builds the name of the bucket at every read.
\<close>

record config =
  mcp_server_name :: string
  applicants_table :: string
  claims_table :: string
  bucket_base :: string
  config_region :: string
  cognito_user_pool_name :: string
  oauth_api_identifier :: string
  model_id :: string

text \<open>
  The places where the two scripts read \<^verbatim>\<open>config.s3_bucket_name\<close>: in
  \<^verbatim>\<open>cleanup.py\<close> the listing before the prompt (line 291) and the bucket step
  (line 175); in \<^verbatim>\<open>deploy_mcp.py\<close> the banner (line 556), the two resources of
  the S3 policy (lines 491 and 492), the line printed before that policy is put
  (line 516), the integration guide (line 440) and the closing summary (line 810).
\<close>

datatype name_read =
    ListingLine
  | BucketStep
  | BannerLine
  | PolicyObjects
  | PolicyBucket
  | PolicyLine
  | GuideLine
  | SummaryLine

text \<open>
  The answers of the provider. \<open>get_agent_runtime\<close> answers the lookups made
  while the listing is searched. \<open>get_agent_runtime_at k\<close> answers the \<open>k\<close>-th
  lookup made after the script has asked for the runtime to be deleted or launched,
  \<open>list_roles_at k\<close> and \<open>get_role_at k\<close> the calls of the \<open>k\<close>-th attempt
  of a polling loop (counted from 1, as the loops count);
  \<open>get_caller_identity_at site\<close> the call that the property
  \<^verbatim>\<open>config.s3_bucket_name\<close> makes when it is read at \<open>site\<close>; the other fields
  answer the calls made once or once per argument.
\<close>

record cloud =
  list_agent_runtimes :: "string option \<Rightarrow> exn + runtimes_page"
  get_agent_runtime :: "string \<Rightarrow> exn + runtime_details"
  delete_agent_runtime :: "string \<Rightarrow> exn + string option"
  get_agent_runtime_at :: "nat \<Rightarrow> string \<Rightarrow> exn + runtime_details"
  get_secret_value :: "string \<Rightarrow> exn + (string \<rightharpoonup> string)"
  delete_user_pool_domain :: "string \<Rightarrow> string \<Rightarrow> exn + unit"
  delete_user_pool :: "string \<Rightarrow> exn + unit"
  table_delete :: "string \<Rightarrow> exn + unit"
  table_wait_until_not_exists :: "string \<Rightarrow> exn + unit"
  list_objects_v2 :: "string \<Rightarrow> exn + objects_page"
  delete_objects :: "string \<Rightarrow> string list \<Rightarrow> exn + unit"
  delete_bucket :: "string \<Rightarrow> exn + unit"
  list_role_policies :: "string \<Rightarrow> exn + string list"
  delete_role_policy :: "string \<Rightarrow> string \<Rightarrow> exn + unit"
  list_attached_role_policies :: "string \<Rightarrow> exn + attached_policy list"
  detach_role_policy :: "string \<Rightarrow> string \<Rightarrow> exn + unit"
  delete_role :: "string \<Rightarrow> exn + unit"
  delete_secret :: "string \<Rightarrow> exn + unit"
  create_user_pool :: "string \<Rightarrow> exn + string"
  create_user_pool_domain :: "string \<Rightarrow> string \<Rightarrow> exn + unit"
  create_resource_server :: "string \<Rightarrow> string \<Rightarrow> exn + unit"
  create_user_pool_client :: "string \<Rightarrow> exn + string \<times> string"
  create_secret :: "string \<Rightarrow> credentials \<Rightarrow> exn + string"
  get_caller_identity :: "exn + string"
  get_caller_identity_at :: "name_read \<Rightarrow> exn + string"
  put_role_policy :: "string \<Rightarrow> string \<Rightarrow> policy_document \<Rightarrow> exn + unit"
  list_roles_at :: "nat \<Rightarrow> exn + string list"
  get_role_at :: "nat \<Rightarrow> string \<Rightarrow> exn + unit"

text \<open>
  The machine the script runs on and the AgentCore starter toolkit: the files it
  looks for, the region of the boto3 session, the eight hexadecimal digits of
  \<^verbatim>\<open>os.urandom(4).hex()\<close>, and the answers of \<^verbatim>\<open>Runtime()\<close>,
  \<^verbatim>\<open>configure\<close> and \<^verbatim>\<open>launch\<close> (the ARN of the launched runtime).
\<close>

record host =
  session_region :: string
  urandom_hex :: string
  path_exists :: "string \<Rightarrow> bool"
  copy2 :: "exn + unit"
  runtime_init :: "exn + unit"
  configure :: "config_params \<Rightarrow> exn + unit"
  launch :: "exn + string"
  write_integration_doc :: "exn + unit"

definition prepend :: "event list \<Rightarrow> 'a \<times> event list \<Rightarrow> 'a \<times> event list" where
  "prepend tr r = (fst r, tr @ snd r)"

text \<open>Python's \<^verbatim>\<open>str(n)\<close> for a natural number.\<close>

fun string_of_nat :: "nat \<Rightarrow> string" where
  "string_of_nat n =
     (if n < 10 then [char_of (48 + n)]
      else string_of_nat (n div 10) @ [char_of (48 + n mod 10)])"

declare string_of_nat.simps [simp del]

text \<open>\<^verbatim>\<open>s.split('/')[-1]\<close>: what follows the last slash, the whole string if there is none.\<close>

definition last_segment :: "string \<Rightarrow> string" where
  "last_segment s = rev (takeWhile (\<lambda>c. c \<noteq> CHR ''/'') (rev s))"

text \<open>Python's \<^verbatim>\<open>sub in s\<close> on strings.\<close>

fun startswith :: "string \<Rightarrow> string \<Rightarrow> bool" where
  "startswith s [] = True"
| "startswith [] (p # ps) = False"
| "startswith (x # xs) (p # ps) = (x = p \<and> startswith xs ps)"

fun str_contains :: "string \<Rightarrow> string \<Rightarrow> bool" where
  "str_contains [] sub = (sub = [])"
| "str_contains (x # xs) sub = (startswith (x # xs) sub \<or> str_contains xs sub)"

text \<open>
  How a stretch of a function ends: it goes on with a value, it leaves through
  \<^verbatim>\<open>sys.exit\<close>, or it raises.
\<close>

datatype 'a outcome = Ok 'a | SysExit nat | Raise exn

definition then_do ::
  "'a outcome \<times> event list \<Rightarrow> ('a \<Rightarrow> 'b outcome \<times> event list) \<Rightarrow> 'b outcome \<times> event list" where
  "then_do m f =
     (case m of
        (Ok a, tr) \<Rightarrow> prepend tr (f a)
      | (SysExit n, tr) \<Rightarrow> (SysExit n, tr)
      | (Raise e, tr) \<Rightarrow> (Raise e, tr))"

definition called :: "call \<Rightarrow> exn + 'a \<Rightarrow> 'a outcome \<times> event list" where
  "called cl r = (case r of Inl e \<Rightarrow> (Raise e, [Api cl (Some e)]) | Inr v \<Rightarrow> (Ok v, [Api cl None]))"

text \<open>A call with its answer, and the event it leaves.\<close>

definition invoked :: "call \<Rightarrow> exn + 'a \<Rightarrow> (exn + 'a) \<times> event list" where
  "invoked cl r = (r, [Api cl (case r of Inl e \<Rightarrow> Some e | Inr v \<Rightarrow> None)])"

text \<open>A step outside every \<^verbatim>\<open>try\<close>: its exception leaves the function.\<close>

definition unhandled :: "(exn + 'a) \<times> event list \<Rightarrow> 'a outcome \<times> event list" where
  "unhandled r = (case r of (Inl e, tr) \<Rightarrow> (Raise e, tr) | (Inr v, tr) \<Rightarrow> (Ok v, tr))"

text \<open>
  A step inside a \<^verbatim>\<open>try\<close> whose handler prints and ends the function: on an
  exception the events of the handler follow, otherwise the rest of the body.
\<close>

definition guarded ::
  "(exn \<Rightarrow> event list) \<Rightarrow> (exn + 'a) \<times> event list \<Rightarrow> ('a \<Rightarrow> event list) \<Rightarrow> event list" where
  "guarded handler r f = (case r of (Inl e, tr) \<Rightarrow> tr @ handler e | (Inr v, tr) \<Rightarrow> tr @ f v)"

section \<open>config_manager.py\<close>

text \<open>\<^verbatim>\<open>bucket_base.replace('{account_id}', account_id)\<close>.\<close>

fun replace_account_id :: "string \<Rightarrow> string \<Rightarrow> string" where
  "replace_account_id [] account_id = []"
| "replace_account_id (x # xs) account_id =
     (if startswith (x # xs) ''{account_id}''
      then account_id @ replace_account_id (drop 11 xs) account_id
      else x # replace_account_id xs account_id)"

text \<open>
  The property \<^verbatim>\<open>s3_bucket_name\<close>, evaluated at every read. When the configured
  name holds the placeholder \<^verbatim>\<open>{account_id}\<close> the property asks STS for the
  account; an exception of that call is caught by the property's own handler and raised
  again as a \<^verbatim>\<open>ValueError\<close>. The result is the name or the exception, with the
  call that was made.
\<close>

definition s3_bucket_name :: "cloud \<Rightarrow> config \<Rightarrow> name_read \<Rightarrow> (exn + string) \<times> event list" where
  "s3_bucket_name c cfg site =
     (if str_contains (bucket_base cfg) ''{account_id}''
      then (case get_caller_identity_at c site of
              Inl e \<Rightarrow>
                (Inl (ValueError (''Failed to construct S3 bucket name: '' @ str_exn e)),
                 [Api GetCallerIdentity (Some e)])
            | Inr account_id \<Rightarrow>
                (Inr (replace_account_id (bucket_base cfg) account_id @ ''-'' @ config_region cfg),
                 [Api GetCallerIdentity None]))
      else (Inr (bucket_base cfg @ ''-'' @ config_region cfg), []))"

section \<open>cleanup.py\<close>

record server_details =
  agent_runtime_id :: string
  agent_arn :: string
  execution_role_arn :: string
  execution_role_name :: string

record cleanup_details = server_details +
  auth_config :: "jwt_authorizer option"

subsection \<open>get_mcp_server_details\<close>

datatype 'a scan = Match 'a | Raised exn | NoMatch

text \<open>
  The \<^verbatim>\<open>for runtime in response.get('agentRuntimes', [])\<close> loop of one page. A
  name match fetches the details: \<^verbatim>\<open>ResourceNotFoundException\<close> there is
  \<^verbatim>\<open>continue\<close>; the handler of any other exception calls \<^verbatim>\<open>logger.error\<close>, and
  the module defines no \<^verbatim>\<open>logger\<close>, so a \<^verbatim>\<open>NameError\<close> leaves the loop;
  \<^verbatim>\<open>runtime_details['roleArn']\<close> raises \<^verbatim>\<open>KeyError\<close> when the key is missing.
\<close>

fun scan_runtimes :: "cloud \<Rightarrow> config \<Rightarrow> runtime_summary list \<Rightarrow> cleanup_details scan \<times> event list" where
  "scan_runtimes c cfg [] = (NoMatch, [])"
| "scan_runtimes c cfg (r # rs) =
     (if agentRuntimeName r = mcp_server_name cfg then
        (case get_agent_runtime c (agentRuntimeId r) of
           Inl e \<Rightarrow>
             if e = ClientError AgentCore ResourceNotFoundException
             then prepend [Api (GetAgentRuntime (agentRuntimeId r)) (Some e)] (scan_runtimes c cfg rs)
             else (Raised (NameError ''logger''), [Api (GetAgentRuntime (agentRuntimeId r)) (Some e)])
         | Inr d \<Rightarrow>
             (case roleArn d of
                None \<Rightarrow> (Raised (KeyError ''roleArn''), [Api (GetAgentRuntime (agentRuntimeId r)) None])
              | Some arn \<Rightarrow>
                  (Match \<lparr>agent_runtime_id = agentRuntimeId r,
                          agent_arn = agentRuntimeArn r,
                          execution_role_arn = arn,
                          execution_role_name = last_segment arn,
                          auth_config = customJWTAuthorizer d\<rparr>,
                   [Api (GetAgentRuntime (agentRuntimeId r)) None])))
      else scan_runtimes c cfg rs)"

text \<open>
  The \<^verbatim>\<open>while True\<close> loop over the pages. \<^verbatim>\<open>... if next_token else ...\<close> sends
  the token only when it is a non-empty string. The listing may never end, so the loop
  is a partial function: \<open>None\<close> is a run that does not return. The third argument
  holds the events so far. Any exception ends in the outer handler, which prints and
  returns \<^verbatim>\<open>None\<close>.
\<close>

definition sent_token :: "string option \<Rightarrow> string option" where
  "sent_token t = (case t of None \<Rightarrow> None | Some s \<Rightarrow> if s = [] then None else Some s)"

partial_function (option) details_pages ::
  "cloud \<Rightarrow> config \<Rightarrow> string option \<Rightarrow> event list \<Rightarrow> (cleanup_details option \<times> event list) option" where
  "details_pages c cfg next_token tr =
     (case list_agent_runtimes c (sent_token next_token) of
        Inl e \<Rightarrow>
          Some (None, tr @ [Api (ListAgentRuntimes (sent_token next_token)) (Some e),
                            Print (''Error getting MCP server details: '' @ str_exn e)])
      | Inr response \<Rightarrow>
          (case scan_runtimes c cfg (agentRuntimes response) of
             (Match d, tr') \<Rightarrow>
               Some (Some d, tr @ Api (ListAgentRuntimes (sent_token next_token)) None # tr')
           | (Raised e, tr') \<Rightarrow>
               Some (None, tr @ Api (ListAgentRuntimes (sent_token next_token)) None # tr'
                             @ [Print (''Error getting MCP server details: '' @ str_exn e)])
           | (NoMatch, tr') \<Rightarrow>
               (case nextToken response of
                  None \<Rightarrow> Some (None, tr @ Api (ListAgentRuntimes (sent_token next_token)) None # tr')
                | Some t \<Rightarrow>
                    details_pages c cfg (Some t)
                      (tr @ Api (ListAgentRuntimes (sent_token next_token)) None # tr'))))"

definition get_mcp_server_details :: "cloud \<Rightarrow> config \<Rightarrow> (cleanup_details option \<times> event list) option" where
  "get_mcp_server_details c cfg = details_pages c cfg None []"

subsection \<open>cleanup_agentcore_runtime\<close>

definition max_attempts :: nat where
  "max_attempts = 20"

definition sleep_time :: "nat \<Rightarrow> nat" where
  "sleep_time attempt = min (5 + attempt * 2) 15"

text \<open>
  The \<^verbatim>\<open>while attempt < max_attempts\<close> loop: the attempt is counted, the loop
  sleeps, then looks the runtime up. \<^verbatim>\<open>ResourceNotFoundException\<close> returns
  \<^verbatim>\<open>True\<close>; a lookup that succeeds and any other exception go round again.
\<close>

function wait_for_deletion :: "cloud \<Rightarrow> string \<Rightarrow> nat \<Rightarrow> bool \<times> event list" where
  "wait_for_deletion c rid attempt =
     (if attempt < max_attempts then
        (case get_agent_runtime_at c (attempt + 1) rid of
           Inr d \<Rightarrow>
             prepend [Sleep (sleep_time (attempt + 1)), Api (GetAgentRuntime rid) None]
               (wait_for_deletion c rid (attempt + 1))
         | Inl e \<Rightarrow>
             if e = ClientError AgentCore ResourceNotFoundException
             then (True, [Sleep (sleep_time (attempt + 1)), Api (GetAgentRuntime rid) (Some e),
                          Print (''AgentCore runtime deleted successfully (took ''
                                 @ string_of_nat ((attempt + 1) * 10) @ '' seconds)'')])
             else prepend [Sleep (sleep_time (attempt + 1)), Api (GetAgentRuntime rid) (Some e)]
                    (wait_for_deletion c rid (attempt + 1)))
      else (False, [Print (''Deletion verification timed out after ''
                           @ string_of_nat (max_attempts * 10) @ '' seconds''),
                    Print ''The runtime may still be deleting in the background'']))"
  by pat_completeness auto
termination
  by (relation "measure (\<lambda>(c, rid, attempt). max_attempts - attempt)") auto

declare wait_for_deletion.simps [simp del]

definition cleanup_agentcore_runtime :: "cloud \<Rightarrow> cleanup_details option \<Rightarrow> bool \<times> event list" where
  "cleanup_agentcore_runtime c sd =
     (case sd of
        None \<Rightarrow> (False, [Print ''No MCP server found to cleanup''])
      | Some d \<Rightarrow>
          (case delete_agent_runtime c (agent_runtime_id d) of
             Inl e \<Rightarrow>
               (False, [Api (DeleteAgentRuntime (agent_runtime_id d)) (Some e),
                        Print (''Error cleaning up AgentCore: '' @ str_exn e)])
           | Inr status \<Rightarrow>
               prepend [Api (DeleteAgentRuntime (agent_runtime_id d)) None,
                        Print (''AgentCore runtime deletion initiated - Status: ''
                               @ (case status of None \<Rightarrow> ''UNKNOWN'' | Some s \<Rightarrow> s))]
                 (wait_for_deletion c (agent_runtime_id d) 0)))"

subsection \<open>cleanup_cognito_resources\<close>

definition credentials_secret_id :: "config \<Rightarrow> string" where
  "credentials_secret_id cfg = mcp_server_name cfg @ ''/cognito/credentials''"

text \<open>
  The answer of \<^verbatim>\<open>get_secret_value\<close> is the secret already parsed by
  \<^verbatim>\<open>json.loads\<close>, a dictionary. The domain is deleted inside a bare
  \<^verbatim>\<open>try ... except: pass\<close>, which also swallows a missing \<^verbatim>\<open>domain_prefix\<close>.
  Only the secret store's own \<^verbatim>\<open>ResourceNotFoundException\<close> is the "nothing
  found" branch; every other exception is printed by the outer handler.
\<close>

definition cognito_handler :: "exn \<Rightarrow> event list" where
  "cognito_handler e =
     (if e = ClientError SecretsManager ResourceNotFoundException
      then [Print ''No Cognito resources found'']
      else [Print (''Error cleaning up Cognito: '' @ str_exn e)])"

definition delete_domain_first :: "cloud \<Rightarrow> (string \<rightharpoonup> string) \<Rightarrow> string \<Rightarrow> event list" where
  "delete_domain_first c cognito_config pid =
     (case cognito_config ''domain_prefix'' of
        None \<Rightarrow> []
      | Some dp \<Rightarrow>
          (case delete_user_pool_domain c dp pid of
             Inl e \<Rightarrow> [Api (DeleteUserPoolDomain dp pid) (Some e)]
           | Inr u \<Rightarrow> [Api (DeleteUserPoolDomain dp pid) None,
                       Print (''Cognito domain deleted: '' @ dp)]))"

definition cleanup_cognito_resources :: "cloud \<Rightarrow> config \<Rightarrow> event list" where
  "cleanup_cognito_resources c cfg =
     Print ''Cleaning up Cognito resources...'' #
     (case get_secret_value c (credentials_secret_id cfg) of
        Inl e \<Rightarrow> Api (GetSecretValue (credentials_secret_id cfg)) (Some e) # cognito_handler e
      | Inr cognito_config \<Rightarrow>
          Api (GetSecretValue (credentials_secret_id cfg)) None #
          (case cognito_config ''pool_id'' of
             None \<Rightarrow> cognito_handler (KeyError ''pool_id'')
           | Some pid \<Rightarrow>
               delete_domain_first c cognito_config pid @
               (case delete_user_pool c pid of
                  Inl e \<Rightarrow> Api (DeleteUserPool pid) (Some e) # cognito_handler e
                | Inr u \<Rightarrow> [Api (DeleteUserPool pid) None,
                            Print (''Cognito user pool deleted: '' @ pid)])))"

subsection \<open>cleanup_dynamodb_tables\<close>

definition delete_table :: "cloud \<Rightarrow> string \<Rightarrow> event list" where
  "delete_table c table_name =
     (case table_delete c table_name of
        Inl e \<Rightarrow> [Api (TableDelete table_name) (Some e), Print (''Table not found: '' @ table_name)]
      | Inr u \<Rightarrow>
          (case table_wait_until_not_exists c table_name of
             Inl e \<Rightarrow> [Api (TableDelete table_name) None,
                       Api (TableWaitUntilNotExists table_name) (Some e),
                       Print (''Table not found: '' @ table_name)]
           | Inr u \<Rightarrow> [Api (TableDelete table_name) None,
                       Api (TableWaitUntilNotExists table_name) None,
                       Print (''DynamoDB table deleted: '' @ table_name)]))"

definition cleanup_dynamodb_tables :: "cloud \<Rightarrow> config \<Rightarrow> event list" where
  "cleanup_dynamodb_tables c cfg =
     Print ''Cleaning up DynamoDB tables...'' #
     concat (map (delete_table c) [applicants_table cfg, claims_table cfg])"

subsection \<open>cleanup_s3_bucket\<close>

definition s3_handler :: "string \<Rightarrow> exn \<Rightarrow> event list" where
  "s3_handler bucket_name e =
     (if e = ClientError S3 NoSuchBucket
      then [Print (''S3 bucket not found: '' @ bucket_name)]
      else [Print (''Error cleaning up S3: '' @ str_exn e)])"

definition delete_the_bucket :: "cloud \<Rightarrow> string \<Rightarrow> event list" where
  "delete_the_bucket c bucket_name =
     (case delete_bucket c bucket_name of
        Inl e \<Rightarrow> Api (DeleteBucket bucket_name) (Some e) # s3_handler bucket_name e
      | Inr u \<Rightarrow> [Api (DeleteBucket bucket_name) None,
                  Print (''S3 bucket deleted: '' @ bucket_name)])"

text \<open>
  The inner \<^verbatim>\<open>try\<close>: one \<^verbatim>\<open>list_objects_v2\<close> call; the keys of its
  \<^verbatim>\<open>Contents\<close>, when the response has any, go to one \<^verbatim>\<open>delete_objects\<close>
  call. The response's \<^verbatim>\<open>IsTruncated\<close> is not read.
\<close>

definition empty_and_delete :: "cloud \<Rightarrow> string \<Rightarrow> event list" where
  "empty_and_delete c bucket_name =
     (case list_objects_v2 c bucket_name of
        Inl e \<Rightarrow> Api (ListObjectsV2 bucket_name) (Some e) # s3_handler bucket_name e
      | Inr response \<Rightarrow>
          Api (ListObjectsV2 bucket_name) None #
          (case contents response of
             None \<Rightarrow> delete_the_bucket c bucket_name
           | Some objects \<Rightarrow>
               (case delete_objects c bucket_name objects of
                  Inl e \<Rightarrow> Api (DeleteObjects bucket_name objects) (Some e)
                             # s3_handler bucket_name e
                | Inr u \<Rightarrow>
                    [Api (DeleteObjects bucket_name objects) None,
                     Print (''Deleted '' @ string_of_nat (length objects)
                            @ '' objects from S3 bucket: '' @ bucket_name)]
                    @ delete_the_bucket c bucket_name)))"

text \<open>
  The name of the bucket is read inside the outer \<^verbatim>\<open>try\<close>, before the inner one:
  when the read raises, the outer handler prints and no call to S3 is made.
\<close>

definition cleanup_s3_bucket :: "cloud \<Rightarrow> config \<Rightarrow> event list" where
  "cleanup_s3_bucket c cfg =
     Print ''Cleaning up S3 bucket...'' #
     guarded (\<lambda>e. [Print (''Error cleaning up S3: '' @ str_exn e)])
       (s3_bucket_name c cfg BucketStep)
       (empty_and_delete c)"

subsection \<open>cleanup_iam_role\<close>

fun delete_role_policies :: "cloud \<Rightarrow> string \<Rightarrow> string list \<Rightarrow> event list" where
  "delete_role_policies c role_name [] = []"
| "delete_role_policies c role_name (p # ps) =
     (case delete_role_policy c role_name p of
        Inl e \<Rightarrow> [Api (DeleteRolePolicy role_name p) (Some e),
                  Print (''Error removing inline policies: '' @ str_exn e)]
      | Inr u \<Rightarrow> [Api (DeleteRolePolicy role_name p) None,
                  Print (''Removed inline policy '' @ p)]
                 @ delete_role_policies c role_name ps)"

definition remove_inline_policies :: "cloud \<Rightarrow> string \<Rightarrow> event list" where
  "remove_inline_policies c role_name =
     (case list_role_policies c role_name of
        Inl e \<Rightarrow> [Api (ListRolePolicies role_name) (Some e),
                  Print (''Error removing inline policies: '' @ str_exn e)]
      | Inr names \<Rightarrow> Api (ListRolePolicies role_name) None # delete_role_policies c role_name names)"

fun detach_role_policies :: "cloud \<Rightarrow> string \<Rightarrow> attached_policy list \<Rightarrow> event list" where
  "detach_role_policies c role_name [] = []"
| "detach_role_policies c role_name (p # ps) =
     (case detach_role_policy c role_name (policyArn p) of
        Inl e \<Rightarrow> [Api (DetachRolePolicy role_name (policyArn p)) (Some e),
                  Print (''Error detaching managed policies: '' @ str_exn e)]
      | Inr u \<Rightarrow> [Api (DetachRolePolicy role_name (policyArn p)) None,
                  Print (''Detached managed policy '' @ policyName p)]
                 @ detach_role_policies c role_name ps)"

definition detach_managed_policies :: "cloud \<Rightarrow> string \<Rightarrow> event list" where
  "detach_managed_policies c role_name =
     (case list_attached_role_policies c role_name of
        Inl e \<Rightarrow> [Api (ListAttachedRolePolicies role_name) (Some e),
                  Print (''Error detaching managed policies: '' @ str_exn e)]
      | Inr ps \<Rightarrow> Api (ListAttachedRolePolicies role_name) None # detach_role_policies c role_name ps)"

definition delete_the_role :: "cloud \<Rightarrow> string \<Rightarrow> event list" where
  "delete_the_role c role_name =
     (case delete_role c role_name of
        Inl e \<Rightarrow>
          Api (DeleteRole role_name) (Some e) #
          (if e = ClientError IAM NoSuchEntityException
           then [Print (''Role already deleted: '' @ role_name)]
           else [Print (''Error deleting role: '' @ str_exn e)])
      | Inr u \<Rightarrow> [Api (DeleteRole role_name) None, Print (''IAM role deleted: '' @ role_name)])"

definition cleanup_iam_role :: "cloud \<Rightarrow> cleanup_details option \<Rightarrow> event list" where
  "cleanup_iam_role c sd =
     (case sd of
        None \<Rightarrow> [Print ''No AgentCore Runtime Role to cleanup'']
      | Some d \<Rightarrow>
          Print (''Cleaning up IAM role: '' @ execution_role_name d) #
          remove_inline_policies c (execution_role_name d)
          @ detach_managed_policies c (execution_role_name d)
          @ delete_the_role c (execution_role_name d))"

subsection \<open>cleanup_secrets_manager\<close>

definition cleanup_secrets_manager :: "cloud \<Rightarrow> config \<Rightarrow> event list" where
  "cleanup_secrets_manager c cfg =
     Print ''Cleaning up Secrets Manager...'' #
     (case delete_secret c (credentials_secret_id cfg) of
        Inl e \<Rightarrow>
          Api (DeleteSecret (credentials_secret_id cfg)) (Some e) #
          (if e = ClientError SecretsManager ResourceNotFoundException
           then [Print ''Secret not found or already deleted'']
           else [Print (''Error cleaning up Secrets Manager: '' @ str_exn e)])
      | Inr u \<Rightarrow> [Api (DeleteSecret (credentials_secret_id cfg)) None,
                  Print ''Secret deleted successfully''])"

subsection \<open>main\<close>

definition manual_cleanup_text :: "cleanup_details \<Rightarrow> event list" where
  "manual_cleanup_text d =
     [Print ''Skipping IAM role cleanup - runtime deletion not confirmed'',
      Print ''Manual cleanup required:'',
      Print (''1. Verify AgentCore runtime is deleted: '' @ agent_runtime_id d),
      Print (''2. Then delete IAM role: '' @ execution_role_arn d),
      Print ''AWS CLI command:'',
      Print (''aws iam delete-role --role-name '' @ execution_role_name d)]"

text \<open>
  What follows the confirmation prompt: the runtime first, the role only
  \<^verbatim>\<open>if runtime_deleted\<close>, the manual steps \<^verbatim>\<open>elif server_details\<close>, then the four
  remaining cleanups and the closing line.
\<close>

definition role_step :: "cloud \<Rightarrow> cleanup_details option \<Rightarrow> bool \<Rightarrow> event list" where
  "role_step c sd runtime_deleted =
     (if runtime_deleted then cleanup_iam_role c sd
      else (case sd of Some d \<Rightarrow> manual_cleanup_text d | None \<Rightarrow> []))"

definition closing_line :: "cleanup_details option \<Rightarrow> bool \<Rightarrow> event list" where
  "closing_line sd runtime_deleted =
     (if runtime_deleted \<or> sd = None
      then [Print ''Cleanup completed successfully!'']
      else [Print ''Cleanup completed with manual steps required (see above)''])"

definition run_cleanup :: "cloud \<Rightarrow> config \<Rightarrow> cleanup_details option \<Rightarrow> event list" where
  "run_cleanup c cfg sd =
     (case cleanup_agentcore_runtime c sd of
        (runtime_deleted, tr) \<Rightarrow>
          Print ''Starting cleanup...'' # tr
          @ role_step c sd runtime_deleted
          @ cleanup_cognito_resources c cfg
          @ cleanup_dynamodb_tables c cfg
          @ cleanup_s3_bucket c cfg
          @ cleanup_secrets_manager c cfg
          @ closing_line sd runtime_deleted)"

text \<open>
  \<open>answer\<close> is the line the operator typed at the prompt, after
  \<^verbatim>\<open>.strip().lower()\<close>; a run whose standard input is closed, or that is
  interrupted from the keyboard, is outside the model. The result is \<open>None\<close> when
  the lookup of the runtime does not return. The listing of what will be deleted reads
  the name of the bucket before the prompt, outside every \<^verbatim>\<open>try\<close>: when that
  read raises, the script ends there with the exception.
\<close>

definition found_line :: "cleanup_details option \<Rightarrow> event list" where
  "found_line sd =
     (case sd of
        Some d \<Rightarrow> [Print (''Found server: '' @ agent_runtime_id d),
                   Print (''AgentCore Runtime Role: '' @ execution_role_name d)]
      | None \<Rightarrow> [Print ''MCP server not found - will cleanup data resources only''])"

definition after_listing :: "cloud \<Rightarrow> config \<Rightarrow> cleanup_details option \<Rightarrow> string \<Rightarrow> event list" where
  "after_listing c cfg sd answer =
     Input answer #
     (if answer \<notin> {''y'', ''yes''} then [Print ''Cleanup cancelled'']
      else run_cleanup c cfg sd)"

definition main :: "cloud \<Rightarrow> config \<Rightarrow> string \<Rightarrow> (unit outcome \<times> event list) option" where
  "main c cfg answer =
     (case get_mcp_server_details c cfg of
        None \<Rightarrow> None
      | Some (sd, tr) \<Rightarrow>
          Some (prepend (tr @ found_line sd)
                  (then_do (unhandled (s3_bucket_name c cfg ListingLine))
                     (\<lambda>bucket_name. (Ok (), after_listing c cfg sd answer)))))"

section \<open>deploy_mcp.py\<close>

record existing_config = server_details +
  cognito_config :: cognito_config

text \<open>
  \<^verbatim>\<open>type(e).__name__\<close>. botocore gives a provider's exception a class of its own
  when the model of the service declares it, and the class \<^verbatim>\<open>ClientError\<close>
  otherwise. The named codes of \<open>error_code\<close> stand for declared exceptions, whose
  class bears the name of the exception; a code that the service does not declare is an
  \<open>OtherCode\<close>.
\<close>

fun class_name :: "error_code \<Rightarrow> string" where
  "class_name ResourceNotFoundException = ''ResourceNotFoundException''"
| "class_name NoSuchBucket = ''NoSuchBucket''"
| "class_name NoSuchEntityException = ''NoSuchEntityException''"
| "class_name LimitExceededException = ''LimitExceededException''"
| "class_name InvalidParameterException = ''InvalidParameterException''"
| "class_name EntityAlreadyExistsException = ''EntityAlreadyExistsException''"
| "class_name AccessDeniedException = ''AccessDeniedException''"
| "class_name (OtherCode x) = ''ClientError''"

fun type_name :: "exn \<Rightarrow> string" where
  "type_name (ClientError s c) = class_name c"
| "type_name (KeyError k) = ''KeyError''"
| "type_name (NameError n) = ''NameError''"
| "type_name (FileNotFoundError m) = ''FileNotFoundError''"
| "type_name (OSError m) = ''OSError''"
| "type_name (ValueError m) = ''ValueError''"
| "type_name (Exception m) = ''Exception''"

subsection \<open>check_existing_mcp_server\<close>

text \<open>
  The loop over the pages. In each page the \<^verbatim>\<open>for\<close> loop stops at the first
  runtime of the given name; the \<^verbatim>\<open>while\<close> loop stops when the identifier found
  is a non-empty string or the page has no \<^verbatim>\<open>nextToken\<close>. The result is the
  runtime found, if any, or the exception of the listing call.
\<close>

partial_function (option) existing_pages ::
  "cloud \<Rightarrow> string \<Rightarrow> string option \<Rightarrow> event list
     \<Rightarrow> ((exn + runtime_summary option) \<times> event list) option" where
  "existing_pages c server_name next_token tr =
     (case list_agent_runtimes c (sent_token next_token) of
        Inl e \<Rightarrow> Some (Inl e, tr @ [Api (ListAgentRuntimes (sent_token next_token)) (Some e)])
      | Inr response \<Rightarrow>
          (case List.find (\<lambda>r. agentRuntimeName r = server_name) (agentRuntimes response) of
             Some r \<Rightarrow>
               if agentRuntimeId r \<noteq> []
               then Some (Inr (Some r), tr @ [Api (ListAgentRuntimes (sent_token next_token)) None])
               else (case nextToken response of
                       None \<Rightarrow> Some (Inr None, tr @ [Api (ListAgentRuntimes (sent_token next_token)) None])
                     | Some t \<Rightarrow>
                         existing_pages c server_name (Some t)
                           (tr @ [Api (ListAgentRuntimes (sent_token next_token)) None]))
           | None \<Rightarrow>
               (case nextToken response of
                  None \<Rightarrow> Some (Inr None, tr @ [Api (ListAgentRuntimes (sent_token next_token)) None])
                | Some t \<Rightarrow>
                    existing_pages c server_name (Some t)
                      (tr @ [Api (ListAgentRuntimes (sent_token next_token)) None]))))"

definition jwt_cognito_config :: "jwt_authorizer option \<Rightarrow> cognito_config" where
  "jwt_cognito_config auth =
     (case auth of
        None \<Rightarrow> \<lparr>discovery_url = [], service_client_id = []\<rparr>
      | Some jwt_auth \<Rightarrow>
          \<lparr>discovery_url = (case discoveryUrl jwt_auth of None \<Rightarrow> [] | Some u \<Rightarrow> u),
           service_client_id = (case allowedClients jwt_auth of [] \<Rightarrow> [] | cl # cls \<Rightarrow> cl)\<rparr>)"

definition check_error :: "event list" where
  "check_error = [Print ''Error checking AgentCore - check permissions and configuration'']"

text \<open>
  After the loop: nothing found returns \<^verbatim>\<open>None\<close>; otherwise the details are
  fetched. The whole body stands in one \<^verbatim>\<open>try ... except Exception\<close> whose
  handler prints one line and returns \<^verbatim>\<open>None\<close>.
\<close>

definition fetch_details :: "cloud \<Rightarrow> runtime_summary \<Rightarrow> existing_config option \<times> event list" where
  "fetch_details c r =
     (case get_agent_runtime c (agentRuntimeId r) of
        Inl e \<Rightarrow> (None, Print (''Found existing runtime: '' @ agentRuntimeId r)
                         # Api (GetAgentRuntime (agentRuntimeId r)) (Some e) # check_error)
      | Inr d \<Rightarrow>
          (case roleArn d of
             None \<Rightarrow> (None, Print (''Found existing runtime: '' @ agentRuntimeId r)
                              # Api (GetAgentRuntime (agentRuntimeId r)) None # check_error)
           | Some arn \<Rightarrow>
               (Some \<lparr>agent_runtime_id = agentRuntimeId r,
                      agent_arn = agentRuntimeArn r,
                      execution_role_arn = arn,
                      execution_role_name = last_segment arn,
                      cognito_config = jwt_cognito_config (customJWTAuthorizer d)\<rparr>,
                [Print (''Found existing runtime: '' @ agentRuntimeId r),
                 Api (GetAgentRuntime (agentRuntimeId r)) None,
                 Print (''Execution Role ARN: '' @ arn),
                 Print (''Execution Role Name: '' @ last_segment arn)])))"

definition check_existing_mcp_server ::
  "cloud \<Rightarrow> string \<Rightarrow> (existing_config option \<times> event list) option" where
  "check_existing_mcp_server c server_name =
     (case existing_pages c server_name None [] of
        None \<Rightarrow> None
      | Some (Inl e, tr) \<Rightarrow> Some (None, tr @ check_error)
      | Some (Inr None, tr) \<Rightarrow> Some (None, tr @ [Print ''Result: No existing MCP server found''])
      | Some (Inr (Some r), tr) \<Rightarrow> Some (prepend tr (fetch_details c r)))"

subsection \<open>setup_cognito_user_pool\<close>

definition cognito_setup_handler :: "exn \<Rightarrow> event list" where
  "cognito_setup_handler e =
     (if e = ClientError Cognito LimitExceededException
      then [Print ''Cognito resource limit exceeded - contact AWS support'']
      else if e = ClientError Cognito InvalidParameterException
      then [Print (''Invalid Cognito configuration: '' @ str_exn e)]
      else [Print (''Cognito setup error: '' @ type_name e)])"

definition new_domain_prefix :: "host \<Rightarrow> string" where
  "new_domain_prefix h = ''nova-insurance-mcp-'' @ urandom_hex h"

definition new_credentials :: "host \<Rightarrow> string \<Rightarrow> string \<Rightarrow> string \<Rightarrow> credentials" where
  "new_credentials h pid client_id client_secret =
     \<lparr>discovery_url = ''https://cognito-idp.'' @ session_region h @ ''.amazonaws.com/'' @ pid
                        @ ''/.well-known/openid-configuration'',
      service_client_id = client_id,
      pool_id = pid,
      service_client_secret = client_secret,
      oauth_token_url = ''https://'' @ new_domain_prefix h @ ''.auth.'' @ session_region h
                        @ ''.amazoncognito.com/oauth2/token'',
      domain_prefix = new_domain_prefix h\<rparr>"

text \<open>
  Five calls in a row inside one \<^verbatim>\<open>try\<close>: the pool, its domain, the resource
  server, the service client, the secret. Each of the three handlers prints a line and
  returns \<^verbatim>\<open>None\<close>; none of them calls the provider.
\<close>

definition store_credentials ::
  "cloud \<Rightarrow> config \<Rightarrow> credentials \<Rightarrow> cognito_setup option \<times> event list" where
  "store_credentials c cfg cr =
     (case create_secret c (credentials_secret_id cfg) cr of
        Inl e \<Rightarrow> (None, Api (CreateSecret (credentials_secret_id cfg) cr) (Some e)
                         # cognito_setup_handler e)
      | Inr arn \<Rightarrow>
          (Some (credentials.extend cr (cognito_setup.fields arn)),
           [Api (CreateSecret (credentials_secret_id cfg) cr) None,
            Print ''Secret Created.'',
            Print ''COGNITO AUTHENTICATION SETUP COMPLETE'']))"

definition create_service_client ::
  "cloud \<Rightarrow> host \<Rightarrow> config \<Rightarrow> string \<Rightarrow> cognito_setup option \<times> event list" where
  "create_service_client c h cfg pid =
     (case create_user_pool_client c pid of
        Inl e \<Rightarrow> (None, Api (CreateUserPoolClient pid) (Some e) # cognito_setup_handler e)
      | Inr (client_id, client_secret) \<Rightarrow>
          prepend [Api (CreateUserPoolClient pid) None,
                   Print (''Service Client Created: '' @ take 8 client_id @ ''...'')]
            (store_credentials c cfg (new_credentials h pid client_id client_secret)))"

definition create_scopes ::
  "cloud \<Rightarrow> host \<Rightarrow> config \<Rightarrow> string \<Rightarrow> cognito_setup option \<times> event list" where
  "create_scopes c h cfg pid =
     (case create_resource_server c pid (oauth_api_identifier cfg) of
        Inl e \<Rightarrow> (None, Api (CreateResourceServer pid (oauth_api_identifier cfg)) (Some e)
                         # cognito_setup_handler e)
      | Inr u \<Rightarrow>
          prepend [Api (CreateResourceServer pid (oauth_api_identifier cfg)) None,
                   Print ''Resource Server Created with OAuth scopes'']
            (create_service_client c h cfg pid))"

definition create_domain ::
  "cloud \<Rightarrow> host \<Rightarrow> config \<Rightarrow> string \<Rightarrow> cognito_setup option \<times> event list" where
  "create_domain c h cfg pid =
     (case create_user_pool_domain c (new_domain_prefix h) pid of
        Inl e \<Rightarrow> (None, Api (CreateUserPoolDomain (new_domain_prefix h) pid) (Some e)
                         # cognito_setup_handler e)
      | Inr u \<Rightarrow>
          prepend [Api (CreateUserPoolDomain (new_domain_prefix h) pid) None,
                   Print (''Domain Created: '' @ new_domain_prefix h @ ''.auth.''
                          @ session_region h @ ''.amazoncognito.com'')]
            (create_scopes c h cfg pid))"

definition setup_cognito_user_pool ::
  "cloud \<Rightarrow> host \<Rightarrow> config \<Rightarrow> cognito_setup option \<times> event list" where
  "setup_cognito_user_pool c h cfg =
     (case create_user_pool c (cognito_user_pool_name cfg) of
        Inl e \<Rightarrow> (None, Api (CreateUserPool (cognito_user_pool_name cfg)) (Some e)
                         # cognito_setup_handler e)
      | Inr pid \<Rightarrow>
          prepend [Api (CreateUserPool (cognito_user_pool_name cfg)) None,
                   Print ''User Pool Created successfully'']
            (create_domain c h cfg pid))"

subsection \<open>add_permissions\<close>

definition dynamodb_policy :: "config \<Rightarrow> string \<Rightarrow> string \<Rightarrow> policy_document" where
  "dynamodb_policy cfg region account_id =
     \<lparr>actions = [''dynamodb:GetItem'', ''dynamodb:Query'', ''dynamodb:Scan'', ''dynamodb:DescribeTable''],
      resources =
        [''arn:aws:dynamodb:'' @ region @ '':'' @ account_id @ '':table/'' @ applicants_table cfg,
         ''arn:aws:dynamodb:'' @ region @ '':'' @ account_id @ '':table/'' @ claims_table cfg,
         ''arn:aws:dynamodb:'' @ region @ '':'' @ account_id @ '':table/nova-insurance-*'']\<rparr>"

definition s3_policy :: "string \<Rightarrow> string \<Rightarrow> policy_document" where
  "s3_policy objects_name bucket_name =
     \<lparr>actions = [''s3:GetObject'', ''s3:ListBucket''],
      resources = [''arn:aws:s3:::'' @ objects_name @ ''/*'',
                   ''arn:aws:s3:::'' @ bucket_name]\<rparr>"

definition bedrock_policy :: "config \<Rightarrow> policy_document" where
  "bedrock_policy cfg =
     \<lparr>actions = [''bedrock:InvokeModel'', ''bedrock:Converse''],
      resources = [''arn:aws:bedrock:*::foundation-model/'' @ model_id cfg]\<rparr>"

definition permissions_handler :: "exn \<Rightarrow> event list" where
  "permissions_handler e =
     (if e = ClientError IAM EntityAlreadyExistsException
      then [Print ''IAM PERMISSIONS ALREADY EXIST (policies already attached)'']
      else [Print (''Warning: Could not add permissions: '' @ str_exn e)])"

text \<open>
  The whole body stands in one \<^verbatim>\<open>try\<close>: the account is asked of STS, the three
  documents are built (the S3 document reads the name of the bucket twice), and the
  policies are put one after the other, the name of the bucket being read once more for
  the line printed before the second. The first exception ends the function in one of
  its two handlers, which print and return. Nothing is raised to the caller.
\<close>

fun put_policies :: "cloud \<Rightarrow> string \<Rightarrow> (string \<times> policy_document) list \<Rightarrow> event list" where
  "put_policies c role_name [] =
     [Print (''ALL IAM PERMISSIONS SUCCESSFULLY ATTACHED TO ROLE: '' @ role_name)]"
| "put_policies c role_name ((policy_name, doc) # ps) =
     (case put_role_policy c role_name policy_name doc of
        Inl e \<Rightarrow> Api (PutRolePolicy role_name policy_name doc) (Some e) # permissions_handler e
      | Inr u \<Rightarrow> Api (PutRolePolicy role_name policy_name doc) None # put_policies c role_name ps)"

definition add_permissions :: "cloud \<Rightarrow> config \<Rightarrow> string \<Rightarrow> string \<Rightarrow> event list" where
  "add_permissions c cfg role_name region =
     (case get_caller_identity c of
        Inl e \<Rightarrow> Api GetCallerIdentity (Some e) # permissions_handler e
      | Inr account_id \<Rightarrow>
          Api GetCallerIdentity None #
          guarded permissions_handler (s3_bucket_name c cfg PolicyObjects) (\<lambda>objects_name.
          guarded permissions_handler (s3_bucket_name c cfg PolicyBucket) (\<lambda>bucket_name.
          guarded permissions_handler
            (invoked (PutRolePolicy role_name ''NovaInsuranceDynamoDBAccess''
                        (dynamodb_policy cfg region account_id))
               (put_role_policy c role_name ''NovaInsuranceDynamoDBAccess''
                  (dynamodb_policy cfg region account_id))) (\<lambda>u.
          guarded permissions_handler (s3_bucket_name c cfg PolicyLine) (\<lambda>shown.
          put_policies c role_name
            [(''NovaInsuranceS3Access'', s3_policy objects_name bucket_name),
             (''NovaInsuranceBedrockAccess'', bedrock_policy cfg)])))))"

subsection \<open>deploy_mcp_server\<close>

record deployment =
  dep_cognito_config :: cognito_config
  dep_existing_config :: "existing_config option"
  reuse_existing :: bool

definition copy_config_file :: "host \<Rightarrow> unit outcome \<times> event list" where
  "copy_config_file h =
     (if path_exists h ''../config/enterprise_config.yaml''
      then then_do (called CopyConfigFile (copy2 h)) (\<lambda>u. (Ok (), [Print ''Copied config file'']))
      else (Ok (), [Print ''Config file not found at ../config/enterprise_config.yaml, using defaults'']))"

text \<open>
  What stands before the search for an existing runtime: the copy of the configuration
  file and the banner, which reads the name of the bucket outside every \<^verbatim>\<open>try\<close>.
\<close>

definition before_check :: "cloud \<Rightarrow> host \<Rightarrow> config \<Rightarrow> unit outcome \<times> event list" where
  "before_check c h cfg =
     then_do (copy_config_file h) (\<lambda>u.
     then_do (unhandled (s3_bucket_name c cfg BannerLine)) (\<lambda>bucket_name. (Ok (), [])))"

text \<open>
  The branch on \<^verbatim>\<open>existing_config\<close>. \<open>answer\<close> is the line read at the prompt
  after \<^verbatim>\<open>.strip().lower()\<close>.
\<close>

definition choose_mode ::
  "cloud \<Rightarrow> host \<Rightarrow> config \<Rightarrow> string \<Rightarrow> existing_config option \<Rightarrow> deployment outcome \<times> event list" where
  "choose_mode c h cfg answer ex =
     (case ex of
        Some e \<Rightarrow>
          if answer \<notin> {''y'', ''yes''}
          then (SysExit 2,
                [Print ''EXISTING MCP SERVER DETECTED'', Input answer]
                @ (if answer \<notin> {''n'', ''no''} then [Print ''Invalid input. Please enter y or n''] else [])
                @ [Print ''DEPLOYMENT CANCELLED BY USER''])
          else (Ok \<lparr>dep_cognito_config = cognito_config e,
                    dep_existing_config = Some e,
                    reuse_existing = True\<rparr>,
                [Print ''EXISTING MCP SERVER DETECTED'', Input answer,
                 Print ''UPDATE MODE: Deploying new code to existing server''])
      | None \<Rightarrow>
          (case setup_cognito_user_pool c h cfg of
             (None, tr) \<Rightarrow>
               (Raise (Exception ''Failed to setup Cognito''),
                Print ''NEW DEPLOYMENT MODE: Creating all resources from scratch'' # tr)
           | (Some cc, tr) \<Rightarrow>
               (Ok \<lparr>dep_cognito_config = cognito_config.truncate cc,
                    dep_existing_config = None,
                    reuse_existing = False\<rparr>,
                Print ''NEW DEPLOYMENT MODE: Creating all resources from scratch'' # tr)))"

fun validate_files :: "host \<Rightarrow> string list \<Rightarrow> unit outcome \<times> event list" where
  "validate_files h [] = (Ok (), [])"
| "validate_files h (file_path # fs) =
     (if \<not> path_exists h file_path
      then (Raise (FileNotFoundError (''Required file '' @ file_path @ '' not found'')), [])
      else validate_files h fs)"

definition make_config_params :: "host \<Rightarrow> config \<Rightarrow> deployment \<Rightarrow> config_params" where
  "make_config_params h cfg m =
     \<lparr>entrypoint = ''mcpserver.py'',
      agent_name = mcp_server_name cfg,
      auto_create_execution_role = (\<not> reuse_existing m),
      cfg_region = session_region h,
      authorizer = \<lparr>cfg_allowedClients = [service_client_id (dep_cognito_config m)],
                    cfg_discoveryUrl = discovery_url (dep_cognito_config m)\<rparr>,
      protocol = ''MCP'',
      auto_create_ecr = True,
      execution_role =
        (if reuse_existing m
         then (case dep_existing_config m of Some e \<Rightarrow> Some (execution_role_arn e) | None \<Rightarrow> None)
         else None)\<rparr>"

definition configure_runtime :: "host \<Rightarrow> config \<Rightarrow> deployment \<Rightarrow> unit outcome \<times> event list" where
  "configure_runtime h cfg m =
     then_do (called RuntimeInit (runtime_init h))
       (\<lambda>u. then_do (called (Configure (make_config_params h cfg m)) (configure h (make_config_params h cfg m)))
          (\<lambda>u. (Ok (), [Print ''AgentCore configuration validated and applied''])))"

definition roles_ready :: "string \<Rightarrow> string list \<Rightarrow> bool" where
  "roles_ready region role_names =
     ((\<exists>name \<in> set role_names. str_contains name (''AmazonBedrockAgentCoreSDKRuntime-'' @ region)) \<and>
      (\<exists>name \<in> set role_names. str_contains name (''AmazonBedrockAgentCoreSDKCodeBuild-'' @ region)))"

definition role_attempts :: nat where
  "role_attempts = 24"

text \<open>
  The loop \<^verbatim>\<open>while attempt < max_attempts and not roles_verified\<close> before the
  launch. It returns \<^verbatim>\<open>roles_verified\<close> and the last attempt.
\<close>

function roles_poll :: "cloud \<Rightarrow> string \<Rightarrow> nat \<Rightarrow> (bool \<times> nat) \<times> event list" where
  "roles_poll c region attempt =
     (if attempt < role_attempts then
        (case list_roles_at c (attempt + 1) of
           Inr role_names \<Rightarrow>
             if roles_ready region role_names
             then ((True, attempt + 1), [Api ListRoles None, Print ''Verified''])
             else prepend [Api ListRoles None, Print ''Roles not ready yet'', Sleep 5]
                    (roles_poll c region (attempt + 1))
         | Inl e \<Rightarrow>
             prepend [Api ListRoles (Some e), Print (''Error: '' @ str_exn e), Sleep 5]
               (roles_poll c region (attempt + 1)))
      else ((False, attempt), []))"
  by pat_completeness auto
termination
  by (relation "measure (\<lambda>(c, region, attempt). role_attempts - attempt)") auto

declare roles_poll.simps [simp del]

definition roles_report :: "bool \<times> nat \<Rightarrow> event list" where
  "roles_report r =
     (if fst r
      then [Print (''IAM roles verified and ready (took '' @ string_of_nat (snd r * 5) @ '' seconds)'')]
      else [Print ''Verification timed out - proceeding anyway (roles may still be propagating)''])"

definition verify_roles_propagation :: "cloud \<Rightarrow> host \<Rightarrow> deployment \<Rightarrow> unit outcome \<times> event list" where
  "verify_roles_propagation c h m =
     (if \<not> reuse_existing m then
        then_do (called GetCallerIdentity (get_caller_identity c))
          (\<lambda>account_id.
             (case roles_poll c (session_region h) 0 of
                (r, tr) \<Rightarrow> (Ok (), tr @ roles_report r)))
      else (Ok (), []))"

definition launch_runtime :: "host \<Rightarrow> deployment \<Rightarrow> string outcome \<times> event list" where
  "launch_runtime h m =
     then_do (called Launch (launch h))
       (\<lambda>arn. (Ok arn, [Print (''AgentCore runtime '' @ (if \<not> reuse_existing m then ''created'' else ''updated'')),
                        Print (''Runtime ARN: '' @ arn)]))"

text \<open>
  The loop \<^verbatim>\<open>while attempt < max_attempts and not role_verified\<close> after the
  launch. Each of the three handlers, and a missing or empty \<^verbatim>\<open>roleArn\<close>, sleeps
  five seconds and goes round again. It returns the name of the verified role, or
  \<open>None\<close> when the attempts are used up.
\<close>

function role_poll :: "cloud \<Rightarrow> string \<Rightarrow> nat \<Rightarrow> (string option \<times> nat) \<times> event list" where
  "role_poll c runtime_id attempt =
     (if attempt < role_attempts then
        (case get_agent_runtime_at c (attempt + 1) runtime_id of
           Inl e \<Rightarrow>
             prepend [Api (GetAgentRuntime runtime_id) (Some e),
                      Print (if e = ClientError AgentCore ResourceNotFoundException
                             then ''Runtime not ready yet'' else ''Error: '' @ str_exn e),
                      Sleep 5]
               (role_poll c runtime_id (attempt + 1))
         | Inr d \<Rightarrow>
             (case roleArn d of
                None \<Rightarrow>
                  prepend [Api (GetAgentRuntime runtime_id) None, Print ''Role ARN not yet available'', Sleep 5]
                    (role_poll c runtime_id (attempt + 1))
              | Some arn \<Rightarrow>
                  if arn = [] then
                    prepend [Api (GetAgentRuntime runtime_id) None, Print ''Role ARN not yet available'', Sleep 5]
                      (role_poll c runtime_id (attempt + 1))
                  else
                    (case get_role_at c (attempt + 1) (last_segment arn) of
                       Inl e \<Rightarrow>
                         prepend [Api (GetAgentRuntime runtime_id) None,
                                  Api (GetRole (last_segment arn)) (Some e),
                                  Print (if e = ClientError IAM NoSuchEntityException
                                         then ''Role not propagated yet'' else ''Error: '' @ str_exn e),
                                  Sleep 5]
                           (role_poll c runtime_id (attempt + 1))
                     | Inr u \<Rightarrow>
                         ((Some (last_segment arn), attempt + 1),
                          [Api (GetAgentRuntime runtime_id) None,
                           Api (GetRole (last_segment arn)) None,
                           Print ''Verified'',
                           Print (''Role ARN: '' @ arn),
                           Print (''Role Name: '' @ last_segment arn)]))))
      else ((None, attempt), []))"
  by pat_completeness auto
termination
  by (relation "measure (\<lambda>(c, runtime_id, attempt). role_attempts - attempt)") auto

declare role_poll.simps [simp del]

definition verify_role_creation ::
  "cloud \<Rightarrow> host \<Rightarrow> config \<Rightarrow> string \<Rightarrow> unit outcome \<times> event list" where
  "verify_role_creation c h cfg runtime_id =
     (case role_poll c runtime_id 0 of
        ((None, attempt), tr) \<Rightarrow>
          (Raise (Exception (''IAM role failed to propagate after ''
                             @ string_of_nat (role_attempts * 5) @ '' seconds'')), tr)
      | ((Some role_name, attempt), tr) \<Rightarrow>
          (Ok (), tr @ [Print (''IAM ROLE VERIFIED AND READY (took '' @ string_of_nat (attempt * 5)
                               @ '' seconds)'')]
                  @ add_permissions c cfg role_name (session_region h)))"

text \<open>
  In update mode the role is read back once, outside any \<^verbatim>\<open>try\<close>, and the
  permissions are put on it.
\<close>

definition retrieve_current_role ::
  "cloud \<Rightarrow> host \<Rightarrow> config \<Rightarrow> string \<Rightarrow> unit outcome \<times> event list" where
  "retrieve_current_role c h cfg runtime_id =
     then_do (called (GetAgentRuntime runtime_id) (get_agent_runtime_at c 1 runtime_id))
       (\<lambda>d. (case roleArn d of
               None \<Rightarrow> (Raise (KeyError ''roleArn''), [])
             | Some arn \<Rightarrow>
                 (Ok (), Print (''Current Role ARN: '' @ arn)
                         # Print (''Current Role Name: '' @ last_segment arn)
                         # add_permissions c cfg (last_segment arn) (session_region h))))"

definition bind_role ::
  "cloud \<Rightarrow> host \<Rightarrow> config \<Rightarrow> deployment \<Rightarrow> string \<Rightarrow> unit outcome \<times> event list" where
  "bind_role c h cfg m arn =
     (if \<not> reuse_existing m
      then verify_role_creation c h cfg (last_segment arn)
      else retrieve_current_role c h cfg (last_segment arn))"

definition encode_arn :: "string \<Rightarrow> string" where
  "encode_arn arn =
     concat (map (\<lambda>x. if x = CHR '':'' then ''%3A'' else if x = CHR ''/'' then ''%2F'' else [x]) arn)"

definition agent_endpoint :: "host \<Rightarrow> string \<Rightarrow> string" where
  "agent_endpoint h arn =
     ''https://bedrock-agentcore.'' @ session_region h @ ''.amazonaws.com/runtimes/''
     @ encode_arn arn @ ''/invocations?qualifier=DEFAULT''"

text \<open>
  \<^verbatim>\<open>create_quicksuite_integration_doc\<close> builds the text of the guide, which reads
  the name of the bucket, and then writes the file; nothing of it stands in a
  \<^verbatim>\<open>try\<close>. \<open>write_integration_doc\<close> answers for the directory and the file.
\<close>

definition create_quicksuite_integration_doc ::
  "cloud \<Rightarrow> host \<Rightarrow> config \<Rightarrow> string \<Rightarrow> unit outcome \<times> event list" where
  "create_quicksuite_integration_doc c h cfg endpoint =
     then_do (unhandled (s3_bucket_name c cfg GuideLine)) (\<lambda>bucket_name.
     called (WriteIntegrationDoc endpoint) (write_integration_doc h))"

text \<open>
  The end of the function: the guide (new deployments only), the lines that report the
  success, and the summary, whose last lines read the name of the bucket once more,
  outside every \<^verbatim>\<open>try\<close>.
\<close>

definition finish :: "cloud \<Rightarrow> host \<Rightarrow> config \<Rightarrow> deployment \<Rightarrow> string \<Rightarrow> unit outcome \<times> event list" where
  "finish c h cfg m arn =
     then_do (if \<not> reuse_existing m
              then create_quicksuite_integration_doc c h cfg (agent_endpoint h arn)
              else (Ok (), []))
       (\<lambda>u. prepend [Print ((if reuse_existing m then ''UPDATE'' else ''DEPLOYMENT'')
                             @ '' COMPLETED SUCCESSFULLY!''),
                      Print (''MCP Server Endpoint: '' @ agent_endpoint h arn)]
               (then_do (unhandled (s3_bucket_name c cfg SummaryLine))
                  (\<lambda>bucket_name. (Ok (), []))))"

text \<open>
  What follows the choice of the mode: the files are checked, the runtime is
  configured, the roles are polled (new deployments only), the runtime is launched, the
  role is verified or read back and given its permissions, the report is written.
\<close>

definition after_mode ::
  "cloud \<Rightarrow> host \<Rightarrow> config \<Rightarrow> deployment \<Rightarrow> unit outcome \<times> event list" where
  "after_mode c h cfg m =
     then_do (validate_files h [''mcpserver.py'', ''requirements.txt'']) (\<lambda>u.
     then_do (configure_runtime h cfg m) (\<lambda>u.
     then_do (verify_roles_propagation c h m) (\<lambda>u.
     then_do (launch_runtime h m) (\<lambda>arn.
     then_do (bind_role c h cfg m arn) (\<lambda>u.
     finish c h cfg m arn)))))"

definition deploy_after_check ::
  "cloud \<Rightarrow> host \<Rightarrow> config \<Rightarrow> string \<Rightarrow> existing_config option \<Rightarrow> unit outcome \<times> event list" where
  "deploy_after_check c h cfg answer ex =
     then_do (choose_mode c h cfg answer ex) (after_mode c h cfg)"

text \<open>
  The whole function. The result is \<open>None\<close> when the search of the listing does not
  return.
\<close>

definition deploy_mcp_server ::
  "cloud \<Rightarrow> host \<Rightarrow> config \<Rightarrow> string \<Rightarrow> (unit outcome \<times> event list) option" where
  "deploy_mcp_server c h cfg answer =
     (case before_check c h cfg of
        (Ok u, tr) \<Rightarrow>
          (case check_existing_mcp_server c (mcp_server_name cfg) of
             None \<Rightarrow> None
           | Some (ex, tr') \<Rightarrow> Some (prepend (tr @ tr') (deploy_after_check c h cfg answer ex)))
      | (SysExit n, tr) \<Rightarrow> Some (SysExit n, tr)
      | (Raise e, tr) \<Rightarrow> Some (Raise e, tr))"

subsection \<open>The script's entry point\<close>

definition troubleshooting :: "event list" where
  "troubleshooting =
     [Print ''TROUBLESHOOTING:'',
      Print ''1. Check AWS credentials: aws sts get-caller-identity'',
      Print ''2. Verify Bedrock permissions in IAM'',
      Print ''3. Ensure config/enterprise_config.yaml is correct'',
      Print ''4. Check CloudWatch logs for detailed error messages'']"

text \<open>
  \<^verbatim>\<open>if __name__ == "__main__"\<close>: the exit status of the process and everything it
  did. A normal return is status 0; \<^verbatim>\<open>sys.exit(n)\<close> passes through the
  \<^verbatim>\<open>except Exception\<close> clause untouched (\<^verbatim>\<open>SystemExit\<close> is not an
  \<^verbatim>\<open>Exception\<close>); an exception is reported with the troubleshooting list and the
  status is 1. The \<^verbatim>\<open>KeyboardInterrupt\<close> clause answers a signal from outside the
  program and has no counterpart here.
\<close>

definition deploy_script :: "cloud \<Rightarrow> host \<Rightarrow> config \<Rightarrow> string \<Rightarrow> (nat \<times> event list) option" where
  "deploy_script c h cfg answer =
     (case deploy_mcp_server c h cfg answer of
        None \<Rightarrow> None
      | Some (Ok u, tr) \<Rightarrow> Some (0, tr)
      | Some (SysExit n, tr) \<Rightarrow> Some (n, tr)
      | Some (Raise e, tr) \<Rightarrow>
          Some (1, tr @ [Print ''DEPLOYMENT FAILED'', Print (''Error: '' @ str_exn e)] @ troubleshooting))"

section \<open>Reading a run\<close>

text \<open>The calls of a run, in order, and the lines and sleeps between them.\<close>

fun calls :: "event list \<Rightarrow> call list" where
  "calls [] = []"
| "calls (Api cl r # tr) = cl # calls tr"
| "calls (Sleep n # tr) = calls tr"
| "calls (Print s # tr) = calls tr"
| "calls (Input s # tr) = calls tr"

text \<open>No call of the run is one of the calls \<open>P\<close>.\<close>

definition never :: "(call \<Rightarrow> bool) \<Rightarrow> event list \<Rightarrow> bool" where
  "never P tr = (filter P (calls tr) = [])"

fun is_print :: "event \<Rightarrow> bool" where
  "is_print (Print s) = True"
| "is_print (Api cl r) = False"
| "is_print (Sleep n) = False"
| "is_print (Input s) = False"

definition raised :: "exn + 'a \<Rightarrow> exn option" where
  "raised r = (case r of Inl e \<Rightarrow> Some e | Inr v \<Rightarrow> None)"

text \<open>
  The sleeps and lookups of the attempts \<open>a + 1, ..., n\<close> of the deletion wait, each
  lookup with the outcome the provider gives at that attempt.
\<close>

definition probe_events :: "cloud \<Rightarrow> string \<Rightarrow> nat \<Rightarrow> nat \<Rightarrow> event list" where
  "probe_events c rid a n =
     concat (map (\<lambda>k. [Sleep (sleep_time k),
                        Api (GetAgentRuntime rid) (raised (get_agent_runtime_at c k rid))])
                 [Suc a..<Suc n])"

text \<open>The calls that strip and delete an execution role.\<close>

fun role_call :: "call \<Rightarrow> bool" where
  "role_call (ListRolePolicies r) = True"
| "role_call (DeleteRolePolicy r p) = True"
| "role_call (ListAttachedRolePolicies r) = True"
| "role_call (DetachRolePolicy r p) = True"
| "role_call (DeleteRole r) = True"
| "role_call cl = False"

text \<open>The calls that delete an identity pool or its domain.\<close>

fun pool_deletion :: "call \<Rightarrow> bool" where
  "pool_deletion (DeleteUserPoolDomain d p) = True"
| "pool_deletion (DeleteUserPool p) = True"
| "pool_deletion cl = False"

text \<open>
  The calls that write the credential bundle or build what it describes: the pool,
  its domain, the resource server, the client, and every write to the secret store.
\<close>

fun credential_write :: "call \<Rightarrow> bool" where
  "credential_write (CreateSecret n v) = True"
| "credential_write (DeleteSecret n) = True"
| "credential_write (CreateUserPool n) = True"
| "credential_write (CreateUserPoolDomain d p) = True"
| "credential_write (CreateResourceServer p i) = True"
| "credential_write (CreateUserPoolClient p) = True"
| "credential_write (DeleteUserPoolDomain d p) = True"
| "credential_write (DeleteUserPool p) = True"
| "credential_write cl = False"

text \<open>
  The calls that only read the provider's state, and the steps on the operator's own
  machine; every other call changes something at the provider.
\<close>

fun read_only :: "call \<Rightarrow> bool" where
  "read_only (ListAgentRuntimes t) = True"
| "read_only (GetAgentRuntime i) = True"
| "read_only (GetSecretValue n) = True"
| "read_only (ListObjectsV2 b) = True"
| "read_only ListRoles = True"
| "read_only (GetRole r) = True"
| "read_only (ListRolePolicies r) = True"
| "read_only (ListAttachedRolePolicies r) = True"
| "read_only GetCallerIdentity = True"
| "read_only (TableWaitUntilNotExists t) = True"
| "read_only cl = False"

fun on_host :: "call \<Rightarrow> bool" where
  "on_host CopyConfigFile = True"
| "on_host RuntimeInit = True"
| "on_host (Configure p) = True"
| "on_host (WriteIntegrationDoc e) = True"
| "on_host cl = False"

definition cloud_mutation :: "call \<Rightarrow> bool" where
  "cloud_mutation cl = (\<not> read_only cl \<and> \<not> on_host cl)"

text \<open>The parameters handed to \<^verbatim>\<open>configure\<close> in a run.\<close>

fun configured :: "call list \<Rightarrow> config_params list" where
  "configured [] = []"
| "configured (Configure p # cls) = p # configured cls"
| "configured (cl # cls) = configured cls"

text \<open>
  The pools a run leaves at the provider: those whose creation succeeded and that no
  later successful call of the run deleted.
\<close>

fun pools_left :: "cloud \<Rightarrow> event list \<Rightarrow> string list" where
  "pools_left c [] = []"
| "pools_left c (Api (CreateUserPool n) None # tr) =
     (case create_user_pool c n of
        Inr pid \<Rightarrow> if Api (DeleteUserPool pid) None \<in> set tr then pools_left c tr else pid # pools_left c tr
      | Inl e \<Rightarrow> pools_left c tr)"
| "pools_left c (ev # tr) = pools_left c tr"

text \<open>The secrets a run stored.\<close>

fun secrets_stored :: "event list \<Rightarrow> string list" where
  "secrets_stored [] = []"
| "secrets_stored (Api (CreateSecret n v) None # tr) = n # secrets_stored tr"
| "secrets_stored (ev # tr) = secrets_stored tr"

text \<open>The listings of a bucket.\<close>

fun is_listing :: "call \<Rightarrow> bool" where
  "is_listing (ListObjectsV2 b) = True"
| "is_listing cl = False"

text \<open>The outcomes of the calls of a run, in order.\<close>

fun outcomes :: "event list \<Rightarrow> exn option list" where
  "outcomes [] = []"
| "outcomes (Api cl r # tr) = r # outcomes tr"
| "outcomes (Sleep n # tr) = outcomes tr"
| "outcomes (Print s # tr) = outcomes tr"
| "outcomes (Input s # tr) = outcomes tr"

text \<open>
  The calls of \<^verbatim>\<open>deploy_mcp.py\<close> that stand outside every \<^verbatim>\<open>try\<close> of the
  functions, or whose handler gives the caller nothing to go on with.
\<close>

fun unguarded :: "call \<Rightarrow> bool" where
  "unguarded CopyConfigFile = True"
| "unguarded (CreateUserPool n) = True"
| "unguarded (CreateUserPoolDomain d p) = True"
| "unguarded (CreateResourceServer p i) = True"
| "unguarded (CreateUserPoolClient p) = True"
| "unguarded (CreateSecret n v) = True"
| "unguarded RuntimeInit = True"
| "unguarded (Configure p) = True"
| "unguarded Launch = True"
| "unguarded (WriteIntegrationDoc e) = True"
| "unguarded cl = False"

fun failed_unguarded :: "event list \<Rightarrow> bool" where
  "failed_unguarded [] = False"
| "failed_unguarded (Api cl (Some e) # tr) = (unguarded cl \<or> failed_unguarded tr)"
| "failed_unguarded (ev # tr) = failed_unguarded tr"

text \<open>The two values of the mode.\<close>

definition update_mode :: "existing_config \<Rightarrow> deployment" where
  "update_mode ex =
     \<lparr>dep_cognito_config = cognito_config ex, dep_existing_config = Some ex, reuse_existing = True\<rparr>"

definition new_mode :: "cognito_setup \<Rightarrow> deployment" where
  "new_mode cc =
     \<lparr>dep_cognito_config = cognito_config.truncate cc, dep_existing_config = None, reuse_existing = False\<rparr>"

section \<open>Providers and hosts for the scenarios\<close>

text \<open>A provider where nothing exists yet and every call succeeds.\<close>

definition empty_cloud :: cloud where
  "empty_cloud =
     \<lparr>list_agent_runtimes = (\<lambda>t. Inr \<lparr>agentRuntimes = [], nextToken = None\<rparr>),
      get_agent_runtime = (\<lambda>i. Inl (ClientError AgentCore ResourceNotFoundException)),
      delete_agent_runtime = (\<lambda>i. Inl (ClientError AgentCore ResourceNotFoundException)),
      get_agent_runtime_at = (\<lambda>k i. Inl (ClientError AgentCore ResourceNotFoundException)),
      get_secret_value = (\<lambda>n. Inl (ClientError SecretsManager ResourceNotFoundException)),
      delete_user_pool_domain = (\<lambda>d p. Inr ()),
      delete_user_pool = (\<lambda>p. Inr ()),
      table_delete = (\<lambda>t. Inr ()),
      table_wait_until_not_exists = (\<lambda>t. Inr ()),
      list_objects_v2 = (\<lambda>b. Inl (ClientError S3 NoSuchBucket)),
      delete_objects = (\<lambda>b ks. Inr ()),
      delete_bucket = (\<lambda>b. Inl (ClientError S3 NoSuchBucket)),
      list_role_policies = (\<lambda>r. Inr []),
      delete_role_policy = (\<lambda>r p. Inr ()),
      list_attached_role_policies = (\<lambda>r. Inr []),
      detach_role_policy = (\<lambda>r p. Inr ()),
      delete_role = (\<lambda>r. Inr ()),
      delete_secret = (\<lambda>n. Inl (ClientError SecretsManager ResourceNotFoundException)),
      create_user_pool = (\<lambda>n. Inr ''us-east-1_Pool1''),
      create_user_pool_domain = (\<lambda>d p. Inr ()),
      create_resource_server = (\<lambda>p i. Inr ()),
      create_user_pool_client = (\<lambda>p. Inr (''client-0001'', ''s3cr3t'')),
      create_secret = (\<lambda>n v. Inr ''arn:aws:secretsmanager:us-east-1:111122223333:secret:ins-mcp''),
      get_caller_identity = Inr ''111122223333'',
      get_caller_identity_at = (\<lambda>site. Inr ''111122223333''),
      put_role_policy = (\<lambda>r n d. Inr ()),
      list_roles_at = (\<lambda>k. Inr [''AmazonBedrockAgentCoreSDKRuntime-us-east-1-abc'',
                                  ''AmazonBedrockAgentCoreSDKCodeBuild-us-east-1-abc'']),
      get_role_at = (\<lambda>k r. Inr ())\<rparr>"

definition the_host :: host where
  "the_host =
     \<lparr>session_region = ''us-east-1'',
      urandom_hex = ''0a1b2c3d'',
      path_exists = (\<lambda>f. True),
      copy2 = Inr (),
      runtime_init = Inr (),
      configure = (\<lambda>p. Inr ()),
      launch = Inr ''arn:aws:bedrock-agentcore:us-east-1:111122223333:runtime/ins-mcp-1'',
      write_integration_doc = Inr ()\<rparr>"

definition the_config :: config where
  "the_config =
     \<lparr>mcp_server_name = ''ins-mcp'',
      applicants_table = ''nova-insurance-applicants'',
      claims_table = ''nova-insurance-claims'',
      bucket_base = ''nova-insurance-111122223333'',
      config_region = ''us-east-1'',
      cognito_user_pool_name = ''nova-insurance-pool'',
      oauth_api_identifier = ''nova-insurance-api'',
      model_id = ''amazon.nova-lite-v1:0''\<rparr>"

definition the_runtime :: runtime_summary where
  "the_runtime =
     \<lparr>agentRuntimeName = ''ins-mcp'',
      agentRuntimeId = ''ins-mcp-1'',
      agentRuntimeArn = ''arn:aws:bedrock-agentcore:us-east-1:111122223333:runtime/ins-mcp-1''\<rparr>"

definition the_details :: runtime_details where
  "the_details =
     \<lparr>roleArn = Some ''arn:aws:iam::111122223333:role/ins-mcp-role'',
      customJWTAuthorizer =
        Some \<lparr>discoveryUrl = Some ''https://cognito-idp.us-east-1.amazonaws.com/us-east-1_Pool0/.well-known/openid-configuration'',
              allowedClients = [''client-0000'']\<rparr>\<rparr>"

text \<open>A provider where the runtime \<^verbatim>\<open>ins-mcp\<close> is deployed and stays.\<close>

definition deployed_cloud :: cloud where
  "deployed_cloud =
     empty_cloud
       \<lparr>list_agent_runtimes := (\<lambda>t. Inr \<lparr>agentRuntimes = [the_runtime], nextToken = None\<rparr>),
        get_agent_runtime := (\<lambda>i. if i = ''ins-mcp-1'' then Inr the_details
                                    else Inl (ClientError AgentCore ResourceNotFoundException)),
        delete_agent_runtime := (\<lambda>i. Inr (Some ''DELETING'')),
        get_agent_runtime_at := (\<lambda>k i. Inr the_details)\<rparr>"

text \<open>The same, where the runtime is gone at the seventh lookup after the deletion request.\<close>

definition deleted_at_7 :: cloud where
  "deleted_at_7 =
     deployed_cloud
       \<lparr>get_agent_runtime_at := (\<lambda>k i. if k = 7 then Inl (ClientError AgentCore ResourceNotFoundException)
                                       else Inr the_details)\<rparr>"

text \<open>What the teardown finds of that runtime.\<close>

definition the_server :: cleanup_details where
  "the_server =
     \<lparr>agent_runtime_id = ''ins-mcp-1'',
      agent_arn = ''arn:aws:bedrock-agentcore:us-east-1:111122223333:runtime/ins-mcp-1'',
      execution_role_arn = ''arn:aws:iam::111122223333:role/ins-mcp-role'',
      execution_role_name = ''ins-mcp-role'',
      auth_config = customJWTAuthorizer the_details\<rparr>"

text \<open>
  A bucket that holds more objects than one page of the listing returns: the response
  carries the first keys and says that it is truncated, and the bucket cannot be deleted
  while objects remain.
\<close>

definition crowded_bucket :: cloud where
  "crowded_bucket =
     empty_cloud
       \<lparr>list_objects_v2 := (\<lambda>b. Inr \<lparr>contents = Some [''medical-records/APP-0001/summary.json'',
                                                         ''medical-records/APP-0002/summary.json''],
                                      is_truncated = True\<rparr>),
        delete_bucket := (\<lambda>b. Inl (ClientError S3 (OtherCode ''BucketNotEmpty'')))\<rparr>"

text \<open>
  A listing in two pages: the first still shows a runtime of the name that is gone
  (its details are not found), the second the runtime that is deployed.
\<close>

definition stale_runtime :: runtime_summary where
  "stale_runtime =
     \<lparr>agentRuntimeName = ''ins-mcp'',
      agentRuntimeId = ''ins-mcp-0'',
      agentRuntimeArn = ''arn:aws:bedrock-agentcore:us-east-1:111122223333:runtime/ins-mcp-0''\<rparr>"

definition stale_listing :: cloud where
  "stale_listing =
     deployed_cloud
       \<lparr>list_agent_runtimes :=
          (\<lambda>t. if t = None then Inr \<lparr>agentRuntimes = [stale_runtime], nextToken = Some ''page-2''\<rparr>
                else Inr \<lparr>agentRuntimes = [the_runtime], nextToken = None\<rparr>)\<rparr>"

text \<open>What the deployment finds of that runtime.\<close>

definition the_existing :: existing_config where
  "the_existing =
     \<lparr>agent_runtime_id = ''ins-mcp-1'',
      agent_arn = ''arn:aws:bedrock-agentcore:us-east-1:111122223333:runtime/ins-mcp-1'',
      execution_role_arn = ''arn:aws:iam::111122223333:role/ins-mcp-role'',
      execution_role_name = ''ins-mcp-role'',
      cognito_config =
        \<lparr>discovery_url = ''https://cognito-idp.us-east-1.amazonaws.com/us-east-1_Pool0/.well-known/openid-configuration'',
         service_client_id = ''client-0000''\<rparr>\<rparr>"

text \<open>
  In an update of the runtime \<open>ex\<close>: a call that writes credentials, or a
  \<^verbatim>\<open>configure\<close> with other parameters than those built from \<open>ex\<close>.
\<close>

definition foreign :: "host \<Rightarrow> config \<Rightarrow> existing_config \<Rightarrow> call \<Rightarrow> bool" where
  "foreign h cfg ex cl =
     (credential_write cl \<or>
      (\<exists>p. cl = Configure p \<and> p \<noteq> make_config_params h cfg (update_mode ex)))"

text \<open>A provider that refuses the domain of a new pool.\<close>

definition domain_refused :: cloud where
  "domain_refused =
     empty_cloud
       \<lparr>create_user_pool_domain := (\<lambda>d p. Inl (ClientError Cognito InvalidParameterException))\<rparr>"

fun is_sleep :: "event \<Rightarrow> bool" where
  "is_sleep (Sleep n) = True"
| "is_sleep (Api cl r) = False"
| "is_sleep (Print s) = False"
| "is_sleep (Input s) = False"

text \<open>What one attempt of each polling loop of the deployment sees.\<close>

definition roles_seen :: "cloud \<Rightarrow> string \<Rightarrow> nat \<Rightarrow> bool" where
  "roles_seen c region k =
     (case list_roles_at c k of Inl e \<Rightarrow> False | Inr role_names \<Rightarrow> roles_ready region role_names)"

definition role_seen :: "cloud \<Rightarrow> string \<Rightarrow> nat \<Rightarrow> bool" where
  "role_seen c runtime_id k =
     (case get_agent_runtime_at c k runtime_id of
        Inl e \<Rightarrow> False
      | Inr d \<Rightarrow>
          (case roleArn d of
             None \<Rightarrow> False
           | Some arn \<Rightarrow>
               arn \<noteq> [] \<and>
               (case get_role_at c k (last_segment arn) of Inl e \<Rightarrow> False | Inr u \<Rightarrow> True)))"

definition roles_events :: "cloud \<Rightarrow> nat \<Rightarrow> nat \<Rightarrow> event list" where
  "roles_events c a n =
     concat (map (\<lambda>k. [Api ListRoles (raised (list_roles_at c k)), Sleep 5]) [Suc a..<Suc n])"

text \<open>The calls that bind the permissions and write the integration guide.\<close>

fun binding :: "call \<Rightarrow> bool" where
  "binding (PutRolePolicy r n d) = True"
| "binding (WriteIntegrationDoc e) = True"
| "binding cl = False"

text \<open>The last three stretches of the deployment.\<close>

definition launch_and_bind ::
  "cloud \<Rightarrow> host \<Rightarrow> config \<Rightarrow> deployment \<Rightarrow> unit outcome \<times> event list" where
  "launch_and_bind c h cfg m =
     then_do (launch_runtime h m) (\<lambda>arn.
     then_do (bind_role c h cfg m arn) (\<lambda>u.
     finish c h cfg m arn))"

text \<open>A provider where nothing exists and no role ever shows up.\<close>

definition roles_never_seen :: cloud where
  "roles_never_seen = empty_cloud \<lparr>list_roles_at := (\<lambda>k. Inr [])\<rparr>"

text \<open>
  A stretch raises whenever one of its unguarded calls failed; a stretch never leaves
  through \<^verbatim>\<open>sys.exit\<close>.
\<close>

definition fatal :: "'a outcome \<times> event list \<Rightarrow> bool" where
  "fatal m = (failed_unguarded (snd m) \<longrightarrow> (\<exists>e. fst m = Raise e))"

definition no_exit :: "'a outcome \<times> event list \<Rightarrow> bool" where
  "no_exit m = (\<forall>n. fst m \<noteq> SysExit n)"



section \<open>The deletion wait of the teardown\<close>

lemma probe_events_step:
  "a < n \<Longrightarrow> probe_events c rid a n =
     [Sleep (sleep_time (Suc a)), Api (GetAgentRuntime rid) (raised (get_agent_runtime_at c (Suc a) rid))]
     @ probe_events c rid (Suc a) n"
proof -
  assume "a < n"
  then have "[Suc a..<Suc n] = Suc a # [Suc (Suc a)..<Suc n]"
    by (simp add: upt_conv_Cons del: upt_Suc)
  then show ?thesis unfolding probe_events_def by (simp del: upt_Suc)
qed

lemma probe_events_one:
  "probe_events c rid a (Suc a) =
     [Sleep (sleep_time (Suc a)), Api (GetAgentRuntime rid) (raised (get_agent_runtime_at c (Suc a) rid))]"
  unfolding probe_events_def by simp

lemma probe_events_none: "probe_events c rid a a = []"
  unfolding probe_events_def by simp

lemma wait_from:
  "a \<le> 20 \<Longrightarrow>
   \<exists>n. a \<le> n \<and> n \<le> 20 \<and>
     filter (\<lambda>e. \<not> is_print e) (snd (wait_for_deletion c rid a)) = probe_events c rid a n \<and>
     (\<forall>k. a < k \<and> k < n \<longrightarrow> get_agent_runtime_at c k rid \<noteq> Inl (ClientError AgentCore ResourceNotFoundException)) \<and>
     (fst (wait_for_deletion c rid a) \<longleftrightarrow> a < n \<and> get_agent_runtime_at c n rid = Inl (ClientError AgentCore ResourceNotFoundException)) \<and>
     (\<not> fst (wait_for_deletion c rid a) \<longrightarrow> n = 20)"
proof (induction c rid a rule: wait_for_deletion.induct)
  case (1 c rid a)
  let ?nf = "ClientError AgentCore ResourceNotFoundException"
  show ?case
  proof (cases "a < 20")
    case False
    with 1(3) have "a = 20" by simp
    then show ?thesis
      by (intro exI[of _ 20]) (auto simp: wait_for_deletion.simps[of c rid 20] max_attempts_def probe_events_none)
  next
    case lt: True
    show ?thesis
    proof (cases "get_agent_runtime_at c (a + 1) rid = Inl ?nf")
      case True
      then show ?thesis using lt
        by (intro exI[of _ "Suc a"])
           (auto simp: wait_for_deletion.simps[of c rid a] max_attempts_def probe_events_one raised_def)
    next
      case nf: False
      have step: "wait_for_deletion c rid a =
          prepend [Sleep (sleep_time (a + 1)), Api (GetAgentRuntime rid) (raised (get_agent_runtime_at c (a + 1) rid))]
            (wait_for_deletion c rid (a + 1))"
        using lt nf
        by (simp add: wait_for_deletion.simps[of c rid a] max_attempts_def raised_def split: sum.splits)
      have "\<exists>n. a + 1 \<le> n \<and> n \<le> 20 \<and>
         filter (\<lambda>e. \<not> is_print e) (snd (wait_for_deletion c rid (a + 1))) = probe_events c rid (a + 1) n \<and>
         (\<forall>k. a + 1 < k \<and> k < n \<longrightarrow> get_agent_runtime_at c k rid \<noteq> Inl ?nf) \<and>
         (fst (wait_for_deletion c rid (a + 1)) \<longleftrightarrow> a + 1 < n \<and> get_agent_runtime_at c n rid = Inl ?nf) \<and>
         (\<not> fst (wait_for_deletion c rid (a + 1)) \<longrightarrow> n = 20)"
      proof (cases "get_agent_runtime_at c (a + 1) rid")
        case (Inl e)
        with nf have "e \<noteq> ?nf" by simp
        from 1(1)[OF _ Inl this] lt show ?thesis by (simp add: max_attempts_def)
      next
        case (Inr d)
        from 1(2)[OF _ Inr] lt show ?thesis by (simp add: max_attempts_def)
      qed
      then obtain n where n: "a + 1 \<le> n" "n \<le> 20"
         "filter (\<lambda>e. \<not> is_print e) (snd (wait_for_deletion c rid (a + 1))) = probe_events c rid (a + 1) n"
         "\<forall>k. a + 1 < k \<and> k < n \<longrightarrow> get_agent_runtime_at c k rid \<noteq> Inl ?nf"
         "fst (wait_for_deletion c rid (a + 1)) \<longleftrightarrow> a + 1 < n \<and> get_agent_runtime_at c n rid = Inl ?nf"
         "\<not> fst (wait_for_deletion c rid (a + 1)) \<longrightarrow> n = 20"
        by blast
      have an: "a < n" using n(1) by simp
      have tr: "filter (\<lambda>e. \<not> is_print e) (snd (wait_for_deletion c rid a)) = probe_events c rid a n"
        using n(3) by (simp add: step prepend_def probe_events_step[OF an])
      have all: "\<forall>k. a < k \<and> k < n \<longrightarrow> get_agent_runtime_at c k rid \<noteq> Inl ?nf"
      proof (intro allI impI)
        fix k assume k: "a < k \<and> k < n"
        show "get_agent_runtime_at c k rid \<noteq> Inl ?nf"
        proof (cases "k = a + 1")
          case True then show ?thesis using nf by simp
        next
          case False then show ?thesis using k n(4) by simp
        qed
      qed
      have res: "fst (wait_for_deletion c rid a) \<longleftrightarrow> a < n \<and> get_agent_runtime_at c n rid = Inl ?nf"
      proof (cases "n = a + 1")
        case True then show ?thesis using n(5) nf by (simp add: step prepend_def)
      next
        case False then show ?thesis using n(5) n(1) by (simp add: step prepend_def)
      qed
      have to: "\<not> fst (wait_for_deletion c rid a) \<longrightarrow> n = 20"
        using n(6) by (simp add: step prepend_def)
      have le: "a \<le> n" using an by simp
      show ?thesis using le n(2) tr all res to
        by (intro exI[of _ n] conjI) assumption+
    qed
  qed
qed

lemma wait_never_found:
  assumes "\<forall>k. get_agent_runtime_at c k rid \<noteq> Inl (ClientError AgentCore ResourceNotFoundException)"
  shows "\<not> fst (wait_for_deletion c rid 0)"
proof -
  from wait_from[of 0 c rid] obtain n where
    "fst (wait_for_deletion c rid 0) \<longleftrightarrow>
       0 < n \<and> get_agent_runtime_at c n rid = Inl (ClientError AgentCore ResourceNotFoundException)"
    by auto
  with assms show ?thesis by simp
qed

text \<open>
  C2. The deletion-confirmation wait makes at most 20 lookups. Before the \<open>k\<close>-th
  lookup it sleeps \<open>min (5 + 2 * k) 15\<close> seconds. It returns \<^verbatim>\<open>True\<close> at the first
  lookup that raises the provider's not-found exception; a lookup that succeeds or raises
  anything else is followed by the next attempt; when the twentieth lookup has not
  raised it either, it returns \<^verbatim>\<open>False\<close>. The function is total, so the wait
  ends whatever the provider answers: \<open>n\<close> below is the number of lookups made.
\<close>

theorem deletion_wait_bounded:
  "max_attempts = 20 \<and> (\<forall>k. sleep_time k = min (5 + 2 * k) 15) \<and>
   (\<exists>n\<le>20.
      filter (\<lambda>e. \<not> is_print e) (snd (wait_for_deletion c rid 0)) = probe_events c rid 0 n \<and>
      (\<forall>k. 0 < k \<and> k < n \<longrightarrow>
           get_agent_runtime_at c k rid \<noteq> Inl (ClientError AgentCore ResourceNotFoundException)) \<and>
      (fst (wait_for_deletion c rid 0) \<longleftrightarrow>
         0 < n \<and> get_agent_runtime_at c n rid = Inl (ClientError AgentCore ResourceNotFoundException)) \<and>
      (\<not> fst (wait_for_deletion c rid 0) \<longrightarrow> n = 20))"
proof (intro conjI)
  show "max_attempts = 20" by (simp add: max_attempts_def)
  show "\<forall>k. sleep_time k = min (5 + 2 * k) 15" by (simp add: sleep_time_def mult.commute)
  from wait_from[of 0 c rid] show "\<exists>n\<le>20.
      filter (\<lambda>e. \<not> is_print e) (snd (wait_for_deletion c rid 0)) = probe_events c rid 0 n \<and>
      (\<forall>k. 0 < k \<and> k < n \<longrightarrow>
           get_agent_runtime_at c k rid \<noteq> Inl (ClientError AgentCore ResourceNotFoundException)) \<and>
      (fst (wait_for_deletion c rid 0) \<longleftrightarrow>
         0 < n \<and> get_agent_runtime_at c n rid = Inl (ClientError AgentCore ResourceNotFoundException)) \<and>
      (\<not> fst (wait_for_deletion c rid 0) \<longrightarrow> n = 20)"
    by simp
qed

text \<open>
  The runtime is gone at the seventh lookup: the wait returns \<^verbatim>\<open>True\<close> after
  exactly seven sleeps and lookups.
\<close>

lemma probe_deleted_at_7:
  "get_agent_runtime_at deleted_at_7 k rid = Inl (ClientError AgentCore ResourceNotFoundException) \<longleftrightarrow> k = 7"
  by (simp add: deleted_at_7_def deployed_cloud_def empty_cloud_def)

theorem deletion_wait_bounded_witness:
  "fst (wait_for_deletion deleted_at_7 ''ins-mcp-1'' 0) \<and>
   filter (\<lambda>e. \<not> is_print e) (snd (wait_for_deletion deleted_at_7 ''ins-mcp-1'' 0))
     = probe_events deleted_at_7 ''ins-mcp-1'' 0 7"
proof -
  let ?c = deleted_at_7 and ?rid = "''ins-mcp-1''"
  from deletion_wait_bounded[of ?c ?rid] obtain n where n: "n \<le> 20"
    and tr: "filter (\<lambda>e. \<not> is_print e) (snd (wait_for_deletion ?c ?rid 0)) = probe_events ?c ?rid 0 n"
    and before: "\<forall>k. 0 < k \<and> k < n \<longrightarrow>
           get_agent_runtime_at ?c k ?rid \<noteq> Inl (ClientError AgentCore ResourceNotFoundException)"
    and res: "fst (wait_for_deletion ?c ?rid 0) \<longleftrightarrow>
         0 < n \<and> get_agent_runtime_at ?c n ?rid = Inl (ClientError AgentCore ResourceNotFoundException)"
    and out: "\<not> fst (wait_for_deletion ?c ?rid 0) \<longrightarrow> n = 20"
    by blast
  have "n = 7"
  proof (cases "fst (wait_for_deletion ?c ?rid 0)")
    case True
    with res show ?thesis by (simp add: probe_deleted_at_7)
  next
    case False
    with out have "n = 20" by simp
    with before have "get_agent_runtime_at ?c 7 ?rid \<noteq> Inl (ClientError AgentCore ResourceNotFoundException)"
      by simp
    then show ?thesis by (simp add: probe_deleted_at_7)
  qed
  with tr res show ?thesis by (simp add: probe_deleted_at_7)
qed

section \<open>What a run calls\<close>

lemma calls_append [simp]: "calls (a @ b) = calls a @ calls b"
  by (induction a rule: calls.induct) auto

lemma never_Nil [simp]: "never P []"
  by (simp add: never_def)

lemma never_append [simp]: "never P (a @ b) \<longleftrightarrow> never P a \<and> never P b"
  by (simp add: never_def)

lemma never_Api [simp]: "never P (Api cl r # tr) \<longleftrightarrow> \<not> P cl \<and> never P tr"
  by (simp add: never_def)

lemma never_Print [simp]: "never P (Print s # tr) \<longleftrightarrow> never P tr"
  by (simp add: never_def)

lemma never_Sleep [simp]: "never P (Sleep n # tr) \<longleftrightarrow> never P tr"
  by (simp add: never_def)

lemma never_Input [simp]: "never P (Input s # tr) \<longleftrightarrow> never P tr"
  by (simp add: never_def)

lemma never_prepend [simp]: "never P (snd (prepend tr r)) \<longleftrightarrow> never P tr \<and> never P (snd r)"
  by (simp add: prepend_def)

lemma fst_prepend [simp]: "fst (prepend tr r) = fst r"
  by (simp add: prepend_def)

lemma snd_prepend [simp]: "snd (prepend tr r) = tr @ snd r"
  by (simp add: prepend_def)

lemma never_scan_runtimes:
  "(\<And>i. \<not> P (GetAgentRuntime i)) \<Longrightarrow> never P (snd (scan_runtimes c cfg rs))"
  by (induction rs) (auto split: sum.splits option.splits)

lemma never_details_pages_aux:
  assumes P: "\<And>t. \<not> P (ListAgentRuntimes t)" "\<And>i. \<not> P (GetAgentRuntime i)"
    and eq: "details_pages c cfg tok tr = Some y"
  shows "never P tr \<longrightarrow> never P (snd y)"
proof (rule details_pages.raw_induct[where P = "\<lambda>c cfg tok tr y. never P tr \<longrightarrow> never P (snd y)", OF _ eq],
       goal_cases)
  case (1 f c cfg tok tr y)
  note scan = never_scan_runtimes[of P c cfg, OF P(2)]
  show ?case
  proof (cases "list_agent_runtimes c (sent_token tok)")
    case (Inl e)
    with 1(2) P show ?thesis by auto
  next
    case (Inr response)
    obtain sr tr' where sc: "scan_runtimes c cfg (agentRuntimes response) = (sr, tr')"
      by (cases "scan_runtimes c cfg (agentRuntimes response)")
    have tr': "never P tr'" using scan[of "agentRuntimes response"] sc by simp
    show ?thesis
    proof (cases sr)
      case (Match d)
      with 1(2) Inr sc tr' P show ?thesis by auto
    next
      case (Raised e)
      with 1(2) Inr sc tr' P show ?thesis by auto
    next
      case NoMatch
      show ?thesis
      proof (cases "nextToken response")
        case None
        with 1(2) Inr sc tr' P NoMatch show ?thesis by auto
      next
        case (Some t)
        with 1(2) Inr sc NoMatch
        have "f c cfg (Some t) (tr @ Api (ListAgentRuntimes (sent_token tok)) None # tr') = Some y"
          by simp
        from 1(1)[OF this] tr' P show ?thesis by simp
      qed
    qed
  qed
qed

lemma never_get_mcp_server_details:
  assumes "\<And>t. \<not> P (ListAgentRuntimes t)" "\<And>i. \<not> P (GetAgentRuntime i)"
    and "get_mcp_server_details c cfg = Some (sd, tr)"
  shows "never P tr"
  using never_details_pages_aux[of P c cfg None "[]" "(sd, tr)"] assms
  by (simp add: get_mcp_server_details_def)

lemma never_wait_for_deletion:
  "(\<And>i. \<not> P (GetAgentRuntime i)) \<Longrightarrow> never P (snd (wait_for_deletion c rid a))"
proof (induction c rid a rule: wait_for_deletion.induct)
  case (1 c rid attempt)
  show ?case
    using 1 by (subst wait_for_deletion.simps) (auto split: sum.splits)
qed

lemma never_cleanup_agentcore_runtime:
  "(\<And>i. \<not> P (GetAgentRuntime i)) \<Longrightarrow> (\<And>i. \<not> P (DeleteAgentRuntime i))
   \<Longrightarrow> never P (snd (cleanup_agentcore_runtime c sd))"
  by (auto simp: cleanup_agentcore_runtime_def never_wait_for_deletion split: option.splits sum.splits)

lemma never_cleanup_cognito_resources:
  "(\<And>n. \<not> P (GetSecretValue n)) \<Longrightarrow> (\<And>cl. pool_deletion cl \<Longrightarrow> \<not> P cl)
   \<Longrightarrow> never P (cleanup_cognito_resources c cfg)"
  by (auto simp: cleanup_cognito_resources_def cognito_handler_def delete_domain_first_def
           split: option.splits sum.splits)

lemma never_cleanup_dynamodb_tables:
  "(\<And>t. \<not> P (TableDelete t)) \<Longrightarrow> (\<And>t. \<not> P (TableWaitUntilNotExists t))
   \<Longrightarrow> never P (cleanup_dynamodb_tables c cfg)"
  by (auto simp: cleanup_dynamodb_tables_def delete_table_def split: sum.splits)

lemma snd_unhandled [simp]: "snd (unhandled r) = snd r"
  by (cases r; cases "fst r") (auto simp: unhandled_def)

lemma fst_unhandled_Ok [simp]: "fst (unhandled r) = Ok v \<longleftrightarrow> fst r = Inr v"
  by (cases r; cases "fst r") (auto simp: unhandled_def)

lemma fst_unhandled_Raise [simp]: "fst (unhandled r) = Raise e \<longleftrightarrow> fst r = Inl e"
  by (cases r; cases "fst r") (auto simp: unhandled_def)

lemma fst_unhandled_SysExit [simp]: "fst (unhandled r) \<noteq> SysExit n"
  by (cases r; cases "fst r") (auto simp: unhandled_def)

lemma never_guarded:
  "never P (snd r) \<Longrightarrow> (\<And>e. never P (handler e)) \<Longrightarrow> (\<And>v. never P (f v))
   \<Longrightarrow> never P (guarded handler r f)"
  by (cases r; cases "fst r") (auto simp: guarded_def)

lemma never_s3_bucket_name:
  "\<not> P GetCallerIdentity \<Longrightarrow> never P (snd (s3_bucket_name c cfg site))"
  by (auto simp: s3_bucket_name_def split: sum.splits)

lemma s3_bucket_name_plain:
  "\<not> str_contains (bucket_base cfg) ''{account_id}'' \<Longrightarrow>
   s3_bucket_name c cfg site = (Inr (bucket_base cfg @ ''-'' @ config_region cfg), [])"
  by (simp add: s3_bucket_name_def)

lemma never_empty_and_delete:
  "(\<And>b. \<not> P (ListObjectsV2 b)) \<Longrightarrow> (\<And>b ks. \<not> P (DeleteObjects b ks)) \<Longrightarrow> (\<And>b. \<not> P (DeleteBucket b))
   \<Longrightarrow> never P (empty_and_delete c bucket_name)"
  by (auto simp: empty_and_delete_def s3_handler_def delete_the_bucket_def
           split: sum.splits option.splits)

lemma never_cleanup_s3_bucket:
  "(\<And>b. \<not> P (ListObjectsV2 b)) \<Longrightarrow> (\<And>b ks. \<not> P (DeleteObjects b ks)) \<Longrightarrow> (\<And>b. \<not> P (DeleteBucket b))
   \<Longrightarrow> \<not> P GetCallerIdentity \<Longrightarrow> never P (cleanup_s3_bucket c cfg)"
  by (simp add: cleanup_s3_bucket_def never_guarded never_s3_bucket_name never_empty_and_delete)

lemma never_cleanup_secrets_manager:
  "(\<And>n. \<not> P (DeleteSecret n)) \<Longrightarrow> never P (cleanup_secrets_manager c cfg)"
  by (auto simp: cleanup_secrets_manager_def split: sum.splits)

lemma never_delete_role_policies:
  "(\<And>cl. role_call cl \<Longrightarrow> \<not> P cl) \<Longrightarrow> never P (delete_role_policies c r ps)"
  by (induction ps) (auto split: sum.splits)

lemma never_detach_role_policies:
  "(\<And>cl. role_call cl \<Longrightarrow> \<not> P cl) \<Longrightarrow> never P (detach_role_policies c r ps)"
  by (induction ps) (auto split: sum.splits)

lemma never_cleanup_iam_role:
  "(\<And>cl. role_call cl \<Longrightarrow> \<not> P cl) \<Longrightarrow> never P (cleanup_iam_role c sd)"
  by (auto simp: cleanup_iam_role_def remove_inline_policies_def detach_managed_policies_def
                 delete_the_role_def never_delete_role_policies never_detach_role_policies
           split: option.splits sum.splits)

lemma never_manual_cleanup_text [simp]: "never P (manual_cleanup_text d)"
  by (simp add: manual_cleanup_text_def)

lemma never_closing_line [simp]: "never P (closing_line sd b)"
  by (simp add: closing_line_def)

lemma never_found_line [simp]: "never P (found_line sd)"
  by (simp add: found_line_def split: option.splits)

section \<open>The teardown\<close>

lemma cleanup_agentcore_runtime_True:
  "fst (cleanup_agentcore_runtime c sd) \<Longrightarrow>
   \<exists>d. sd = Some d \<and> raised (delete_agent_runtime c (agent_runtime_id d)) = None
       \<and> fst (wait_for_deletion c (agent_runtime_id d) 0)"
  by (auto simp: cleanup_agentcore_runtime_def raised_def split: option.splits sum.splits)

lemma secret_looked_up:
  "GetSecretValue (credentials_secret_id cfg) \<in> set (calls (cleanup_cognito_resources c cfg))"
  by (simp add: cleanup_cognito_resources_def split: sum.splits)

lemma tables_deleted:
  "TableDelete (applicants_table cfg) \<in> set (calls (cleanup_dynamodb_tables c cfg)) \<and>
   TableDelete (claims_table cfg) \<in> set (calls (cleanup_dynamodb_tables c cfg))"
  by (simp add: cleanup_dynamodb_tables_def delete_table_def split: sum.splits)

lemma bucket_step_attempted:
  "Print ''Cleaning up S3 bucket...'' \<in> set (cleanup_s3_bucket c cfg)"
  by (simp add: cleanup_s3_bucket_def)

lemma bucket_listed:
  "fst (s3_bucket_name c cfg BucketStep) = Inr b \<Longrightarrow>
   ListObjectsV2 b \<in> set (calls (cleanup_s3_bucket c cfg))"
  by (cases "s3_bucket_name c cfg BucketStep")
     (simp add: cleanup_s3_bucket_def guarded_def empty_and_delete_def split: sum.splits)

lemma secret_deleted:
  "DeleteSecret (credentials_secret_id cfg) \<in> set (calls (cleanup_secrets_manager c cfg))"
  by (simp add: cleanup_secrets_manager_def split: sum.splits)

lemma pool_deletion_not_role_call: "pool_deletion cl \<Longrightarrow> \<not> role_call cl"
  by (cases cl) auto

lemma role_call_not_pool_deletion: "role_call cl \<Longrightarrow> \<not> pool_deletion cl"
  by (cases cl) auto

lemma after_listing_yes:
  "answer \<in> {''y'', ''yes''} \<Longrightarrow>
   after_listing c cfg sd answer =
     Input answer # Print ''Starting cleanup...''
           # snd (cleanup_agentcore_runtime c sd)
           @ role_step c sd (fst (cleanup_agentcore_runtime c sd))
           @ cleanup_cognito_resources c cfg
           @ cleanup_dynamodb_tables c cfg
           @ cleanup_s3_bucket c cfg
           @ cleanup_secrets_manager c cfg
           @ closing_line sd (fst (cleanup_agentcore_runtime c sd))"
  by (auto simp: after_listing_def run_cleanup_def split: prod.splits)

lemma after_listing_no:
  "answer \<notin> {''y'', ''yes''} \<Longrightarrow>
   after_listing c cfg sd answer = [Input answer, Print ''Cleanup cancelled'']"
  by (auto simp: after_listing_def)

lemma main_raises:
  assumes "get_mcp_server_details c cfg = Some (sd, tr0)"
    and "fst (s3_bucket_name c cfg ListingLine) = Inl e"
  shows "main c cfg answer =
     Some (Raise e, tr0 @ found_line sd @ snd (s3_bucket_name c cfg ListingLine))"
  using assms
  by (cases "s3_bucket_name c cfg ListingLine")
     (simp add: main_def then_do_def unhandled_def prepend_def)

lemma main_returns:
  assumes "get_mcp_server_details c cfg = Some (sd, tr0)"
    and "fst (s3_bucket_name c cfg ListingLine) = Inr listed"
  shows "main c cfg answer =
     Some (Ok (), tr0 @ found_line sd @ snd (s3_bucket_name c cfg ListingLine)
                  @ after_listing c cfg sd answer)"
  using assms
  by (cases "s3_bucket_name c cfg ListingLine")
     (simp add: main_def then_do_def unhandled_def prepend_def)

lemma role_calls_of_main:
  assumes "get_mcp_server_details c cfg = Some (sd, tr0)"
  shows "never role_call
       (tr0 @ found_line sd @ snd (s3_bucket_name c cfg site) @ Input answer # Print ''Starting cleanup...''
           # snd (cleanup_agentcore_runtime c sd)
           @ rs
           @ cleanup_cognito_resources c cfg
           @ cleanup_dynamodb_tables c cfg
           @ cleanup_s3_bucket c cfg
           @ cleanup_secrets_manager c cfg
           @ closing_line sd b) \<longleftrightarrow> never role_call rs"
  using never_get_mcp_server_details[of role_call c cfg sd tr0, OF _ _ assms]
  by (simp add: never_cleanup_agentcore_runtime never_s3_bucket_name
        never_cleanup_cognito_resources[of role_call, OF _ pool_deletion_not_role_call]
        never_cleanup_dynamodb_tables never_cleanup_s3_bucket never_cleanup_secrets_manager)

lemma role_calls_before_prompt:
  assumes "get_mcp_server_details c cfg = Some (sd, tr0)"
  shows "never role_call (tr0 @ found_line sd @ snd (s3_bucket_name c cfg site))"
  using never_get_mcp_server_details[of role_call c cfg sd tr0, OF _ _ assms]
  by (simp add: never_s3_bucket_name)

lemma skipped_role_step:
  assumes "sd = Some d" and "\<not> fst (cleanup_agentcore_runtime c sd)"
    and tr: "tr = pre @ Input answer # Print ''Starting cleanup...''
           # snd (cleanup_agentcore_runtime c sd)
           @ role_step c sd (fst (cleanup_agentcore_runtime c sd))
           @ cleanup_cognito_resources c cfg
           @ cleanup_dynamodb_tables c cfg
           @ cleanup_s3_bucket c cfg
           @ cleanup_secrets_manager c cfg
           @ closing_line sd (fst (cleanup_agentcore_runtime c sd))"
  shows "role_step c sd (fst (cleanup_agentcore_runtime c sd)) = manual_cleanup_text d \<and>
        Print (''2. Then delete IAM role: '' @ execution_role_arn d) \<in> set tr \<and>
        Print (''aws iam delete-role --role-name '' @ execution_role_name d) \<in> set tr \<and>
        GetSecretValue (credentials_secret_id cfg) \<in> set (calls tr) \<and>
        TableDelete (applicants_table cfg) \<in> set (calls tr) \<and>
        TableDelete (claims_table cfg) \<in> set (calls tr) \<and>
        Print ''Cleaning up S3 bucket...'' \<in> set tr \<and>
        (\<forall>b. fst (s3_bucket_name c cfg BucketStep) = Inr b \<longrightarrow> ListObjectsV2 b \<in> set (calls tr)) \<and>
        DeleteSecret (credentials_secret_id cfg) \<in> set (calls tr)"
proof -
  have rs: "role_step c sd (fst (cleanup_agentcore_runtime c sd)) = manual_cleanup_text d"
    using assms(1,2) by (auto simp: role_step_def)
  have p1: "Print (''2. Then delete IAM role: '' @ execution_role_arn d) \<in> set (manual_cleanup_text d)"
    by (simp add: manual_cleanup_text_def)
  have p2: "Print (''aws iam delete-role --role-name '' @ execution_role_name d) \<in> set (manual_cleanup_text d)"
    by (simp add: manual_cleanup_text_def)
  have bl: "\<forall>b. fst (s3_bucket_name c cfg BucketStep) = Inr b \<longrightarrow>
       ListObjectsV2 b \<in> set (calls (cleanup_s3_bucket c cfg))"
    using bucket_listed[of c cfg] by blast
  show ?thesis
    unfolding tr
    using rs p1 p2 secret_looked_up[of cfg c] tables_deleted[of cfg c] bl
      bucket_step_attempted[of c cfg] secret_deleted[of cfg c]
    by simp
qed

text \<open>
  C1. In every teardown run whose lookup returns, a call that strips or deletes the
  execution role is made only when the operator confirmed, the runtime was found, its
  deletion was accepted and the deletion-confirmation wait returned \<^verbatim>\<open>True\<close>. In a
  run that passes the listing and the confirmation prompt the role step stands right
  after the runtime step. When the runtime was found and the runtime step returned
  \<^verbatim>\<open>False\<close>, no such call is made, the manual steps are printed with the role's ARN
  and name, and the run still looks up the credentials secret, deletes both tables,
  enters the bucket step (which lists the bucket whenever the name of the bucket can be
  read) and deletes the secret.
\<close>

theorem role_deleted_only_after_confirmation:
  assumes "get_mcp_server_details c cfg = Some (sd, tr0)"
  shows "\<exists>r tr. main c cfg answer = Some (r, tr) \<and>
     (\<not> never role_call tr \<longrightarrow>
        answer \<in> {''y'', ''yes''} \<and>
        (\<exists>d. sd = Some d \<and> raised (delete_agent_runtime c (agent_runtime_id d)) = None
             \<and> fst (wait_for_deletion c (agent_runtime_id d) 0))) \<and>
     (answer \<in> {''y'', ''yes''} \<and> (\<exists>listed. fst (s3_bucket_name c cfg ListingLine) = Inr listed) \<longrightarrow>
        r = Ok () \<and>
        tr = (tr0 @ found_line sd @ snd (s3_bucket_name c cfg ListingLine))
           @ Input answer # Print ''Starting cleanup...''
           # snd (cleanup_agentcore_runtime c sd)
           @ role_step c sd (fst (cleanup_agentcore_runtime c sd))
           @ cleanup_cognito_resources c cfg
           @ cleanup_dynamodb_tables c cfg
           @ cleanup_s3_bucket c cfg
           @ cleanup_secrets_manager c cfg
           @ closing_line sd (fst (cleanup_agentcore_runtime c sd)) \<and>
        (\<forall>d. sd = Some d \<and> \<not> fst (cleanup_agentcore_runtime c sd) \<longrightarrow>
           never role_call tr \<and>
           role_step c sd (fst (cleanup_agentcore_runtime c sd)) = manual_cleanup_text d \<and>
           Print (''2. Then delete IAM role: '' @ execution_role_arn d) \<in> set tr \<and>
           Print (''aws iam delete-role --role-name '' @ execution_role_name d) \<in> set tr \<and>
           GetSecretValue (credentials_secret_id cfg) \<in> set (calls tr) \<and>
           TableDelete (applicants_table cfg) \<in> set (calls tr) \<and>
           TableDelete (claims_table cfg) \<in> set (calls tr) \<and>
           Print ''Cleaning up S3 bucket...'' \<in> set tr \<and>
           (\<forall>b. fst (s3_bucket_name c cfg BucketStep) = Inr b \<longrightarrow> ListObjectsV2 b \<in> set (calls tr)) \<and>
           DeleteSecret (credentials_secret_id cfg) \<in> set (calls tr)))"
proof -
  let ?N = "s3_bucket_name c cfg ListingLine"
  let ?R = "cleanup_agentcore_runtime c sd"
  let ?pre = "tr0 @ found_line sd @ snd ?N"
  let ?full = "?pre @ Input answer # Print ''Starting cleanup...''
           # snd ?R @ role_step c sd (fst ?R)
           @ cleanup_cognito_resources c cfg
           @ cleanup_dynamodb_tables c cfg
           @ cleanup_s3_bucket c cfg
           @ cleanup_secrets_manager c cfg
           @ closing_line sd (fst ?R)"
  have pre: "never role_call ?pre" by (rule role_calls_before_prompt[OF assms])
  show ?thesis
  proof (cases "fst ?N")
    case (Inl e)
    have m: "main c cfg answer = Some (Raise e, ?pre)" by (rule main_raises[OF assms Inl])
    show ?thesis
      apply (rule exI[of _ "Raise e"])
      apply (rule exI[of _ ?pre])
      using m pre Inl by simp
  next
    case (Inr listed)
    note m = main_returns[OF assms Inr, of answer]
    show ?thesis
    proof (cases "answer \<in> {''y'', ''yes''}")
      case False
      have tr: "main c cfg answer = Some (Ok (), ?pre @ [Input answer, Print ''Cleanup cancelled''])"
        unfolding m after_listing_no[OF False] by simp
      have n: "never role_call (?pre @ [Input answer, Print ''Cleanup cancelled''])"
        using pre by simp
      show ?thesis
        apply (rule exI[of _ "Ok ()"])
        apply (rule exI[of _ "?pre @ [Input answer, Print ''Cleanup cancelled'']"])
        apply (intro conjI)
          apply (rule tr)
         apply (simp only: n simp_thms)
        apply (simp only: False simp_thms)
        done
    next
      case True
      have tr: "main c cfg answer = Some (Ok (), ?full)"
        unfolding m after_listing_yes[OF True] by simp
      have rc: "never role_call ?full \<longleftrightarrow> never role_call (role_step c sd (fst ?R))"
        using role_calls_of_main[OF assms, of ListingLine answer "role_step c sd (fst ?R)" "fst ?R"]
        by simp
      have only: "\<not> never role_call ?full \<longrightarrow>
        answer \<in> {''y'', ''yes''} \<and>
        (\<exists>d. sd = Some d \<and> raised (delete_agent_runtime c (agent_runtime_id d)) = None
             \<and> fst (wait_for_deletion c (agent_runtime_id d) 0))"
      proof
        assume "\<not> never role_call ?full"
        with rc have "\<not> never role_call (role_step c sd (fst ?R))" by simp
        then have "fst ?R" by (auto simp: role_step_def split: option.splits if_splits)
        then have "\<exists>d. sd = Some d \<and> raised (delete_agent_runtime c (agent_runtime_id d)) = None
             \<and> fst (wait_for_deletion c (agent_runtime_id d) 0)"
          by (rule cleanup_agentcore_runtime_True)
        with True show "answer \<in> {''y'', ''yes''} \<and>
          (\<exists>d. sd = Some d \<and> raised (delete_agent_runtime c (agent_runtime_id d)) = None
             \<and> fst (wait_for_deletion c (agent_runtime_id d) 0))" by (rule conjI)
      qed
      have skipped: "\<forall>d. sd = Some d \<and> \<not> fst ?R \<longrightarrow>
           never role_call ?full \<and>
           role_step c sd (fst ?R) = manual_cleanup_text d \<and>
           Print (''2. Then delete IAM role: '' @ execution_role_arn d) \<in> set ?full \<and>
           Print (''aws iam delete-role --role-name '' @ execution_role_name d) \<in> set ?full \<and>
           GetSecretValue (credentials_secret_id cfg) \<in> set (calls ?full) \<and>
           TableDelete (applicants_table cfg) \<in> set (calls ?full) \<and>
           TableDelete (claims_table cfg) \<in> set (calls ?full) \<and>
           Print ''Cleaning up S3 bucket...'' \<in> set ?full \<and>
           (\<forall>b. fst (s3_bucket_name c cfg BucketStep) = Inr b \<longrightarrow> ListObjectsV2 b \<in> set (calls ?full)) \<and>
           DeleteSecret (credentials_secret_id cfg) \<in> set (calls ?full)"
      proof (intro allI impI conjI)
        fix d assume a: "sd = Some d \<and> \<not> fst ?R"
        from a have sd: "sd = Some d" by (rule conjunct1)
        from a have nr: "\<not> fst ?R" by (rule conjunct2)
        note s = skipped_role_step[OF sd nr refl, of ?pre answer cfg]
        from s have rs: "role_step c sd (fst ?R) = manual_cleanup_text d" by (rule conjunct1)
        have "never role_call (role_step c sd (fst ?R))" by (simp add: rs)
        with rc show "never role_call ?full" by blast
        show "role_step c sd (fst ?R) = manual_cleanup_text d" by (rule rs)
        from s show "Print (''2. Then delete IAM role: '' @ execution_role_arn d) \<in> set ?full" by blast
        from s show "Print (''aws iam delete-role --role-name '' @ execution_role_name d) \<in> set ?full" by blast
        from s show "GetSecretValue (credentials_secret_id cfg) \<in> set (calls ?full)" by blast
        from s show "TableDelete (applicants_table cfg) \<in> set (calls ?full)" by blast
        from s show "TableDelete (claims_table cfg) \<in> set (calls ?full)" by blast
        from s show "Print ''Cleaning up S3 bucket...'' \<in> set ?full" by blast
        from s show "\<And>b. fst (s3_bucket_name c cfg BucketStep) = Inr b \<Longrightarrow> ListObjectsV2 b \<in> set (calls ?full)"
          by blast
        from s show "DeleteSecret (credentials_secret_id cfg) \<in> set (calls ?full)" by blast
      qed
      show ?thesis
        apply (rule exI[of _ "Ok ()"])
        apply (rule exI[of _ ?full])
        apply (intro conjI)
          apply (rule tr)
         apply (rule only)
        apply (intro impI conjI)
          apply (rule refl)
         apply (rule refl)
        apply (rule skipped)
        done
    qed
  qed
qed

text \<open>
  The deployed runtime never disappears: the wait times out, the role is left alone and
  the manual steps name it.
\<close>

lemma details_deployed:
  "get_mcp_server_details deployed_cloud the_config =
     Some (Some the_server, [Api (ListAgentRuntimes None) None, Api (GetAgentRuntime ''ins-mcp-1'') None])"
  unfolding get_mcp_server_details_def
  by (subst details_pages.simps)
     (simp add: deployed_cloud_def empty_cloud_def the_config_def the_runtime_def the_details_def
        the_server_def sent_token_def last_segment_def)

lemma deployed_never_deleted:
  "\<not> fst (cleanup_agentcore_runtime deployed_cloud (Some the_server))"
proof -
  have "\<not> fst (wait_for_deletion deployed_cloud ''ins-mcp-1'' 0)"
    by (rule wait_never_found) (simp add: deployed_cloud_def empty_cloud_def)
  then show ?thesis
    by (simp add: cleanup_agentcore_runtime_def deployed_cloud_def empty_cloud_def the_server_def)
qed

text \<open>The configured name of the bucket has no placeholder: no read of it calls STS.\<close>

lemma the_bucket_name:
  "s3_bucket_name c the_config site = (Inr ''nova-insurance-111122223333-us-east-1'', [])"
  by (simp add: s3_bucket_name_def the_config_def)

theorem role_deleted_only_after_confirmation_witness:
  "(\<exists>tr. main deployed_cloud the_config ''y'' = Some (Ok (), tr) \<and>
      never role_call tr \<and>
      Print ''2. Then delete IAM role: arn:aws:iam::111122223333:role/ins-mcp-role'' \<in> set tr \<and>
      Print ''aws iam delete-role --role-name ins-mcp-role'' \<in> set tr \<and>
      GetSecretValue ''ins-mcp/cognito/credentials'' \<in> set (calls tr) \<and>
      TableDelete ''nova-insurance-applicants'' \<in> set (calls tr) \<and>
      TableDelete ''nova-insurance-claims'' \<in> set (calls tr) \<and>
      Print ''Cleaning up S3 bucket...'' \<in> set tr \<and>
      ListObjectsV2 ''nova-insurance-111122223333-us-east-1'' \<in> set (calls tr) \<and>
      DeleteSecret ''ins-mcp/cognito/credentials'' \<in> set (calls tr))"
proof -
  have y: "''y'' \<in> {''y'', ''yes''}" by simp
  have l: "\<exists>listed. fst (s3_bucket_name deployed_cloud the_config ListingLine) = Inr listed"
    by (simp add: the_bucket_name)
  have b: "fst (s3_bucket_name deployed_cloud the_config BucketStep)
             = Inr ''nova-insurance-111122223333-us-east-1''"
    by (simp add: the_bucket_name)
  from role_deleted_only_after_confirmation[OF details_deployed, of "''y''"] y l
  obtain r tr where tr: "main deployed_cloud the_config ''y'' = Some (r, tr)"
    and r: "r = Ok ()"
    and skipped: "\<forall>d. Some the_server = Some d \<and> \<not> fst (cleanup_agentcore_runtime deployed_cloud (Some the_server)) \<longrightarrow>
        never role_call tr \<and>
        role_step deployed_cloud (Some the_server) (fst (cleanup_agentcore_runtime deployed_cloud (Some the_server))) = manual_cleanup_text d \<and>
        Print (''2. Then delete IAM role: '' @ execution_role_arn d) \<in> set tr \<and>
        Print (''aws iam delete-role --role-name '' @ execution_role_name d) \<in> set tr \<and>
        GetSecretValue (credentials_secret_id the_config) \<in> set (calls tr) \<and>
        TableDelete (applicants_table the_config) \<in> set (calls tr) \<and>
        TableDelete (claims_table the_config) \<in> set (calls tr) \<and>
        Print ''Cleaning up S3 bucket...'' \<in> set tr \<and>
        (\<forall>b. fst (s3_bucket_name deployed_cloud the_config BucketStep) = Inr b \<longrightarrow> ListObjectsV2 b \<in> set (calls tr)) \<and>
        DeleteSecret (credentials_secret_id the_config) \<in> set (calls tr)"
    by blast
  from skipped deployed_never_deleted b have
    "never role_call tr \<and>
        Print (''2. Then delete IAM role: '' @ execution_role_arn the_server) \<in> set tr \<and>
        Print (''aws iam delete-role --role-name '' @ execution_role_name the_server) \<in> set tr \<and>
        GetSecretValue (credentials_secret_id the_config) \<in> set (calls tr) \<and>
        TableDelete (applicants_table the_config) \<in> set (calls tr) \<and>
        TableDelete (claims_table the_config) \<in> set (calls tr) \<and>
        Print ''Cleaning up S3 bucket...'' \<in> set tr \<and>
        ListObjectsV2 ''nova-insurance-111122223333-us-east-1'' \<in> set (calls tr) \<and>
        DeleteSecret (credentials_secret_id the_config) \<in> set (calls tr)"
    by blast
  then have "never role_call tr \<and>
      Print ''2. Then delete IAM role: arn:aws:iam::111122223333:role/ins-mcp-role'' \<in> set tr \<and>
      Print ''aws iam delete-role --role-name ins-mcp-role'' \<in> set tr \<and>
      GetSecretValue ''ins-mcp/cognito/credentials'' \<in> set (calls tr) \<and>
      TableDelete ''nova-insurance-applicants'' \<in> set (calls tr) \<and>
      TableDelete ''nova-insurance-claims'' \<in> set (calls tr) \<and>
      Print ''Cleaning up S3 bucket...'' \<in> set tr \<and>
      ListObjectsV2 ''nova-insurance-111122223333-us-east-1'' \<in> set (calls tr) \<and>
      DeleteSecret ''ins-mcp/cognito/credentials'' \<in> set (calls tr)"
    by (simp add: the_server_def the_config_def credentials_secret_id_def)
  with tr r show ?thesis by blast
qed

lemma pool_deletions_of_main:
  assumes "get_mcp_server_details c cfg = Some (sd, tr0)"
  shows "filter pool_deletion (calls
       ((tr0 @ found_line sd @ snd (s3_bucket_name c cfg site)) @ Input answer # Print ''Starting cleanup...''
           # snd (cleanup_agentcore_runtime c sd)
           @ role_step c sd b
           @ cleanup_cognito_resources c cfg
           @ cleanup_dynamodb_tables c cfg
           @ cleanup_s3_bucket c cfg
           @ cleanup_secrets_manager c cfg
           @ closing_line sd b)) = filter pool_deletion (calls (cleanup_cognito_resources c cfg))"
proof -
  have 0: "never pool_deletion tr0"
    by (rule never_get_mcp_server_details[of pool_deletion c cfg sd tr0, OF _ _ assms]) simp_all
  have 1: "never pool_deletion (snd (cleanup_agentcore_runtime c sd))"
    by (rule never_cleanup_agentcore_runtime) simp_all
  have 2: "never pool_deletion (role_step c sd b)"
    by (simp add: role_step_def never_cleanup_iam_role[of pool_deletion, OF role_call_not_pool_deletion]
          split: option.splits)
  have 3: "never pool_deletion (cleanup_dynamodb_tables c cfg)"
    by (rule never_cleanup_dynamodb_tables) simp_all
  have 4: "never pool_deletion (cleanup_s3_bucket c cfg)"
    by (rule never_cleanup_s3_bucket) simp_all
  have 5: "never pool_deletion (cleanup_secrets_manager c cfg)"
    by (rule never_cleanup_secrets_manager) simp_all
  have 6: "never pool_deletion (found_line sd)" "never pool_deletion (closing_line sd b)"
    by simp_all
  have 7: "never pool_deletion (snd (s3_bucket_name c cfg site))"
    by (rule never_s3_bucket_name) simp
  from 0 1 2 3 4 5 6 7 show ?thesis
    by (simp add: never_def)
qed

lemma pool_deletions_before_prompt:
  assumes "get_mcp_server_details c cfg = Some (sd, tr0)"
  shows "never pool_deletion (tr0 @ found_line sd @ snd (s3_bucket_name c cfg site))"
  using never_get_mcp_server_details[of pool_deletion c cfg sd tr0, OF _ _ assms]
  by (simp add: never_s3_bucket_name)

lemma pool_from_secret:
  "cl \<in> set (filter pool_deletion (calls (cleanup_cognito_resources c cfg))) \<Longrightarrow>
   \<exists>secret pid. get_secret_value c (credentials_secret_id cfg) = Inr secret \<and>
      secret ''pool_id'' = Some pid \<and>
      (cl = DeleteUserPool pid \<or> (\<exists>dp. secret ''domain_prefix'' = Some dp \<and> cl = DeleteUserPoolDomain dp pid))"
  by (auto simp: cleanup_cognito_resources_def cognito_handler_def delete_domain_first_def
           split: sum.splits option.splits if_splits)

lemma secret_absent:
  "get_secret_value c (credentials_secret_id cfg) = Inl (ClientError SecretsManager ResourceNotFoundException) \<Longrightarrow>
   cleanup_cognito_resources c cfg =
     [Print ''Cleaning up Cognito resources...'',
      Api (GetSecretValue (credentials_secret_id cfg)) (Some (ClientError SecretsManager ResourceNotFoundException)),
      Print ''No Cognito resources found'']"
  by (simp add: cleanup_cognito_resources_def cognito_handler_def)

text \<open>
  C10. In every teardown run in which the operator confirms, the pool and the domain of
  each deletion call are the \<^verbatim>\<open>pool_id\<close> and \<^verbatim>\<open>domain_prefix\<close> read from the
  secret \<^verbatim>\<open>{mcp_server_name}/cognito/credentials\<close>. When the secret store answers
  that this secret does not exist, the run deletes no pool and no domain, whatever the
  identity provider holds, and the step, which every run that gets past the listing
  reaches, prints that no Cognito resources were found. A run does not get past the
  listing only when the read of the bucket's name raises there.
\<close>

theorem pool_identity_from_secret_only:
  assumes "get_mcp_server_details c cfg = Some (sd, tr0)" and "answer \<in> {''y'', ''yes''}"
  shows "\<exists>r tr. main c cfg answer = Some (r, tr) \<and>
     (r = Ok () \<or> (\<exists>e. r = Raise e \<and> fst (s3_bucket_name c cfg ListingLine) = Inl e)) \<and>
     credentials_secret_id cfg = mcp_server_name cfg @ ''/cognito/credentials'' \<and>
     (\<forall>cl \<in> set (calls tr). pool_deletion cl \<longrightarrow>
        (\<exists>secret pid. get_secret_value c (credentials_secret_id cfg) = Inr secret \<and>
           secret ''pool_id'' = Some pid \<and>
           (cl = DeleteUserPool pid \<or>
            (\<exists>dp. secret ''domain_prefix'' = Some dp \<and> cl = DeleteUserPoolDomain dp pid)))) \<and>
     (get_secret_value c (credentials_secret_id cfg)
        = Inl (ClientError SecretsManager ResourceNotFoundException) \<longrightarrow>
      never pool_deletion tr \<and>
      cleanup_cognito_resources c cfg =
        [Print ''Cleaning up Cognito resources...'',
         Api (GetSecretValue (credentials_secret_id cfg))
             (Some (ClientError SecretsManager ResourceNotFoundException)),
         Print ''No Cognito resources found''] \<and>
      (r = Ok () \<longrightarrow> Print ''No Cognito resources found'' \<in> set tr))"
proof -
  let ?N = "s3_bucket_name c cfg ListingLine"
  let ?R = "cleanup_agentcore_runtime c sd"
  let ?pre = "tr0 @ found_line sd @ snd ?N"
  let ?tr = "?pre @ Input answer # Print ''Starting cleanup...''
           # snd ?R @ role_step c sd (fst ?R)
           @ cleanup_cognito_resources c cfg
           @ cleanup_dynamodb_tables c cfg
           @ cleanup_s3_bucket c cfg
           @ cleanup_secrets_manager c cfg
           @ closing_line sd (fst ?R)"
  have c: "credentials_secret_id cfg = mcp_server_name cfg @ ''/cognito/credentials''"
    by (simp add: credentials_secret_id_def)
  have abs: "get_secret_value c (credentials_secret_id cfg)
        = Inl (ClientError SecretsManager ResourceNotFoundException) \<longrightarrow>
      cleanup_cognito_resources c cfg =
        [Print ''Cleaning up Cognito resources...'',
         Api (GetSecretValue (credentials_secret_id cfg))
             (Some (ClientError SecretsManager ResourceNotFoundException)),
         Print ''No Cognito resources found'']"
    using secret_absent[of c cfg] by blast
  show ?thesis
  proof (cases "fst ?N")
    case (Inl e)
    have m: "main c cfg answer = Some (Raise e, ?pre)" by (rule main_raises[OF assms(1) Inl])
    have n: "never pool_deletion ?pre" by (rule pool_deletions_before_prompt[OF assms(1)])
    then have f: "filter pool_deletion (calls ?pre) = []" by (simp only: never_def)
    have a: "\<forall>cl \<in> set (calls ?pre). pool_deletion cl \<longrightarrow>
        (\<exists>secret pid. get_secret_value c (credentials_secret_id cfg) = Inr secret \<and>
           secret ''pool_id'' = Some pid \<and>
           (cl = DeleteUserPool pid \<or>
            (\<exists>dp. secret ''domain_prefix'' = Some dp \<and> cl = DeleteUserPoolDomain dp pid)))"
    proof (intro ballI impI)
      fix cl assume "cl \<in> set (calls ?pre)" "pool_deletion cl"
      then have "cl \<in> set (filter pool_deletion (calls ?pre))" by simp
      with f show "\<exists>secret pid. get_secret_value c (credentials_secret_id cfg) = Inr secret \<and>
           secret ''pool_id'' = Some pid \<and>
           (cl = DeleteUserPool pid \<or>
            (\<exists>dp. secret ''domain_prefix'' = Some dp \<and> cl = DeleteUserPoolDomain dp pid))"
        by simp
    qed
    show ?thesis
      apply (rule exI[of _ "Raise e"])
      apply (rule exI[of _ ?pre])
      apply (intro conjI)
          apply (rule m)
         apply (simp add: Inl)
        apply (rule c)
       apply (rule a)
      using abs n apply simp
      done
  next
    case (Inr listed)
    have m: "main c cfg answer = Some (Ok (), ?tr)"
      unfolding main_returns[OF assms(1) Inr] after_listing_yes[OF assms(2)] by simp
    have pd: "filter pool_deletion (calls ?tr) = filter pool_deletion (calls (cleanup_cognito_resources c cfg))"
      by (rule pool_deletions_of_main[OF assms(1)])
    have a: "\<forall>cl \<in> set (calls ?tr). pool_deletion cl \<longrightarrow>
        (\<exists>secret pid. get_secret_value c (credentials_secret_id cfg) = Inr secret \<and>
           secret ''pool_id'' = Some pid \<and>
           (cl = DeleteUserPool pid \<or>
            (\<exists>dp. secret ''domain_prefix'' = Some dp \<and> cl = DeleteUserPoolDomain dp pid)))"
    proof (intro ballI impI)
      fix cl assume "cl \<in> set (calls ?tr)" "pool_deletion cl"
      then have "cl \<in> set (filter pool_deletion (calls ?tr))" by simp
      with pd have "cl \<in> set (filter pool_deletion (calls (cleanup_cognito_resources c cfg)))" by simp
      then show "\<exists>secret pid. get_secret_value c (credentials_secret_id cfg) = Inr secret \<and>
           secret ''pool_id'' = Some pid \<and>
           (cl = DeleteUserPool pid \<or>
            (\<exists>dp. secret ''domain_prefix'' = Some dp \<and> cl = DeleteUserPoolDomain dp pid))"
        by (rule pool_from_secret)
    qed
    have b: "get_secret_value c (credentials_secret_id cfg)
        = Inl (ClientError SecretsManager ResourceNotFoundException) \<longrightarrow>
      never pool_deletion ?tr \<and>
      cleanup_cognito_resources c cfg =
        [Print ''Cleaning up Cognito resources...'',
         Api (GetSecretValue (credentials_secret_id cfg))
             (Some (ClientError SecretsManager ResourceNotFoundException)),
         Print ''No Cognito resources found''] \<and>
      (Ok () = Ok () \<longrightarrow> Print ''No Cognito resources found'' \<in> set ?tr)"
    proof
      assume ab: "get_secret_value c (credentials_secret_id cfg)
        = Inl (ClientError SecretsManager ResourceNotFoundException)"
      note eq = secret_absent[OF ab]
      have "filter pool_deletion (calls (cleanup_cognito_resources c cfg)) = []"
        by (simp add: eq)
      with pd have n: "never pool_deletion ?tr" by (simp only: never_def)
      have "Print ''No Cognito resources found'' \<in> set (cleanup_cognito_resources c cfg)"
        by (simp add: eq)
      then have "Print ''No Cognito resources found'' \<in> set ?tr" by simp
      with n eq show "never pool_deletion ?tr \<and>
      cleanup_cognito_resources c cfg =
        [Print ''Cleaning up Cognito resources...'',
         Api (GetSecretValue (credentials_secret_id cfg))
             (Some (ClientError SecretsManager ResourceNotFoundException)),
         Print ''No Cognito resources found''] \<and>
      (Ok () = Ok () \<longrightarrow> Print ''No Cognito resources found'' \<in> set ?tr)" by blast
    qed
    show ?thesis
      apply (rule exI[of _ "Ok ()"])
      apply (rule exI[of _ ?tr])
      apply (intro conjI)
          apply (rule m)
         apply (rule disjI1, rule refl)
        apply (rule c)
       apply (rule a)
      apply (rule b)
      done
  qed
qed

text \<open>The deployed runtime has no credentials secret: nothing of Cognito is deleted.\<close>

theorem pool_identity_from_secret_only_witness:
  "\<exists>tr. main deployed_cloud the_config ''yes'' = Some (Ok (), tr) \<and>
      never pool_deletion tr \<and> Print ''No Cognito resources found'' \<in> set tr"
proof -
  have y: "''yes'' \<in> {''y'', ''yes''}" by simp
  have abs: "get_secret_value deployed_cloud (credentials_secret_id the_config)
        = Inl (ClientError SecretsManager ResourceNotFoundException)"
    by (simp add: deployed_cloud_def empty_cloud_def)
  have l: "fst (s3_bucket_name deployed_cloud the_config ListingLine) \<noteq> Inl e" for e
    by (simp add: the_bucket_name)
  from pool_identity_from_secret_only[OF details_deployed y] abs l
  show ?thesis by blast
qed

section \<open>The bucket step and the two lookups\<close>

text \<open>
  C9. The bucket step lists the bucket at most once, whatever the provider answers and
  whatever the configuration (not at all when the name of the bucket cannot be read),
  and once the name is read it lists the bucket exactly once. On the crowded bucket
  the one response is truncated: the step deletes the two keys it was given, asks for
  the bucket to be deleted while objects remain, is refused, and does not report the
  bucket as deleted.
\<close>

theorem bucket_listed_once:
  "length (filter is_listing (calls (cleanup_s3_bucket c cfg))) \<le> 1 \<and>
   filter is_listing (calls (empty_and_delete c bucket_name)) = [ListObjectsV2 bucket_name] \<and>
   s3_bucket_name crowded_bucket the_config BucketStep
     = (Inr ''nova-insurance-111122223333-us-east-1'', []) \<and>
   list_objects_v2 crowded_bucket ''nova-insurance-111122223333-us-east-1'' =
     Inr \<lparr>contents = Some [''medical-records/APP-0001/summary.json'',
                          ''medical-records/APP-0002/summary.json''],
          is_truncated = True\<rparr> \<and>
   calls (cleanup_s3_bucket crowded_bucket the_config) =
     [ListObjectsV2 ''nova-insurance-111122223333-us-east-1'',
      DeleteObjects ''nova-insurance-111122223333-us-east-1''
        [''medical-records/APP-0001/summary.json'', ''medical-records/APP-0002/summary.json''],
      DeleteBucket ''nova-insurance-111122223333-us-east-1''] \<and>
   outcomes (cleanup_s3_bucket crowded_bucket the_config) =
     [None, None, Some (ClientError S3 (OtherCode ''BucketNotEmpty''))] \<and>
   Print ''S3 bucket deleted: nova-insurance-111122223333-us-east-1''
     \<notin> set (cleanup_s3_bucket crowded_bucket the_config)"
proof (intro conjI)
  have one: "filter is_listing (calls (empty_and_delete c b)) = [ListObjectsV2 b]" for b
    by (simp add: empty_and_delete_def s3_handler_def delete_the_bucket_def
          split: sum.splits option.splits)
  have none: "filter is_listing (calls (snd (s3_bucket_name c cfg BucketStep))) = []"
    using never_s3_bucket_name[of is_listing c cfg BucketStep] by (simp add: never_def)
  show "length (filter is_listing (calls (cleanup_s3_bucket c cfg))) \<le> 1"
    using one none
    by (cases "s3_bucket_name c cfg BucketStep"; cases "fst (s3_bucket_name c cfg BucketStep)")
       (simp_all add: cleanup_s3_bucket_def guarded_def)
  show "filter is_listing (calls (empty_and_delete c bucket_name)) = [ListObjectsV2 bucket_name]"
    by (rule one)
  show "s3_bucket_name crowded_bucket the_config BucketStep
     = (Inr ''nova-insurance-111122223333-us-east-1'', [])"
    by (rule the_bucket_name)
qed (simp_all add: cleanup_s3_bucket_def the_bucket_name guarded_def empty_and_delete_def
       s3_handler_def delete_the_bucket_def crowded_bucket_def empty_cloud_def)

text \<open>
  C6. On the stale listing the teardown's lookup skips the entry whose details are not
  found, fetches the second page and returns the deployed runtime; the deployment's
  lookup stops at the first name match, and the not-found of its details ends in the
  handler of every exception: it reports an error and returns \<^verbatim>\<open>None\<close> without
  asking for the second page.
\<close>

theorem stale_entry_ends_deploy_lookup:
  "get_mcp_server_details stale_listing the_config =
     Some (Some the_server,
           [Api (ListAgentRuntimes None) None,
            Api (GetAgentRuntime ''ins-mcp-0'') (Some (ClientError AgentCore ResourceNotFoundException)),
            Api (ListAgentRuntimes (Some ''page-2'')) None,
            Api (GetAgentRuntime ''ins-mcp-1'') None]) \<and>
   check_existing_mcp_server stale_listing (mcp_server_name the_config) =
     Some (None,
           [Api (ListAgentRuntimes None) None,
            Print ''Found existing runtime: ins-mcp-0'',
            Api (GetAgentRuntime ''ins-mcp-0'') (Some (ClientError AgentCore ResourceNotFoundException)),
            Print ''Error checking AgentCore - check permissions and configuration''])"
proof
  show "get_mcp_server_details stale_listing the_config =
     Some (Some the_server,
           [Api (ListAgentRuntimes None) None,
            Api (GetAgentRuntime ''ins-mcp-0'') (Some (ClientError AgentCore ResourceNotFoundException)),
            Api (ListAgentRuntimes (Some ''page-2'')) None,
            Api (GetAgentRuntime ''ins-mcp-1'') None])"
    unfolding get_mcp_server_details_def
    apply (subst details_pages.simps)
    apply (simp add: stale_listing_def deployed_cloud_def empty_cloud_def the_config_def
        stale_runtime_def sent_token_def prepend_def)
    apply (subst details_pages.simps)
    apply (simp add: the_runtime_def the_details_def the_server_def sent_token_def last_segment_def)
    done
  show "check_existing_mcp_server stale_listing (mcp_server_name the_config) =
     Some (None,
           [Api (ListAgentRuntimes None) None,
            Print ''Found existing runtime: ins-mcp-0'',
            Api (GetAgentRuntime ''ins-mcp-0'') (Some (ClientError AgentCore ResourceNotFoundException)),
            Print ''Error checking AgentCore - check permissions and configuration''])"
    unfolding check_existing_mcp_server_def
    apply (subst existing_pages.simps)
    apply (simp add: stale_listing_def deployed_cloud_def empty_cloud_def the_config_def
        stale_runtime_def sent_token_def prepend_def fetch_details_def check_error_def)
    done
qed

text \<open>A bucket that does not exist is reported and nothing else is called.\<close>

lemma absent_bucket_reported:
  "list_objects_v2 c bucket_name = Inl (ClientError S3 NoSuchBucket) \<Longrightarrow>
   empty_and_delete c bucket_name =
     [Api (ListObjectsV2 bucket_name) (Some (ClientError S3 NoSuchBucket)),
      Print (''S3 bucket not found: '' @ bucket_name)]"
  by (simp add: empty_and_delete_def s3_handler_def)

text \<open>In the teardown's lookup a details call that is not found skips the entry.\<close>

lemma not_found_skips_entry:
  assumes "agentRuntimeName r = mcp_server_name cfg"
    and "get_agent_runtime c (agentRuntimeId r) = Inl (ClientError AgentCore ResourceNotFoundException)"
  shows "scan_runtimes c cfg (r # rs) =
     prepend [Api (GetAgentRuntime (agentRuntimeId r)) (Some (ClientError AgentCore ResourceNotFoundException))]
       (scan_runtimes c cfg rs)"
  using assms by simp

section \<open>The deployment\<close>

lemma never_existing_pages_aux:
  assumes P: "\<And>t. \<not> P (ListAgentRuntimes t)"
    and eq: "existing_pages c nm tok tr = Some y"
  shows "never P tr \<longrightarrow> never P (snd y)"
proof (rule existing_pages.raw_induct[where P = "\<lambda>c nm tok tr y. never P tr \<longrightarrow> never P (snd y)", OF _ eq],
       goal_cases)
  case (1 f c nm tok tr y)
  show ?case
  proof (cases "list_agent_runtimes c (sent_token tok)")
    case (Inl e)
    with 1(2) P show ?thesis by auto
  next
    case (Inr response)
    show ?thesis
    proof (cases "nextToken response")
      case None
      with 1(2) Inr P show ?thesis by (auto split: option.splits if_splits)
    next
      case (Some t)
      show ?thesis
      proof (cases "f c nm (Some t) (tr @ [Api (ListAgentRuntimes (sent_token tok)) None]) = Some y")
        case True
        from 1(1)[OF this] P show ?thesis by simp
      next
        case False
        with 1(2) Inr Some P show ?thesis by (auto split: option.splits if_splits)
      qed
    qed
  qed
qed

lemma never_fetch_details:
  "(\<And>i. \<not> P (GetAgentRuntime i)) \<Longrightarrow> never P (snd (fetch_details c r))"
  by (auto simp: fetch_details_def check_error_def split: sum.splits option.splits)

lemma never_check_existing_mcp_server:
  assumes "\<And>t. \<not> P (ListAgentRuntimes t)" "\<And>i. \<not> P (GetAgentRuntime i)"
    and "check_existing_mcp_server c nm = Some (ex, tr)"
  shows "never P tr"
proof (cases "existing_pages c nm None []")
  case None
  with assms(3) show ?thesis by (simp add: check_existing_mcp_server_def)
next
  case (Some y)
  from never_existing_pages_aux[of P c nm None "[]" y, OF assms(1) Some]
  have n: "never P (snd y)" by simp
  obtain r tr' where y: "y = (r, tr')" by (cases y)
  show ?thesis
    using assms(3) Some n y never_fetch_details[of P c, OF assms(2)]
    by (auto simp: check_existing_mcp_server_def check_error_def prepend_def
             split: sum.splits option.splits)
qed

lemma never_then_do:
  "never P (snd m) \<Longrightarrow> (\<And>a. never P (snd (f a))) \<Longrightarrow> never P (snd (then_do m f))"
  by (cases m) (auto simp: then_do_def split: outcome.splits)

lemma never_called: "\<not> P cl \<Longrightarrow> never P (snd (called cl r))"
  by (simp add: called_def split: sum.splits)

lemma never_copy_config_file: "\<not> P CopyConfigFile \<Longrightarrow> never P (snd (copy_config_file h))"
  by (simp add: copy_config_file_def never_then_do never_called)

lemma never_invoked: "\<not> P cl \<Longrightarrow> never P (snd (invoked cl r))"
  by (simp add: invoked_def)

lemma never_read_name:
  "\<not> P GetCallerIdentity \<Longrightarrow>
   never P (snd (then_do (unhandled (s3_bucket_name c cfg site)) (\<lambda>bucket_name. (Ok (), []))))"
  by (rule never_then_do) (simp_all add: never_s3_bucket_name)

lemma never_before_check:
  "\<not> P CopyConfigFile \<Longrightarrow> \<not> P GetCallerIdentity \<Longrightarrow> never P (snd (before_check c h cfg))"
  unfolding before_check_def
  by (intro never_then_do never_copy_config_file never_read_name)

lemma never_validate_files [simp]: "never P (snd (validate_files h fs))"
  by (induction fs) auto

lemma never_configure_runtime:
  "\<not> P RuntimeInit \<Longrightarrow> \<not> P (Configure (make_config_params h cfg m))
   \<Longrightarrow> never P (snd (configure_runtime h cfg m))"
  by (simp add: configure_runtime_def never_then_do never_called)

lemma never_roles_poll:
  "\<not> P ListRoles \<Longrightarrow> never P (snd (roles_poll c region a))"
proof (induction c region a rule: roles_poll.induct)
  case (1 c region attempt)
  show ?case
    using 1 by (subst roles_poll.simps) (auto split: sum.splits)
qed

lemma never_roles_report [simp]: "never P (roles_report r)"
  by (simp add: roles_report_def)

lemma never_verify_roles_propagation:
  "\<not> P ListRoles \<Longrightarrow> \<not> P GetCallerIdentity \<Longrightarrow> never P (snd (verify_roles_propagation c h m))"
  by (auto simp: verify_roles_propagation_def never_roles_poll split: prod.splits
           intro!: never_then_do never_called)
     (metis never_roles_poll snd_conv)

lemma never_launch_runtime: "\<not> P Launch \<Longrightarrow> never P (snd (launch_runtime h m))"
  by (simp add: launch_runtime_def never_then_do never_called)

lemma never_role_poll:
  "(\<And>i. \<not> P (GetAgentRuntime i)) \<Longrightarrow> (\<And>r. \<not> P (GetRole r)) \<Longrightarrow> never P (snd (role_poll c rid a))"
proof (induction c rid a rule: role_poll.induct)
  case (1 c rid attempt)
  show ?case
    using 1 by (subst role_poll.simps) (auto split: sum.splits option.splits)
qed

lemma never_permissions_handler [simp]: "never P (permissions_handler e)"
  by (simp add: permissions_handler_def)

lemma never_put_policies:
  "(\<And>r n d. \<not> P (PutRolePolicy r n d)) \<Longrightarrow> never P (put_policies c role ps)"
  by (induction ps) (auto split: sum.splits)

lemma never_add_permissions:
  assumes "\<And>r n d. \<not> P (PutRolePolicy r n d)" "\<not> P GetCallerIdentity"
  shows "never P (add_permissions c cfg role region)"
proof (cases "get_caller_identity c")
  case (Inl e)
  then show ?thesis using assms(2) by (simp add: add_permissions_def)
next
  case (Inr account_id)
  have "never P
     (guarded permissions_handler (s3_bucket_name c cfg PolicyObjects) (\<lambda>objects_name.
      guarded permissions_handler (s3_bucket_name c cfg PolicyBucket) (\<lambda>bucket_name.
      guarded permissions_handler
        (invoked (PutRolePolicy role ''NovaInsuranceDynamoDBAccess''
                    (dynamodb_policy cfg region account_id))
           (put_role_policy c role ''NovaInsuranceDynamoDBAccess''
              (dynamodb_policy cfg region account_id))) (\<lambda>u.
      guarded permissions_handler (s3_bucket_name c cfg PolicyLine) (\<lambda>shown.
      put_policies c role
        [(''NovaInsuranceS3Access'', s3_policy objects_name bucket_name),
         (''NovaInsuranceBedrockAccess'', bedrock_policy cfg)])))))"
    by (intro never_guarded never_s3_bucket_name never_invoked never_permissions_handler
          never_put_policies assms)
  then show ?thesis using Inr assms(2) by (simp add: add_permissions_def)
qed

lemma never_verify_role_creation:
  assumes "\<And>i. \<not> P (GetAgentRuntime i)" "\<And>r. \<not> P (GetRole r)"
    "\<And>r n d. \<not> P (PutRolePolicy r n d)" "\<not> P GetCallerIdentity"
  shows "never P (snd (verify_role_creation c h cfg rid))"
proof -
  obtain r a tr where rp: "role_poll c rid 0 = ((r, a), tr)"
    by (cases "role_poll c rid 0") auto
  have "never P tr" using never_role_poll[of P c rid 0, OF assms(1,2)] rp by simp
  then show ?thesis
    using rp never_add_permissions[of P c cfg _ "session_region h", OF assms(3,4)]
    by (auto simp: verify_role_creation_def split: option.splits)
qed

lemma never_retrieve_current_role:
  assumes "\<And>i. \<not> P (GetAgentRuntime i)"
    "\<And>r n d. \<not> P (PutRolePolicy r n d)" "\<not> P GetCallerIdentity"
  shows "never P (snd (retrieve_current_role c h cfg rid))"
  unfolding retrieve_current_role_def
  by (rule never_then_do)
     (auto simp: never_called assms never_add_permissions split: option.splits)

lemma never_create_quicksuite_integration_doc:
  "\<not> P (WriteIntegrationDoc endpoint) \<Longrightarrow> \<not> P GetCallerIdentity
   \<Longrightarrow> never P (snd (create_quicksuite_integration_doc c h cfg endpoint))"
  unfolding create_quicksuite_integration_doc_def
  by (rule never_then_do) (simp_all add: never_s3_bucket_name never_called)

lemma never_finish:
  "(\<not> reuse_existing m \<Longrightarrow> \<not> P (WriteIntegrationDoc (agent_endpoint h arn)))
   \<Longrightarrow> \<not> P GetCallerIdentity \<Longrightarrow> never P (snd (finish c h cfg m arn))"
  unfolding finish_def
  by (rule never_then_do)
     (auto simp: never_create_quicksuite_integration_doc never_read_name)

lemma never_cognito_setup_handler [simp]: "never P (cognito_setup_handler e)"
  by (simp add: cognito_setup_handler_def)

lemma deploy_mcp_server_checked:
  assumes "fst (before_check c h cfg) = Ok ()"
    and "check_existing_mcp_server c (mcp_server_name cfg) = Some (ex, tr0)"
  shows "deploy_mcp_server c h cfg answer =
     Some (prepend (snd (before_check c h cfg) @ tr0) (deploy_after_check c h cfg answer ex))"
  using assms by (cases "before_check c h cfg") (auto simp: deploy_mcp_server_def)

lemma deploy_after_check_cancelled:
  assumes "answer \<notin> {''y'', ''yes''}"
  shows "deploy_after_check c h cfg answer (Some ex) =
     (SysExit 2,
      [Print ''EXISTING MCP SERVER DETECTED'', Input answer]
      @ (if answer \<notin> {''n'', ''no''} then [Print ''Invalid input. Please enter y or n''] else [])
      @ [Print ''DEPLOYMENT CANCELLED BY USER''])"
  using assms by (simp add: deploy_after_check_def choose_mode_def then_do_def)

lemma read_only_no_mutation: "read_only cl \<Longrightarrow> \<not> cloud_mutation cl"
  by (simp add: cloud_mutation_def)

text \<open>
  C5. When the run reaches the lookup, the lookup finds an existing runtime and the
  operator's answer is neither \<^verbatim>\<open>y\<close> nor \<^verbatim>\<open>yes\<close>, \<^verbatim>\<open>deploy_mcp_server\<close>
  leaves through \<^verbatim>\<open>sys.exit(2)\<close>: the exit status is 2, which is neither 0
  (success) nor 1 (failure), the last line printed is the cancellation, and no call of
  the run changes anything at the provider.
\<close>

theorem cancelled_update_changes_nothing:
  assumes "fst (before_check c h cfg) = Ok ()"
    and "check_existing_mcp_server c (mcp_server_name cfg) = Some (Some ex, tr0)"
    and "answer \<notin> {''y'', ''yes''}"
  shows "\<exists>tr. deploy_mcp_server c h cfg answer = Some (SysExit 2, tr) \<and>
     deploy_script c h cfg answer = Some (2, tr) \<and>
     (2::nat) \<noteq> 0 \<and> (2::nat) \<noteq> 1 \<and>
     never cloud_mutation tr \<and>
     last tr = Print ''DEPLOYMENT CANCELLED BY USER''"
proof -
  let ?tail = "[Print ''EXISTING MCP SERVER DETECTED'', Input answer]
      @ (if answer \<notin> {''n'', ''no''} then [Print ''Invalid input. Please enter y or n''] else [])
      @ [Print ''DEPLOYMENT CANCELLED BY USER'']"
  let ?tr = "(snd (before_check c h cfg) @ tr0) @ ?tail"
  have d: "deploy_mcp_server c h cfg answer = Some (SysExit 2, ?tr)"
    by (simp only: deploy_mcp_server_checked[OF assms(1,2)] deploy_after_check_cancelled[OF assms(3)]
          prepend_def fst_conv snd_conv)
  then have s: "deploy_script c h cfg answer = Some (2, ?tr)"
    by (simp add: deploy_script_def)
  have n0: "never cloud_mutation tr0"
    by (rule never_check_existing_mcp_server[OF _ _ assms(2)]) (simp_all add: cloud_mutation_def)
  have n1: "never cloud_mutation (snd (before_check c h cfg))"
    by (rule never_before_check) (simp_all add: cloud_mutation_def)
  have n: "never cloud_mutation ?tr" using n0 n1 by simp
  have l: "last ?tr = Print ''DEPLOYMENT CANCELLED BY USER''" by simp
  show ?thesis
    apply (intro exI[of _ ?tr] conjI)
         apply (rule d)
        apply (rule s)
       apply simp
      apply simp
     apply (rule n)
    apply (rule l)
    done
qed

text \<open>The runtime is deployed and the operator answers n.\<close>

lemma existing_deployed:
  "check_existing_mcp_server deployed_cloud (mcp_server_name the_config) =
     Some (Some the_existing,
           [Api (ListAgentRuntimes None) None,
            Print ''Found existing runtime: ins-mcp-1'',
            Api (GetAgentRuntime ''ins-mcp-1'') None,
            Print ''Execution Role ARN: arn:aws:iam::111122223333:role/ins-mcp-role'',
            Print ''Execution Role Name: ins-mcp-role''])"
  unfolding check_existing_mcp_server_def
  by (subst existing_pages.simps)
     (simp add: deployed_cloud_def empty_cloud_def the_config_def the_runtime_def the_details_def
        the_existing_def sent_token_def prepend_def fetch_details_def last_segment_def
        jwt_cognito_config_def)

lemma before_check_the_host:
  "before_check c the_host the_config = (Ok (), [Api CopyConfigFile None, Print ''Copied config file''])"
  by (simp add: before_check_def copy_config_file_def the_host_def then_do_def called_def
        prepend_def unhandled_def the_bucket_name)

lemma copy_on_the_host: "fst (before_check c the_host the_config) = Ok ()"
  by (simp add: before_check_the_host)

theorem cancelled_update_changes_nothing_witness:
  "\<exists>tr. deploy_script deployed_cloud the_host the_config ''n'' = Some (2, tr) \<and>
      never cloud_mutation tr \<and> last tr = Print ''DEPLOYMENT CANCELLED BY USER''"
proof -
  have n: "''n'' \<notin> {''y'', ''yes''}" by simp
  from cancelled_update_changes_nothing[OF copy_on_the_host existing_deployed n]
  show ?thesis by blast
qed

lemma never_mono: "(\<And>cl. P cl \<Longrightarrow> Q cl) \<Longrightarrow> never Q tr \<Longrightarrow> never P tr"
  by (auto simp: never_def filter_empty_conv)

lemma never_holds: "never P tr \<Longrightarrow> cl \<in> set (calls tr) \<Longrightarrow> \<not> P cl"
  by (auto simp: never_def filter_empty_conv)

lemma configured_called: "p \<in> set (configured cls) \<Longrightarrow> Configure p \<in> set cls"
  by (induction cls rule: configured.induct) auto

lemma choose_mode_update:
  assumes "answer \<in> {''y'', ''yes''}"
  shows "choose_mode c h cfg answer (Some ex) =
     (Ok (update_mode ex),
      [Print ''EXISTING MCP SERVER DETECTED'', Input answer,
       Print ''UPDATE MODE: Deploying new code to existing server''])"
  using assms by (auto simp: choose_mode_def update_mode_def)

lemma never_bind_role:
  assumes "\<And>i. \<not> P (GetAgentRuntime i)" "\<And>r. \<not> P (GetRole r)"
    "\<And>r n d. \<not> P (PutRolePolicy r n d)" "\<not> P GetCallerIdentity"
  shows "never P (snd (bind_role c h cfg m arn))"
  by (simp add: bind_role_def never_verify_role_creation[OF assms]
        never_retrieve_current_role[OF assms(1,3,4)])

lemma never_after_mode:
  assumes "\<not> P RuntimeInit" "\<not> P (Configure (make_config_params h cfg m))"
    "\<not> P ListRoles" "\<not> P GetCallerIdentity" "\<not> P Launch"
    "\<And>i. \<not> P (GetAgentRuntime i)" "\<And>r. \<not> P (GetRole r)"
    "\<And>r n d. \<not> P (PutRolePolicy r n d)"
    "\<And>e. \<not> reuse_existing m \<Longrightarrow> \<not> P (WriteIntegrationDoc e)"
  shows "never P (snd (after_mode c h cfg m))"
  unfolding after_mode_def
  by (intro never_then_do never_validate_files never_configure_runtime
        never_verify_roles_propagation never_launch_runtime never_bind_role never_finish assms)

lemma never_troubleshooting [simp]: "never P troubleshooting"
  by (simp add: troubleshooting_def)

lemma deploy_script_trace:
  assumes "deploy_mcp_server c h cfg answer = Some (r, tr)"
  shows "\<exists>st tr'. deploy_script c h cfg answer = Some (st, tr @ tr') \<and> never P tr'"
  using assms by (cases r) (auto simp: deploy_script_def)

lemma deploy_mcp_server_trace:
  assumes "check_existing_mcp_server c (mcp_server_name cfg) = Some (ex, tr0)"
  shows "\<exists>r. deploy_mcp_server c h cfg answer = Some (r, snd (before_check c h cfg)) \<or>
         deploy_mcp_server c h cfg answer =
           Some (r, (snd (before_check c h cfg) @ tr0) @ snd (deploy_after_check c h cfg answer ex))"
  using assms
  by (cases "before_check c h cfg"; cases "fst (before_check c h cfg)")
     (auto simp: deploy_mcp_server_def prepend_def)

lemma never_foreign_update:
  assumes "check_existing_mcp_server c (mcp_server_name cfg) = Some (Some ex, tr0)"
    and "answer \<in> {''y'', ''yes''}"
  shows "\<exists>st tr. deploy_script c h cfg answer = Some (st, tr) \<and> never (foreign h cfg ex) tr"
proof -
  let ?F = "foreign h cfg ex"
  have n0: "never ?F tr0"
    by (rule never_check_existing_mcp_server[OF _ _ assms(1)]) (simp_all add: foreign_def)
  have n1: "never ?F (snd (before_check c h cfg))"
    by (rule never_before_check) (simp_all add: foreign_def)
  have n2: "never ?F (snd (after_mode c h cfg (update_mode ex)))"
    by (rule never_after_mode) (simp_all add: foreign_def update_mode_def)
  have dac: "deploy_after_check c h cfg answer (Some ex) =
      prepend [Print ''EXISTING MCP SERVER DETECTED'', Input answer,
               Print ''UPDATE MODE: Deploying new code to existing server'']
        (after_mode c h cfg (update_mode ex))"
    by (simp add: deploy_after_check_def choose_mode_update[OF assms(2)] then_do_def)
  have n3: "never ?F (snd (deploy_after_check c h cfg answer (Some ex)))"
    using n2 by (simp add: dac)
  from deploy_mcp_server_trace[OF assms(1), of h answer]
  obtain r tr where d: "deploy_mcp_server c h cfg answer = Some (r, tr)" and n: "never ?F tr"
    using n0 n1 n3 by auto
  from deploy_script_trace[OF d, of ?F] n show ?thesis by auto
qed

text \<open>
  C4. In every deploy run that finds an existing runtime and gets an affirmative answer,
  no call creates a pool, a domain, a resource server or a client, and no call writes to
  the secret store; every \<^verbatim>\<open>configure\<close> of the run is given the client
  identifier and the discovery address read from the existing runtime, and the
  existing execution role.
\<close>

theorem update_mode_keeps_credentials:
  assumes "check_existing_mcp_server c (mcp_server_name cfg) = Some (Some ex, tr0)"
    and "answer \<in> {''y'', ''yes''}"
  shows "\<exists>st tr. deploy_script c h cfg answer = Some (st, tr) \<and>
     never credential_write tr \<and>
     (\<forall>p \<in> set (configured (calls tr)).
        cfg_allowedClients (authorizer p) = [service_client_id (cognito_config ex)] \<and>
        cfg_discoveryUrl (authorizer p) = discovery_url (cognito_config ex) \<and>
        execution_role p = Some (execution_role_arn ex) \<and>
        \<not> auto_create_execution_role p)"
proof -
  from never_foreign_update[OF assms, of h]
  obtain st tr where s: "deploy_script c h cfg answer = Some (st, tr)"
    and n: "never (foreign h cfg ex) tr" by blast
  have w: "never credential_write tr"
    by (rule never_mono[OF _ n]) (simp add: foreign_def)
  have p: "\<forall>p \<in> set (configured (calls tr)).
        cfg_allowedClients (authorizer p) = [service_client_id (cognito_config ex)] \<and>
        cfg_discoveryUrl (authorizer p) = discovery_url (cognito_config ex) \<and>
        execution_role p = Some (execution_role_arn ex) \<and>
        \<not> auto_create_execution_role p"
  proof
    fix p assume "p \<in> set (configured (calls tr))"
    then have "Configure p \<in> set (calls tr)" by (rule configured_called)
    from never_holds[OF n this] have "p = make_config_params h cfg (update_mode ex)"
      by (simp add: foreign_def)
    then show "cfg_allowedClients (authorizer p) = [service_client_id (cognito_config ex)] \<and>
        cfg_discoveryUrl (authorizer p) = discovery_url (cognito_config ex) \<and>
        execution_role p = Some (execution_role_arn ex) \<and>
        \<not> auto_create_execution_role p"
      by (simp add: make_config_params_def update_mode_def)
  qed
  from s w p show ?thesis by blast
qed

lemma fst_then_do_Ok:
  "fst m = Ok a \<Longrightarrow> then_do m f = prepend (snd m) (f a)"
  by (cases m) (simp add: then_do_def)

lemma configured_append [simp]: "configured (a @ b) = configured a @ configured b"
  by (induction a rule: configured.induct) auto

lemma update_after_mode:
  "fst (after_mode deployed_cloud the_host the_config (update_mode the_existing)) = Ok () \<and>
   configured (calls (snd (after_mode deployed_cloud the_host the_config (update_mode the_existing))))
     = [make_config_params the_host the_config (update_mode the_existing)]"
  by (simp add: after_mode_def then_do_def called_def prepend_def configure_runtime_def
        verify_roles_propagation_def launch_runtime_def bind_role_def retrieve_current_role_def
        finish_def add_permissions_def update_mode_def the_host_def deployed_cloud_def
        empty_cloud_def the_details_def permissions_handler_def the_bucket_name guarded_def
        invoked_def unhandled_def)

text \<open>
  The deployed runtime is updated: the run succeeds, writes no credentials and
  configures the runtime once, with the client and discovery address it had.
\<close>

theorem update_mode_keeps_credentials_witness:
  "\<exists>tr. deploy_script deployed_cloud the_host the_config ''y'' = Some (0, tr) \<and>
      never credential_write tr \<and>
      map (\<lambda>p. (cfg_allowedClients (authorizer p), cfg_discoveryUrl (authorizer p), execution_role p))
          (configured (calls tr))
        = [([''client-0000''],
            ''https://cognito-idp.us-east-1.amazonaws.com/us-east-1_Pool0/.well-known/openid-configuration'',
            Some ''arn:aws:iam::111122223333:role/ins-mcp-role'')]"
proof -
  have y: "''y'' \<in> {''y'', ''yes''}" by simp
  let ?A = "after_mode deployed_cloud the_host the_config (update_mode the_existing)"
  let ?pre = "(snd (before_check deployed_cloud the_host the_config) @
        [Api (ListAgentRuntimes None) None,
            Print ''Found existing runtime: ins-mcp-1'',
            Api (GetAgentRuntime ''ins-mcp-1'') None,
            Print ''Execution Role ARN: arn:aws:iam::111122223333:role/ins-mcp-role'',
            Print ''Execution Role Name: ins-mcp-role''])
       @ [Print ''EXISTING MCP SERVER DETECTED'', Input ''y'',
               Print ''UPDATE MODE: Deploying new code to existing server'']"
  have dac: "deploy_after_check deployed_cloud the_host the_config ''y'' (Some the_existing) =
      prepend [Print ''EXISTING MCP SERVER DETECTED'', Input ''y'',
               Print ''UPDATE MODE: Deploying new code to existing server''] ?A"
    by (simp add: deploy_after_check_def choose_mode_update[OF y] then_do_def)
  have d: "deploy_mcp_server deployed_cloud the_host the_config ''y'' = Some (Ok (), ?pre @ snd ?A)"
    using update_after_mode
    by (simp add: deploy_mcp_server_checked[OF copy_on_the_host existing_deployed] dac prepend_def)
  then have s: "deploy_script deployed_cloud the_host the_config ''y'' = Some (0, ?pre @ snd ?A)"
    by (simp add: deploy_script_def)
  have cp: "calls (snd (before_check deployed_cloud the_host the_config)) = [CopyConfigFile]"
    by (simp add: before_check_the_host)
  have cf: "configured (calls (?pre @ snd ?A))
      = [make_config_params the_host the_config (update_mode the_existing)]"
    using update_after_mode by (simp add: cp)
  from update_mode_keeps_credentials[OF existing_deployed y, of the_host] s
  have w: "never credential_write (?pre @ snd ?A)" by auto
  have m: "map (\<lambda>p. (cfg_allowedClients (authorizer p), cfg_discoveryUrl (authorizer p), execution_role p))
          (configured (calls (?pre @ snd ?A)))
        = [([''client-0000''],
            ''https://cognito-idp.us-east-1.amazonaws.com/us-east-1_Pool0/.well-known/openid-configuration'',
            Some ''arn:aws:iam::111122223333:role/ins-mcp-role'')]"
    unfolding cf by (simp add: make_config_params_def update_mode_def the_existing_def)
  show ?thesis
    apply (intro exI[of _ "?pre @ snd ?A"] conjI)
      apply (rule s)
     apply (rule w)
    apply (rule m)
    done
qed

section \<open>Provisioning the credentials\<close>

lemma outcomes_handler [simp]: "outcomes (cognito_setup_handler e) = []"
  by (simp add: cognito_setup_handler_def)

lemma secrets_handler [simp]: "secrets_stored (cognito_setup_handler e) = []"
  by (simp add: cognito_setup_handler_def)

lemma pools_handler [simp]: "pools_left c (cognito_setup_handler e) = []"
  by (simp add: cognito_setup_handler_def)

lemma handler_no_call [simp]: "Api cl r \<notin> set (cognito_setup_handler e)"
  by (simp add: cognito_setup_handler_def)

lemma setup_fails_outcomes:
  "fst (setup_cognito_user_pool c h cfg) = None \<Longrightarrow>
     \<exists>n e. n < 5 \<and> outcomes (snd (setup_cognito_user_pool c h cfg)) = replicate n None @ [Some e]"
proof (cases "create_user_pool c (cognito_user_pool_name cfg)")
  case (Inl e)
  then show ?thesis
    by (intro exI[of _ 0] exI[of _ e]) (simp add: setup_cognito_user_pool_def)
next
  case pool: (Inr pid)
  assume f: "fst (setup_cognito_user_pool c h cfg) = None"
  show ?thesis
  proof (cases "create_user_pool_domain c (new_domain_prefix h) pid")
    case (Inl e)
    with pool show ?thesis
      by (intro exI[of _ 1] exI[of _ e]) (simp add: setup_cognito_user_pool_def create_domain_def)
  next
    case dom: (Inr u)
    show ?thesis
    proof (cases "create_resource_server c pid (oauth_api_identifier cfg)")
      case (Inl e)
      with pool dom show ?thesis
        by (intro exI[of _ 2] exI[of _ e])
           (simp add: setup_cognito_user_pool_def create_domain_def create_scopes_def numeral_2_eq_2)
    next
      case rs: (Inr u')
      show ?thesis
      proof (cases "create_user_pool_client c pid")
        case (Inl e)
        with pool dom rs show ?thesis
          by (intro exI[of _ 3] exI[of _ e])
             (simp add: setup_cognito_user_pool_def create_domain_def create_scopes_def
                create_service_client_def numeral_3_eq_3)
      next
        case cl: (Inr pr)
        obtain client_id client_secret where pr: "pr = (client_id, client_secret)" by (cases pr)
        show ?thesis
        proof (cases "create_secret c (credentials_secret_id cfg)
                        (new_credentials h pid client_id client_secret)")
          case (Inl e)
          with pool dom rs cl pr show ?thesis
            by (intro exI[of _ 4] exI[of _ e])
               (simp add: setup_cognito_user_pool_def create_domain_def create_scopes_def
                  create_service_client_def store_credentials_def eval_nat_numeral)
        next
          case (Inr arn)
          with pool dom rs cl pr f show ?thesis
            by (simp add: setup_cognito_user_pool_def create_domain_def create_scopes_def
                  create_service_client_def store_credentials_def)
        qed
      qed
    qed
  qed
qed

lemma setup_fails_effects:
  "fst (setup_cognito_user_pool c h cfg) = None \<Longrightarrow>
     never pool_deletion (snd (setup_cognito_user_pool c h cfg)) \<and>
     secrets_stored (snd (setup_cognito_user_pool c h cfg)) = [] \<and>
     pools_left c (snd (setup_cognito_user_pool c h cfg)) =
       (case create_user_pool c (cognito_user_pool_name cfg) of Inl e \<Rightarrow> [] | Inr pid \<Rightarrow> [pid])"
  by (auto simp: setup_cognito_user_pool_def create_domain_def create_scopes_def
        create_service_client_def store_credentials_def prepend_def
        split: sum.splits prod.splits)

lemma setup_succeeds:
  "fst (setup_cognito_user_pool c h cfg) = Some cc \<Longrightarrow>
     outcomes (snd (setup_cognito_user_pool c h cfg)) = replicate 5 None \<and>
     secrets_stored (snd (setup_cognito_user_pool c h cfg)) = [credentials_secret_id cfg]"
  by (auto simp: setup_cognito_user_pool_def create_domain_def create_scopes_def
        create_service_client_def store_credentials_def prepend_def eval_nat_numeral
        split: sum.splits prod.splits)

lemma choose_mode_failed_setup:
  "fst (setup_cognito_user_pool c h cfg) = None \<Longrightarrow>
   fst (choose_mode c h cfg answer None) = Raise (Exception ''Failed to setup Cognito'')"
  by (cases "setup_cognito_user_pool c h cfg") (simp add: choose_mode_def)

text \<open>
  C7, as stated, fails: when the provider refuses the domain, the call returns
  \<^verbatim>\<open>None\<close> and the pool it created a step earlier is still there.
\<close>

theorem half_built_pool_stays:
  "fst (setup_cognito_user_pool domain_refused the_host the_config) = None \<and>
   pools_left domain_refused (snd (setup_cognito_user_pool domain_refused the_host the_config))
     = [''us-east-1_Pool1'']"
  by (simp add: setup_cognito_user_pool_def create_domain_def domain_refused_def empty_cloud_def
        prepend_def)

text \<open>
  C7, amended. When \<^verbatim>\<open>setup_cognito_user_pool\<close> returns \<^verbatim>\<open>None\<close>, one of its
  five calls failed and it was the last call made: no later step was attempted. No
  secret was stored and nothing was deleted, so the pool stays at the provider exactly
  when its creation had succeeded, and the caller raises "Failed to setup Cognito".
  When it returns a bundle, all five calls succeeded and the secret was stored.
\<close>

theorem provisioning_stops_at_first_failure:
  "(fst (setup_cognito_user_pool c h cfg) = None \<longrightarrow>
      (\<exists>n e. n < 5 \<and> outcomes (snd (setup_cognito_user_pool c h cfg)) = replicate n None @ [Some e]) \<and>
      never pool_deletion (snd (setup_cognito_user_pool c h cfg)) \<and>
      secrets_stored (snd (setup_cognito_user_pool c h cfg)) = [] \<and>
      pools_left c (snd (setup_cognito_user_pool c h cfg)) =
        (case create_user_pool c (cognito_user_pool_name cfg) of Inl e \<Rightarrow> [] | Inr pid \<Rightarrow> [pid]) \<and>
      fst (choose_mode c h cfg answer None) = Raise (Exception ''Failed to setup Cognito'')) \<and>
   (\<forall>cc. fst (setup_cognito_user_pool c h cfg) = Some cc \<longrightarrow>
      outcomes (snd (setup_cognito_user_pool c h cfg)) = replicate 5 None \<and>
      secrets_stored (snd (setup_cognito_user_pool c h cfg)) = [credentials_secret_id cfg])"
  using setup_fails_outcomes[of c h cfg] setup_fails_effects[of c h cfg]
    choose_mode_failed_setup[of c h cfg answer] setup_succeeds[of c h cfg]
  by blast

text \<open>The refused domain: two calls, no secret, the pool left, the caller raises.\<close>

theorem provisioning_stops_at_first_failure_witness:
  "outcomes (snd (setup_cognito_user_pool domain_refused the_host the_config)) = [None, Some (ClientError Cognito InvalidParameterException)] \<and>
   never pool_deletion (snd (setup_cognito_user_pool domain_refused the_host the_config)) \<and>
   secrets_stored (snd (setup_cognito_user_pool domain_refused the_host the_config)) = [] \<and>
   pools_left domain_refused (snd (setup_cognito_user_pool domain_refused the_host the_config))
     = [''us-east-1_Pool1''] \<and>
   fst (choose_mode domain_refused the_host the_config ''y'' None)
     = Raise (Exception ''Failed to setup Cognito'')"
proof -
  have f: "fst (setup_cognito_user_pool domain_refused the_host the_config) = None"
    by (simp add: setup_cognito_user_pool_def create_domain_def domain_refused_def empty_cloud_def
        prepend_def)
  have o: "outcomes (snd (setup_cognito_user_pool domain_refused the_host the_config))
      = [None, Some (ClientError Cognito InvalidParameterException)]"
    by (simp add: setup_cognito_user_pool_def create_domain_def domain_refused_def empty_cloud_def
        prepend_def)
  have p: "create_user_pool domain_refused (cognito_user_pool_name the_config) = Inr ''us-east-1_Pool1''"
    by (simp add: domain_refused_def empty_cloud_def)
  from provisioning_stops_at_first_failure[of domain_refused the_host the_config "''y''"] f
  have "never pool_deletion (snd (setup_cognito_user_pool domain_refused the_host the_config)) \<and>
      secrets_stored (snd (setup_cognito_user_pool domain_refused the_host the_config)) = [] \<and>
      pools_left domain_refused (snd (setup_cognito_user_pool domain_refused the_host the_config)) =
        (case create_user_pool domain_refused (cognito_user_pool_name the_config) of Inl e \<Rightarrow> [] | Inr pid \<Rightarrow> [pid]) \<and>
      fst (choose_mode domain_refused the_host the_config ''y'' None) = Raise (Exception ''Failed to setup Cognito'')"
    by blast
  with o show ?thesis by (simp add: p)
qed

section \<open>The two role checks of a new deployment\<close>

lemma s120: "string_of_nat (role_attempts * 5) = ''120''"
  by code_simp

lemma roles_events_step:
  "a < n \<Longrightarrow> roles_events c a n =
     [Api ListRoles (raised (list_roles_at c (Suc a))), Sleep 5] @ roles_events c (Suc a) n"
proof -
  assume "a < n"
  then have "[Suc a..<Suc n] = Suc a # [Suc (Suc a)..<Suc n]"
    by (simp add: upt_conv_Cons del: upt_Suc)
  then show ?thesis unfolding roles_events_def by (simp del: upt_Suc)
qed

lemma roles_events_none: "roles_events c a a = []"
  unfolding roles_events_def by simp

lemma roles_poll_timeout:
  "a \<le> 24 \<Longrightarrow> (\<forall>k. a < k \<and> k \<le> 24 \<longrightarrow> \<not> roles_seen c region k) \<Longrightarrow>
   fst (roles_poll c region a) = (False, 24) \<and>
   filter (\<lambda>e. \<not> is_print e) (snd (roles_poll c region a)) = roles_events c a 24"
proof (induction c region a rule: roles_poll.induct)
  case (1 c region a)
  show ?case
  proof (cases "a < 24")
    case False
    with 1(3) have "a = 24" by simp
    then show ?thesis
      by (simp add: roles_poll.simps[of c region 24] role_attempts_def roles_events_none)
  next
    case lt: True
    from 1(4) lt have ns: "\<not> roles_seen c region (a + 1)" by simp
    have rest: "\<forall>k. a + 1 < k \<and> k \<le> 24 \<longrightarrow> \<not> roles_seen c region k" using 1(4) by simp
    have le: "a + 1 \<le> 24" using lt by simp
    show ?thesis
    proof (cases "list_roles_at c (a + 1)")
      case (Inl e)
      have la: "a < role_attempts" using lt by (simp add: role_attempts_def)
      from 1(1)[OF la Inl le rest] Inl lt show ?thesis
        by (simp add: roles_poll.simps[of c region a] role_attempts_def roles_events_step[of a 24]
              raised_def)
    next
      case (Inr names)
      with ns have nr: "\<not> roles_ready region names" by (simp add: roles_seen_def)
      have la: "a < role_attempts" using lt by (simp add: role_attempts_def)
      from 1(2)[OF la Inr nr le rest] Inr nr lt show ?thesis
        by (simp add: roles_poll.simps[of c region a] role_attempts_def roles_events_step[of a 24]
              raised_def)
    qed
  qed
qed

lemma role_poll_timeout:
  "a \<le> 24 \<Longrightarrow> (\<forall>k. a < k \<and> k \<le> 24 \<longrightarrow> \<not> role_seen c rid k) \<Longrightarrow>
   fst (role_poll c rid a) = (None, 24) \<and>
   filter is_sleep (snd (role_poll c rid a)) = replicate (24 - a) (Sleep 5) \<and>
   filter (\<lambda>cl. cl = GetAgentRuntime rid) (calls (snd (role_poll c rid a)))
     = replicate (24 - a) (GetAgentRuntime rid)"
proof (induction c rid a rule: role_poll.induct)
  case (1 c rid a)
  show ?case
  proof (cases "a < 24")
    case False
    with "1.prems"(1) have "a = 24" by simp
    then show ?thesis
      by (simp add: role_poll.simps[of c rid 24] role_attempts_def)
  next
    case lt: True
    from "1.prems"(2) lt have ns: "\<not> role_seen c rid (a + 1)" by simp
    have rest: "\<forall>k. a + 1 < k \<and> k \<le> 24 \<longrightarrow> \<not> role_seen c rid k" using "1.prems"(2) by simp
    have le: "a + 1 \<le> 24" using lt by simp
    have la: "a < role_attempts" using lt by (simp add: role_attempts_def)
    have rep: "replicate (24 - a) x = x # replicate (24 - (a + 1)) x" for x :: 'b
      using lt by (cases "24 - a") auto
    have IH: "fst (role_poll c rid (a + 1)) = (None, 24) \<and>
       filter is_sleep (snd (role_poll c rid (a + 1))) = replicate (24 - (a + 1)) (Sleep 5) \<and>
       filter (\<lambda>cl. cl = GetAgentRuntime rid) (calls (snd (role_poll c rid (a + 1))))
         = replicate (24 - (a + 1)) (GetAgentRuntime rid)"
    proof (cases "get_agent_runtime_at c (a + 1) rid")
      case (Inl e)
      from "1.IH"(1)[OF la Inl le rest] show ?thesis .
    next
      case (Inr d)
      show ?thesis
      proof (cases "roleArn d")
        case None
        from "1.IH"(2)[OF la Inr None le rest] show ?thesis .
      next
        case (Some arn)
        show ?thesis
        proof (cases "arn = []")
          case True
          from "1.IH"(3)[OF la Inr Some True le rest] show ?thesis .
        next
          case False
          with ns Inr Some obtain e where e: "get_role_at c (a + 1) (last_segment arn) = Inl e"
            by (auto simp: role_seen_def split: sum.splits)
          from "1.IH"(4)[OF la Inr Some False e le rest] show ?thesis .
        qed
      qed
    qed
    have step: "\<exists>evs. role_poll c rid a = prepend evs (role_poll c rid (a + 1)) \<and>
        filter is_sleep evs = [Sleep 5] \<and>
        filter (\<lambda>cl. cl = GetAgentRuntime rid) (calls evs) = [GetAgentRuntime rid]"
      using ns la
      by (subst role_poll.simps) (auto simp: role_seen_def split: sum.splits option.splits)
    then obtain evs where evs: "role_poll c rid a = prepend evs (role_poll c rid (a + 1))"
        "filter is_sleep evs = [Sleep 5]"
        "filter (\<lambda>cl. cl = GetAgentRuntime rid) (calls evs) = [GetAgentRuntime rid]"
      by blast
    show ?thesis
      using IH evs(2,3) by (simp add: evs(1) rep[of "Sleep 5"] rep[of "GetAgentRuntime rid"])
  qed
qed

lemma never_setup_cognito_user_pool:
  "(\<And>cl. credential_write cl \<Longrightarrow> \<not> P cl) \<Longrightarrow> never P (snd (setup_cognito_user_pool c h cfg))"
  by (auto simp: setup_cognito_user_pool_def create_domain_def create_scopes_def
        create_service_client_def store_credentials_def prepend_def
        split: sum.splits prod.splits)

lemma choose_mode_new:
  assumes "fst (setup_cognito_user_pool c h cfg) = Some cc"
  shows "choose_mode c h cfg answer None =
     (Ok (new_mode cc),
      Print ''NEW DEPLOYMENT MODE: Creating all resources from scratch''
      # snd (setup_cognito_user_pool c h cfg))"
  using assms by (cases "setup_cognito_user_pool c h cfg") (simp add: choose_mode_def new_mode_def)

lemma validate_files_present:
  "path_exists h ''mcpserver.py'' \<Longrightarrow> path_exists h ''requirements.txt'' \<Longrightarrow>
   validate_files h [''mcpserver.py'', ''requirements.txt''] = (Ok (), [])"
  by simp

lemma configure_runtime_ok:
  "runtime_init h = Inr () \<Longrightarrow> configure h (make_config_params h cfg m) = Inr () \<Longrightarrow>
   configure_runtime h cfg m =
     (Ok (), [Api RuntimeInit None, Api (Configure (make_config_params h cfg m)) None,
              Print ''AgentCore configuration validated and applied''])"
  by (simp add: configure_runtime_def then_do_def called_def prepend_def)

lemma verify_roles_propagation_new:
  "get_caller_identity c = Inr account \<Longrightarrow>
   verify_roles_propagation c h (new_mode cc) =
     (Ok (), Api GetCallerIdentity None # snd (roles_poll c (session_region h) 0)
             @ roles_report (fst (roles_poll c (session_region h) 0)))"
  by (simp add: verify_roles_propagation_def new_mode_def then_do_def called_def prepend_def
        split: prod.splits)

lemma new_run:
  assumes "fst (before_check c h cfg) = Ok ()"
    and "check_existing_mcp_server c (mcp_server_name cfg) = Some (None, tr0)"
    and "fst (setup_cognito_user_pool c h cfg) = Some cc"
    and "path_exists h ''mcpserver.py''" and "path_exists h ''requirements.txt''"
    and "runtime_init h = Inr ()"
    and "configure h (make_config_params h cfg (new_mode cc)) = Inr ()"
    and "get_caller_identity c = Inr account"
  shows "deploy_mcp_server c h cfg answer =
     Some (prepend
       ((snd (before_check c h cfg) @ tr0)
        @ (Print ''NEW DEPLOYMENT MODE: Creating all resources from scratch''
           # snd (setup_cognito_user_pool c h cfg))
        @ [Api RuntimeInit None, Api (Configure (make_config_params h cfg (new_mode cc))) None,
           Print ''AgentCore configuration validated and applied'']
        @ (Api GetCallerIdentity None # snd (roles_poll c (session_region h) 0)
           @ roles_report (fst (roles_poll c (session_region h) 0))))
       (launch_and_bind c h cfg (new_mode cc)))"
  by (simp add: deploy_mcp_server_checked[OF assms(1,2)] deploy_after_check_def
        choose_mode_new[OF assms(3)] after_mode_def validate_files_present[OF assms(4,5)]
        configure_runtime_ok[OF assms(6,7)] verify_roles_propagation_new[OF assms(8)]
        then_do_def prepend_def launch_and_bind_def assms(4,5))

lemma launch_and_bind_starts:
  "\<exists>post. snd (launch_and_bind c h cfg m) = Api Launch (raised (launch h)) # post"
  by (cases "launch h")
     (auto simp: launch_and_bind_def launch_runtime_def then_do_def called_def prepend_def raised_def
        split: prod.splits outcome.splits)

lemma launch_and_bind_timeout:
  assumes "launch h = Inr arn"
    and "\<forall>k. 0 < k \<and> k \<le> 24 \<longrightarrow> \<not> role_seen c (last_segment arn) k"
  shows "launch_and_bind c h cfg (new_mode cc) =
     (Raise (Exception ''IAM role failed to propagate after 120 seconds''),
      [Api Launch None, Print ''AgentCore runtime created'', Print (''Runtime ARN: '' @ arn)]
      @ snd (role_poll c (last_segment arn) 0))"
proof -
  from role_poll_timeout[of 0 c "last_segment arn"] assms(2)
  have "fst (role_poll c (last_segment arn) 0) = (None, 24)" by simp
  then obtain tr where rp: "role_poll c (last_segment arn) 0 = ((None, 24), tr)"
    by (cases "role_poll c (last_segment arn) 0") auto
  show ?thesis
    by (simp add: launch_and_bind_def launch_runtime_def then_do_def called_def prepend_def
          assms(1) bind_role_def new_mode_def verify_role_creation_def rp s120)
qed

lemma deploy_script_of:
  assumes "deploy_mcp_server c h cfg answer = Some (r, tr)"
  shows "deploy_script c h cfg answer =
     Some (case r of Ok u \<Rightarrow> 0 | SysExit n \<Rightarrow> n | Raise e \<Rightarrow> 1,
           tr @ (case r of Ok u \<Rightarrow> [] | SysExit n \<Rightarrow> []
                 | Raise e \<Rightarrow> [Print ''DEPLOYMENT FAILED'', Print (''Error: '' @ str_exn e)] @ troubleshooting))"
  using assms by (cases r) (simp_all add: deploy_script_def)

text \<open>
  C3. In a new deployment that reaches the check before the launch, both loops have 24
  attempts. When none of the 24 listings before the launch shows both roles, the loop
  has listed the roles 24 times with a sleep of five seconds after each, the warning is
  printed and the next event is the launch. When the launch succeeds and none of the
  24 attempts after it verifies the role, each attempt has slept five seconds, the
  function raises, the run ends with status 1 and the failure report, and neither a
  policy was put nor the integration guide written.
\<close>

theorem role_checks_soft_then_hard:
  assumes "fst (before_check c h cfg) = Ok ()"
    and "check_existing_mcp_server c (mcp_server_name cfg) = Some (None, tr0)"
    and "fst (setup_cognito_user_pool c h cfg) = Some cc"
    and "path_exists h ''mcpserver.py''" and "path_exists h ''requirements.txt''"
    and "runtime_init h = Inr ()"
    and "configure h (make_config_params h cfg (new_mode cc)) = Inr ()"
    and "get_caller_identity c = Inr account"
  shows "\<exists>st tr. deploy_script c h cfg answer = Some (st, tr) \<and> role_attempts = 24 \<and>
     ((\<forall>k. 0 < k \<and> k \<le> 24 \<longrightarrow> \<not> roles_seen c (session_region h) k) \<longrightarrow>
        (\<exists>pre polls post.
           tr = pre @ polls
                @ [Print ''Verification timed out - proceeding anyway (roles may still be propagating)'',
                   Api Launch (raised (launch h))]
                @ post \<and>
           filter (\<lambda>e. \<not> is_print e) polls = roles_events c 0 24)) \<and>
     (\<forall>arn. launch h = Inr arn \<and> (\<forall>k. 0 < k \<and> k \<le> 24 \<longrightarrow> \<not> role_seen c (last_segment arn) k) \<longrightarrow>
        st = 1 \<and> never binding tr \<and>
        (\<exists>pre polls.
           tr = pre @ Api Launch None # Print ''AgentCore runtime created''
                  # Print (''Runtime ARN: '' @ arn) # polls
                @ [Print ''DEPLOYMENT FAILED'',
                   Print ''Error: IAM role failed to propagate after 120 seconds'']
                @ troubleshooting \<and>
           filter is_sleep polls = replicate 24 (Sleep 5) \<and>
           filter (\<lambda>cl. cl = GetAgentRuntime (last_segment arn)) (calls polls)
             = replicate 24 (GetAgentRuntime (last_segment arn))))"
proof -
  define m where "m = new_mode cc"
  define pre0 where "pre0 = (snd (before_check c h cfg) @ tr0)
        @ (Print ''NEW DEPLOYMENT MODE: Creating all resources from scratch''
           # snd (setup_cognito_user_pool c h cfg))
        @ [Api RuntimeInit None, Api (Configure (make_config_params h cfg (new_mode cc))) None,
           Print ''AgentCore configuration validated and applied'', Api GetCallerIdentity None]"
  define rp where "rp = roles_poll c (session_region h) 0"
  define lb where "lb = launch_and_bind c h cfg m"
  define fin where "fin = (case fst lb of Ok u \<Rightarrow> [] | SysExit n \<Rightarrow> []
       | Raise e \<Rightarrow> [Print ''DEPLOYMENT FAILED'', Print (''Error: '' @ str_exn e)] @ troubleshooting)"
  define st where "st = (case fst lb of Ok u \<Rightarrow> 0 | SysExit n \<Rightarrow> n | Raise e \<Rightarrow> (1::nat))"
  define tr where "tr = pre0 @ snd rp @ roles_report (fst rp) @ snd lb @ fin"
  have d: "deploy_mcp_server c h cfg answer =
      Some (fst lb, pre0 @ snd rp @ roles_report (fst rp) @ snd lb)"
    by (simp add: new_run[OF assms] prepend_def pre0_def rp_def lb_def m_def)
  have s: "deploy_script c h cfg answer = Some (st, tr)"
    by (simp add: deploy_script_of[OF d] st_def tr_def fin_def)
  have n24: "role_attempts = 24" by (simp add: role_attempts_def)
  have soft: "(\<forall>k. 0 < k \<and> k \<le> 24 \<longrightarrow> \<not> roles_seen c (session_region h) k) \<longrightarrow>
        (\<exists>pre polls post.
           tr = pre @ polls
                @ [Print ''Verification timed out - proceeding anyway (roles may still be propagating)'',
                   Api Launch (raised (launch h))]
                @ post \<and>
           filter (\<lambda>e. \<not> is_print e) polls = roles_events c 0 24)"
  proof
    assume ns: "\<forall>k. 0 < k \<and> k \<le> 24 \<longrightarrow> \<not> roles_seen c (session_region h) k"
    from roles_poll_timeout[of 0 c "session_region h"] ns
    have f: "fst rp = (False, 24)"
      and p: "filter (\<lambda>e. \<not> is_print e) (snd rp) = roles_events c 0 24"
      by (simp_all add: rp_def)
    from launch_and_bind_starts[of c h cfg m]
    obtain post where post: "snd lb = Api Launch (raised (launch h)) # post"
      by (auto simp: lb_def)
    have "tr = pre0 @ snd rp
                @ [Print ''Verification timed out - proceeding anyway (roles may still be propagating)'',
                   Api Launch (raised (launch h))]
                @ (post @ fin)"
      by (simp add: tr_def f roles_report_def post)
    with p show "\<exists>pre polls post.
           tr = pre @ polls
                @ [Print ''Verification timed out - proceeding anyway (roles may still be propagating)'',
                   Api Launch (raised (launch h))]
                @ post \<and>
           filter (\<lambda>e. \<not> is_print e) polls = roles_events c 0 24"
      by blast
  qed
  have hard: "\<forall>arn. launch h = Inr arn \<and> (\<forall>k. 0 < k \<and> k \<le> 24 \<longrightarrow> \<not> role_seen c (last_segment arn) k) \<longrightarrow>
        st = 1 \<and> never binding tr \<and>
        (\<exists>pre polls.
           tr = pre @ Api Launch None # Print ''AgentCore runtime created''
                  # Print (''Runtime ARN: '' @ arn) # polls
                @ [Print ''DEPLOYMENT FAILED'',
                   Print ''Error: IAM role failed to propagate after 120 seconds'']
                @ troubleshooting \<and>
           filter is_sleep polls = replicate 24 (Sleep 5) \<and>
           filter (\<lambda>cl. cl = GetAgentRuntime (last_segment arn)) (calls polls)
             = replicate 24 (GetAgentRuntime (last_segment arn)))"
  proof (intro allI impI)
    fix arn
    assume a: "launch h = Inr arn \<and> (\<forall>k. 0 < k \<and> k \<le> 24 \<longrightarrow> \<not> role_seen c (last_segment arn) k)"
    then have l: "launch h = Inr arn"
      and ns: "\<forall>k. 0 < k \<and> k \<le> 24 \<longrightarrow> \<not> role_seen c (last_segment arn) k" by simp_all
    define polls where "polls = snd (role_poll c (last_segment arn) 0)"
    have lbv: "lb = (Raise (Exception ''IAM role failed to propagate after 120 seconds''),
        [Api Launch None, Print ''AgentCore runtime created'', Print (''Runtime ARN: '' @ arn)] @ polls)"
      by (simp add: lb_def m_def polls_def launch_and_bind_timeout[OF l ns])
    have st1: "st = 1" by (simp add: st_def lbv)
    from role_poll_timeout[of 0 c "last_segment arn"] ns
    have sl: "filter is_sleep polls = replicate 24 (Sleep 5)"
      and gl: "filter (\<lambda>cl. cl = GetAgentRuntime (last_segment arn)) (calls polls)
             = replicate 24 (GetAgentRuntime (last_segment arn))"
      by (simp_all add: polls_def)
    have treq: "tr = (pre0 @ snd rp @ roles_report (fst rp)) @ Api Launch None # Print ''AgentCore runtime created''
                  # Print (''Runtime ARN: '' @ arn) # polls
                @ [Print ''DEPLOYMENT FAILED'',
                   Print ''Error: IAM role failed to propagate after 120 seconds'']
                @ troubleshooting"
      by (simp add: tr_def fin_def lbv)
    have b0: "never binding tr0"
      by (rule never_check_existing_mcp_server[OF _ _ assms(2)]) simp_all
    have b1: "never binding (snd (before_check c h cfg))"
      by (rule never_before_check) simp_all
    have b2: "never binding (snd (setup_cognito_user_pool c h cfg))"
      by (rule never_setup_cognito_user_pool) (case_tac cl, simp_all)
    have b3: "never binding (snd rp)"
      unfolding rp_def by (rule never_roles_poll) simp
    have b4: "never binding polls"
      unfolding polls_def by (rule never_role_poll) simp_all
    have nb: "never binding tr"
      using b0 b1 b2 b3 b4 by (simp add: treq pre0_def)
    from st1 nb treq sl gl show "st = 1 \<and> never binding tr \<and>
        (\<exists>pre polls.
           tr = pre @ Api Launch None # Print ''AgentCore runtime created''
                  # Print (''Runtime ARN: '' @ arn) # polls
                @ [Print ''DEPLOYMENT FAILED'',
                   Print ''Error: IAM role failed to propagate after 120 seconds'']
                @ troubleshooting \<and>
           filter is_sleep polls = replicate 24 (Sleep 5) \<and>
           filter (\<lambda>cl. cl = GetAgentRuntime (last_segment arn)) (calls polls)
             = replicate 24 (GetAgentRuntime (last_segment arn)))"
      by blast
  qed
  show ?thesis
    apply (intro exI[of _ st] exI[of _ tr] conjI)
       apply (rule s)
      apply (rule n24)
     apply (rule soft)
    apply (rule hard)
    done
qed

lemma nothing_deployed:
  "check_existing_mcp_server roles_never_seen (mcp_server_name the_config) =
     Some (None, [Api (ListAgentRuntimes None) None, Print ''Result: No existing MCP server found''])"
  unfolding check_existing_mcp_server_def
  by (subst existing_pages.simps)
     (simp add: roles_never_seen_def empty_cloud_def sent_token_def)

text \<open>
  No role ever shows up: the warning is followed by the launch, and the run fails after
  the 24 attempts that follow the launch.
\<close>

theorem role_checks_soft_then_hard_witness:
  "\<exists>tr. deploy_script roles_never_seen the_host the_config ''y'' = Some (1, tr) \<and>
      never binding tr \<and>
      (\<exists>pre polls post.
         tr = pre @ polls
              @ [Print ''Verification timed out - proceeding anyway (roles may still be propagating)'',
                 Api Launch None]
              @ post \<and>
         filter (\<lambda>e. \<not> is_print e) polls = roles_events roles_never_seen 0 24) \<and>
      (\<exists>pre polls.
         tr = pre @ polls
              @ [Print ''DEPLOYMENT FAILED'',
                 Print ''Error: IAM role failed to propagate after 120 seconds'']
              @ troubleshooting \<and>
         filter is_sleep polls = replicate 24 (Sleep 5))"
proof -
  let ?c = roles_never_seen and ?arn = "''arn:aws:bedrock-agentcore:us-east-1:111122223333:runtime/ins-mcp-1''"
  have "\<exists>cc. fst (setup_cognito_user_pool ?c the_host the_config) = Some cc"
    by (simp add: setup_cognito_user_pool_def create_domain_def create_scopes_def
          create_service_client_def store_credentials_def prepend_def roles_never_seen_def
          empty_cloud_def)
  then obtain cc where cc: "fst (setup_cognito_user_pool ?c the_host the_config) = Some cc" ..
  have f1: "path_exists the_host ''mcpserver.py''" and f2: "path_exists the_host ''requirements.txt''"
    by (simp_all add: the_host_def)
  have ri: "runtime_init the_host = Inr ()" by (simp add: the_host_def)
  have cf: "configure the_host (make_config_params the_host the_config (new_mode cc)) = Inr ()"
    by (simp add: the_host_def)
  have ci: "get_caller_identity ?c = Inr ''111122223333''"
    by (simp add: roles_never_seen_def empty_cloud_def)
  have l: "launch the_host = Inr ?arn" by (simp add: the_host_def)
  have rs: "\<forall>k. 0 < k \<and> k \<le> 24 \<longrightarrow> \<not> roles_seen ?c (session_region the_host) k"
    by (simp add: roles_seen_def roles_ready_def roles_never_seen_def empty_cloud_def)
  have r1: "\<forall>k. 0 < k \<and> k \<le> 24 \<longrightarrow> \<not> role_seen ?c (last_segment ?arn) k"
    by (simp add: role_seen_def roles_never_seen_def empty_cloud_def)
  from role_checks_soft_then_hard[OF copy_on_the_host nothing_deployed cc f1 f2 ri cf ci, of "''y''"]
  obtain st tr where s: "deploy_script ?c the_host the_config ''y'' = Some (st, tr)"
    and soft: "(\<forall>k. 0 < k \<and> k \<le> 24 \<longrightarrow> \<not> roles_seen ?c (session_region the_host) k) \<longrightarrow>
        (\<exists>pre polls post.
           tr = pre @ polls
                @ [Print ''Verification timed out - proceeding anyway (roles may still be propagating)'',
                   Api Launch (raised (launch the_host))]
                @ post \<and>
           filter (\<lambda>e. \<not> is_print e) polls = roles_events ?c 0 24)"
    and hard: "\<forall>arn. launch the_host = Inr arn \<and> (\<forall>k. 0 < k \<and> k \<le> 24 \<longrightarrow> \<not> role_seen ?c (last_segment arn) k) \<longrightarrow>
        st = 1 \<and> never binding tr \<and>
        (\<exists>pre polls.
           tr = pre @ Api Launch None # Print ''AgentCore runtime created''
                  # Print (''Runtime ARN: '' @ arn) # polls
                @ [Print ''DEPLOYMENT FAILED'',
                   Print ''Error: IAM role failed to propagate after 120 seconds'']
                @ troubleshooting \<and>
           filter is_sleep polls = replicate 24 (Sleep 5) \<and>
           filter (\<lambda>cl. cl = GetAgentRuntime (last_segment arn)) (calls polls)
             = replicate 24 (GetAgentRuntime (last_segment arn)))"
    by blast
  from soft rs have a: "\<exists>pre polls post.
         tr = pre @ polls
              @ [Print ''Verification timed out - proceeding anyway (roles may still be propagating)'',
                 Api Launch None]
              @ post \<and>
         filter (\<lambda>e. \<not> is_print e) polls = roles_events ?c 0 24"
    by (simp add: l raised_def)
  from hard l r1 have b: "st = 1 \<and> never binding tr \<and>
        (\<exists>pre polls.
           tr = pre @ Api Launch None # Print ''AgentCore runtime created''
                  # Print (''Runtime ARN: '' @ ?arn) # polls
                @ [Print ''DEPLOYMENT FAILED'',
                   Print ''Error: IAM role failed to propagate after 120 seconds'']
                @ troubleshooting \<and>
           filter is_sleep polls = replicate 24 (Sleep 5) \<and>
           filter (\<lambda>cl. cl = GetAgentRuntime (last_segment ?arn)) (calls polls)
             = replicate 24 (GetAgentRuntime (last_segment ?arn)))"
    by blast
  then obtain pre polls where p: "tr = (pre @ [Api Launch None, Print ''AgentCore runtime created'',
                  Print (''Runtime ARN: '' @ ?arn)]) @ polls
                @ [Print ''DEPLOYMENT FAILED'',
                   Print ''Error: IAM role failed to propagate after 120 seconds'']
                @ troubleshooting" and sl: "filter is_sleep polls = replicate 24 (Sleep 5)"
    by auto
  from p sl have c: "\<exists>pre polls.
         tr = pre @ polls
              @ [Print ''DEPLOYMENT FAILED'',
                 Print ''Error: IAM role failed to propagate after 120 seconds'']
              @ troubleshooting \<and>
         filter is_sleep polls = replicate 24 (Sleep 5)"
    by blast
  from b have st: "st = 1" and nb: "never binding tr" by simp_all
  show ?thesis
    apply (rule exI[of _ tr])
    apply (intro conjI)
       apply (simp add: s st)
      apply (rule nb)
     apply (rule a)
    apply (rule c)
    done
qed

section \<open>Errors of the deployment\<close>

lemma failed_unguarded_append [simp]:
  "failed_unguarded (a @ b) \<longleftrightarrow> failed_unguarded a \<or> failed_unguarded b"
  by (induction a rule: failed_unguarded.induct) auto

lemma never_unguarded_not_failed: "never unguarded tr \<Longrightarrow> \<not> failed_unguarded tr"
  by (induction tr rule: failed_unguarded.induct) auto


lemma fatal_called [simp]: "fatal (called cl r)"
  by (cases r) (auto simp: fatal_def called_def)

lemma fatal_quiet: "never unguarded (snd m) \<Longrightarrow> fatal m"
  by (simp add: fatal_def never_unguarded_not_failed)



lemma no_exit_called [simp]: "no_exit (called cl r)"
  by (cases r) (auto simp: no_exit_def called_def)

lemma no_exit_Ok [simp]: "no_exit (Ok a, tr)"
  by (simp add: no_exit_def)

lemma no_exit_Raise [simp]: "no_exit (Raise e, tr)"
  by (simp add: no_exit_def)

lemma no_exit_unhandled [simp]: "no_exit (unhandled r)"
  by (simp add: no_exit_def)

lemma no_exit_prepend [simp]: "no_exit (prepend tr m) \<longleftrightarrow> no_exit m"
  by (simp add: no_exit_def)

lemma fatal_Ok_prints [simp]: "never unguarded tr \<Longrightarrow> fatal (Ok a, tr)"
  by (rule fatal_quiet) simp





























subsection \<open>Where an exception leaves the function\<close>


lemma fst_then_do_Ok_iff:
  "fst (then_do m f) = Ok b \<longleftrightarrow> (\<exists>a. fst m = Ok a \<and> fst (f a) = Ok b)"
  by (cases m; cases "fst m") (auto simp: then_do_def prepend_def)

lemma fst_called_Raise [simp]: "fst (called cl r) = Raise e \<longleftrightarrow> r = Inl e"
  by (cases r) (auto simp: called_def)

lemma fst_called_Ok [simp]: "fst (called cl r) = Ok v \<longleftrightarrow> r = Inr v"
  by (cases r) (auto simp: called_def)







lemma validate_files_Ok:
  "fst (validate_files h [''mcpserver.py'', ''requirements.txt'']) = Ok () \<longleftrightarrow>
     path_exists h ''mcpserver.py'' \<and> path_exists h ''requirements.txt''"
  by auto


lemma configure_runtime_Ok:
  "fst (configure_runtime h cfg m) = Ok () \<longleftrightarrow>
     runtime_init h = Inr () \<and> configure h (make_config_params h cfg m) = Inr ()"
  by (simp add: configure_runtime_def fst_then_do_Ok_iff)


lemma verify_roles_propagation_Ok:
  "fst (verify_roles_propagation c h m) = Ok () \<longleftrightarrow>
     (\<not> reuse_existing m \<longrightarrow> (\<exists>account_id. get_caller_identity c = Inr account_id))"
  by (auto simp: verify_roles_propagation_def fst_then_do_Ok_iff split: prod.splits)


lemma launch_runtime_Ok: "fst (launch_runtime h m) = Ok arn \<longleftrightarrow> launch h = Inr arn"
  by (auto simp: launch_runtime_def fst_then_do_Ok_iff)












subsection \<open>Where an exception is caught\<close>











end
